theory Spec2Isabelle
  imports Main "HOL-Library.Sublist"
begin

section \<open>JavaScript values used by the pipeline\<close>

text \<open>
  Strings are \<open>string\<close>. An optional field (\<open>x?: T\<close>, \<open>T | undefined\<close>) is
  \<open>T option\<close>. A JavaScript \<open>Set\<close> is the list of its elements in insertion order:
  \<open>add\<close> appends an element that is not yet a member, \<open>delete\<close> removes it,
  \<open>has\<close> is membership. Field names that several source types share carry a suffix
  for the type they belong to (\<open>_O\<close> options, \<open>_M\<close> Meta, \<open>_R\<close> EngineScrapeResult,
  \<open>_P\<close> prefetch, \<open>_S\<close> SpecialtyPlan, \<open>_I\<close> detection input, \<open>_D\<close> Document,
  \<open>_MD\<close> document metadata).
\<close>

definition truthy :: "string option \<Rightarrow> bool" where
  "truthy s = (case s of None \<Rightarrow> False | Some t \<Rightarrow> t \<noteq> [])"

definition truthyB :: "bool option \<Rightarrow> bool" where
  "truthyB b = (case b of None \<Rightarrow> False | Some t \<Rightarrow> t)"

definition truthyN :: "nat option \<Rightarrow> bool" where
  "truthyN n = (case n of None \<Rightarrow> False | Some k \<Rightarrow> 0 < k)"

fun startsWith :: "string \<Rightarrow> string \<Rightarrow> bool" where
  "startsWith s [] = True"
| "startsWith [] (p # ps) = False"
| "startsWith (c # cs) (p # ps) = (c = p \<and> startsWith cs ps)"

fun includesStr :: "string \<Rightarrow> string \<Rightarrow> bool" where
  "includesStr [] p = (p = [])"
| "includesStr (c # cs) p = (startsWith (c # cs) p \<or> includesStr cs p)"

definition toLowerChar :: "char \<Rightarrow> char" where
  "toLowerChar c =
     (let n = (of_char c :: nat) in if 65 \<le> n \<and> n \<le> 90 then char_of (n + 32) else c)"

definition toLowerCase :: "string \<Rightarrow> string" where
  "toLowerCase s = map toLowerChar s"

fun join :: "string \<Rightarrow> string list \<Rightarrow> string" where
  "join sep [] = []"
| "join sep [x] = x"
| "join sep (x # y # ys) = x @ sep @ join sep (y # ys)"

definition set_add :: "'a \<Rightarrow> 'a list \<Rightarrow> 'a list" where
  "set_add x xs = (if x \<in> set xs then xs else xs @ [x])"

definition set_has :: "'a list \<Rightarrow> 'a \<Rightarrow> bool" where
  "set_has xs x = (x \<in> set xs)"

definition set_delete :: "'a \<Rightarrow> 'a list \<Rightarrow> 'a list" where
  "set_delete x xs = removeAll x xs"

section \<open>Engines, feature flags and the capability table (engines/index.ts)\<close>

datatype Engine = FireEngineChromeCdp | Playwright | Fetch | Index

datatype FeatureFlag =
  Actions | WaitFor | Screenshot | ScreenshotFullScreen | Atsv | Location | Mobile
  | SkipTlsVerification | UseFastMode | StealthProxy | Branding | DisableAdblock

fun flagName :: "FeatureFlag \<Rightarrow> string" where
  "flagName Actions = ''actions''"
| "flagName WaitFor = ''waitFor''"
| "flagName Screenshot = ''screenshot''"
| "flagName ScreenshotFullScreen = ''screenshot@fullScreen''"
| "flagName Atsv = ''atsv''"
| "flagName Location = ''location''"
| "flagName Mobile = ''mobile''"
| "flagName SkipTlsVerification = ''skipTlsVerification''"
| "flagName UseFastMode = ''useFastMode''"
| "flagName StealthProxy = ''stealthProxy''"
| "flagName Branding = ''branding''"
| "flagName DisableAdblock = ''disableAdblock''"

fun engineName :: "Engine \<Rightarrow> string" where
  "engineName FireEngineChromeCdp = ''fire-engine;chrome-cdp''"
| "engineName Playwright = ''playwright''"
| "engineName Fetch = ''fetch''"
| "engineName Index = ''index''"

text \<open>
  \<open>engineOptions[engine].features\<close>, as the entries \<open>Object.entries\<close> lists them
  (the object literal's order).
\<close>

fun engineOptions :: "Engine \<Rightarrow> (FeatureFlag \<times> bool) list" where
  "engineOptions Index =
     [(Actions, False), (WaitFor, True), (Screenshot, True), (ScreenshotFullScreen, True),
      (Atsv, False), (Location, True), (Mobile, True), (SkipTlsVerification, True),
      (UseFastMode, True), (StealthProxy, False), (Branding, False), (DisableAdblock, True)]"
| "engineOptions FireEngineChromeCdp =
     [(Actions, True), (WaitFor, True), (Screenshot, True), (ScreenshotFullScreen, True),
      (Atsv, False), (Location, True), (Mobile, True), (SkipTlsVerification, True),
      (UseFastMode, False), (StealthProxy, True), (Branding, True), (DisableAdblock, False)]"
| "engineOptions Playwright =
     [(Actions, False), (WaitFor, True), (Screenshot, False), (ScreenshotFullScreen, False),
      (Atsv, False), (Location, False), (Mobile, False), (SkipTlsVerification, True),
      (UseFastMode, False), (StealthProxy, False), (Branding, False), (DisableAdblock, False)]"
| "engineOptions Fetch =
     [(Actions, False), (WaitFor, False), (Screenshot, False), (ScreenshotFullScreen, False),
      (Atsv, False), (Location, False), (Mobile, False), (SkipTlsVerification, True),
      (UseFastMode, True), (StealthProxy, False), (Branding, False), (DisableAdblock, False)]"

text \<open>The flags an engine's table marks \<open>true\<close>: \<open>engineOptions[engine].features[flag]\<close>.\<close>

definition supportsFeature :: "Engine \<Rightarrow> FeatureFlag \<Rightarrow> bool" where
  "supportsFeature engine flag = (map_of (engineOptions engine) flag = Some True)"

section \<open>Request options, results and the request context\<close>

datatype ProxyTier = Basic | Stealth

record Action =
  actionType :: string

record Format =
  formatType :: string
  fullPage :: "bool option"
  viewport :: "string option"
  quality :: "nat option"

text \<open>One entry of \<open>options.parsers\<close>: its type name and its optional page limit.\<close>

datatype Parser = Parser string "nat option"

record ScrapeOptions =
  formats :: "Format list"
  actions_O :: "Action list option"
  waitFor :: nat
  location :: "string option"
  mobile :: bool
  skipTlsVerification :: "bool option"
  fastMode :: bool
  proxy :: "string option"
  blockAds :: "bool option"
  headers_O :: "(string \<times> string) list option"
  maxAge :: "nat option"
  parsers :: "Parser list"
  timeout :: "nat option"

record InternalOptions =
  teamId :: string
  forceEngine :: "Engine option"
  atsv :: "bool option"
  zeroDataRetention :: "bool option"
  unnormalizedSourceURL :: "string option"

record PdfMetadata =
  numPages :: nat
  title :: "string option"

record BinaryFile =
  name_BF :: "string option"
  content :: string

text \<open>A \<open>Date\<close> is kept as the text \<open>toISOString\<close> gives for it.\<close>

record CacheInfo =
  created_at :: string

typedecl ActionArtifacts
typedecl BrandingProfile

record EngineScrapeResult =
  url_R :: string
  html_R :: string
  markdown_R :: "string option"
  statusCode_R :: nat
  error_R :: "string option"
  screenshot_R :: "string option"
  actions_R :: "ActionArtifacts option"
  branding_R :: "BrandingProfile option"
  pdfMetadata :: "PdfMetadata option"
  cacheInfo :: "CacheInfo option"
  contentType_R :: "string option"
  youtubeTranscriptContent :: "string option"
  postprocessorsUsed_R :: "string list option"
  proxyUsed_R :: "ProxyTier option"
  timezone_R :: "string option"
  binaryFile_R :: "BinaryFile option"

record Prefetch =
  filePath :: string
  url_P :: "string option"
  status_P :: nat
  proxyUsed_P :: ProxyTier
  contentType_P :: "string option"

text \<open>
  A prefetch slot of Meta: \<open>undefined\<close> (no prefetch yet), \<open>null\<close> (prefetch came back
  empty) or a prefetch.
\<close>

datatype PrefetchSlot = NoPrefetchYet | PrefetchEmpty | Prefetched Prefetch

record Meta =
  id_M :: string
  url_M :: string
  rewrittenUrl :: "string option"
  options :: ScrapeOptions
  internalOptions :: InternalOptions
  featureFlags :: "FeatureFlag list"
  pdfPrefetch :: PrefetchSlot
  documentPrefetch :: PrefetchSlot
  winnerEngine :: "Engine option"

section \<open>Errors, effects and the collaborators outside the pipeline\<close>

text \<open>
  Every \<open>throw\<close> of the source is a value of \<open>exn\<close>; a function that may throw
  returns \<open>exn + 'a\<close> (\<open>Inl\<close> the error). \<open>JsError\<close> is a plain \<open>Error\<close>,
  \<open>FsError\<close> a failure of the file system, \<open>CollaboratorError\<close> any other error
  a collaborator raises.
\<close>

datatype exn =
  EngineError string | IndexMissError | NoCachedDataError | ActionsNotSupportedError string
  | JsError string | ZDRViolationError string | PDFPrefetchFailed | DocumentPrefetchFailed
  | PDFInsufficientTimeError nat nat | AbortManagerThrownError | TypeError string
  | FsError string | CollaboratorError string

datatype LogLevel = LogDebug | LogInfo | LogWarn | LogError

text \<open>
  What a request does to the outside is recorded in order: engine invocations, file
  downloads, file-system calls, the document parser's invocation and log lines (the message;
  the structured context object of a log call is not kept).
\<close>

datatype event =
  EngineInvoked Engine
  | DownloadRequested string
  | FileWritten string
  | FileRead string
  | UnlinkCalled string
  | DocumentParserInvoked
  | Logged LogLevel string

text \<open>
  The state the pipeline acts on: the history of events, the temporary files on disk (path
  to bytes) and the number of UUIDs drawn so far.
\<close>

record world =
  trace :: "event list"
  files :: "string \<rightharpoonup> string"
  uuidsDrawn :: nat

record Config =
  FIRE_ENGINE_BETA_URL :: "string option"
  PLAYWRIGHT_MICROSERVICE_URL :: "string option"
  FIRECRAWL_INDEX_WRITE_ONLY :: "bool option"
  RUNPOD_MU_API_KEY :: "string option"
  RUNPOD_MU_POD_ID :: "string option"
  useIndex :: bool

record PDFProcessorResult =
  html_PR :: string
  markdown_PR :: "string option"

text \<open>What \<open>downloadFile\<close> resolves to: the temporary file's path, the response's url,
  status and Content-Type header, and the bytes it stored.\<close>

record Download =
  tempFilePath :: string
  url_resp :: string
  status_resp :: nat
  contentType_resp :: "string option"
  bytes_resp :: string

datatype CacheState = Hit | Miss

record DocumentMetadata =
  sourceURL :: string
  url_MD :: string
  statusCode_MD :: nat
  error_MD :: "string option"
  numPages_MD :: "nat option"
  title_MD :: "string option"
  contentType_MD :: "string option"
  timezone_MD :: "string option"
  proxyUsed_MD :: ProxyTier
  cacheState :: "CacheState option"
  cachedAt :: "string option"
  postprocessorsUsed_MD :: "string list option"

record Document =
  markdown_D :: "string option"
  rawHtml :: string
  screenshot_D :: "string option"
  actions_D :: "ActionArtifacts option"
  branding_D :: "BrandingProfile option"
  metadata :: DocumentMetadata
  warning :: "string option"

text \<open>
  The postprocessor contract: \<open>name\<close>, \<open>shouldRun(meta, url, postprocessorsUsed)\<close> and
  \<open>run(meta, engineResult)\<close>, which may throw. \<open>run\<close> is handed the working result
  object itself, not a copy, and may write to it before it returns or throws: the outcome of
  a call comes with the contents of that object as the call left them.
\<close>

record Postprocessor =
  name_PP :: string
  shouldRun :: "Meta \<Rightarrow> string \<Rightarrow> string list option \<Rightarrow> bool"
  run :: "Meta \<Rightarrow> EngineScrapeResult \<Rightarrow> world
            \<Rightarrow> (exn + EngineScrapeResult) \<times> EngineScrapeResult"

text \<open>
  Every call of a collaborator is taken to return, with a value or with an error; a call
  that never returns is outside this model.
  The collaborators whose code is outside these sources are parameters: the configuration,
  the engines' handlers, the file download, the document parser, the postprocessor list, the
  transformers, the PDF services, the abort manager's state (as it stands after a given
  history) and the library functions (URL parsing, paths, UUIDs, base64, HTML escaping).
  \<open>getPDFMaxPages\<close> and \<open>shouldParsePDF\<close> (controllers/v2/types) are parameters as well.
\<close>

record env =
  config :: Config
  getPDFMaxPages :: "Parser list \<Rightarrow> nat option"
  shouldParsePDF :: "Parser list \<Rightarrow> bool"
  engineHandlers :: "Engine \<Rightarrow> Meta \<Rightarrow> world \<Rightarrow> exn + EngineScrapeResult"
  fetchFile :: "string \<Rightarrow> string \<Rightarrow> bool option \<Rightarrow> (string \<times> string) list option \<Rightarrow> world
                 \<Rightarrow> exn + Download"
  scrapeDocument :: "Meta \<Rightarrow> world \<Rightarrow> exn + EngineScrapeResult"
  postprocessors :: "Postprocessor list"
  executeTransformers :: "Meta \<Rightarrow> Document \<Rightarrow> world \<Rightarrow> exn + Document"
  validURL :: "string \<Rightarrow> bool"
  aborted :: "world \<Rightarrow> bool"
  scrapeTimeout :: "world \<Rightarrow> nat option"
  tmpdir :: string
  pathJoin :: "string \<Rightarrow> string \<Rightarrow> string"
  randomUUID :: "nat \<Rightarrow> string"
  writeFileFails :: "string \<Rightarrow> world \<Rightarrow> bool"
  base64Decode :: "string \<Rightarrow> string"
  base64Encode :: "string \<Rightarrow> string"
  getPdfMetadata :: "string \<Rightarrow> world \<Rightarrow> exn + PdfMetadata"
  scrapePDFWithRunPodMU :: "Meta \<Rightarrow> string \<Rightarrow> string \<Rightarrow> nat option \<Rightarrow> world
                               \<Rightarrow> exn + PDFProcessorResult"
  pdfParseText :: "string \<Rightarrow> exn + string"
  escapeHtml :: "string \<Rightarrow> string"
  JSON_stringify :: "string \<Rightarrow> string"

definition logMsg :: "LogLevel \<Rightarrow> string \<Rightarrow> world \<Rightarrow> world" where
  "logMsg level msg w = w\<lparr>trace := trace w @ [Logged level msg]\<rparr>"

definition record_event :: "event \<Rightarrow> world \<Rightarrow> world" where
  "record_event ev w = w\<lparr>trace := trace w @ [ev]\<rparr>"

section \<open>getUnsupportedFeatures\<close>

definition getUnsupportedFeatures :: "Meta \<Rightarrow> Engine \<Rightarrow> FeatureFlag list" where
  "getUnsupportedFeatures meta engine =
     (let supportedFlags =
            map fst (filter (\<lambda>(flag, isSupported). isSupported \<and> set_has (featureFlags meta) flag)
                       (engineOptions engine));
          unsupportedFeatures = featureFlags meta
      in fold (\<lambda>flag acc. if set_has supportedFlags flag then set_delete flag acc else acc)
           (featureFlags meta) unsupportedFeatures)"

section \<open>Feature flags of a request (buildFeatureFlags)\<close>

text \<open>
  Modelled from the spec: \<open>hasFormatOfType\<close> (lib/format-utils) is not among the sources;
  it is the first entry of \<open>formats\<close> with the given type, \<open>undefined\<close> when there is
  none ("screenshot format requested", "depending on a full-page sub-option").
\<close>

definition hasFormatOfType :: "Format list \<Rightarrow> string \<Rightarrow> Format option" where
  "hasFormatOfType fs t = find (\<lambda>f. formatType f = t) fs"

definition buildFeatureFlags ::
  "string \<Rightarrow> ScrapeOptions \<Rightarrow> InternalOptions \<Rightarrow> FeatureFlag list" where
  "buildFeatureFlags url opts internalOpts =
     (let flags = [];
          flags = (if actions_O opts \<noteq> None then set_add Actions flags else flags);
          flags = (case hasFormatOfType (formats opts) ''screenshot'' of
                     None \<Rightarrow> flags
                   | Some f \<Rightarrow>
                       if truthyB (fullPage f) then set_add ScreenshotFullScreen flags
                       else set_add Screenshot flags);
          flags = (if hasFormatOfType (formats opts) ''branding'' \<noteq> None
                   then set_add Branding flags else flags);
          flags = (if waitFor opts \<noteq> 0 then set_add WaitFor flags else flags);
          flags = (if truthyB (atsv internalOpts) then set_add Atsv flags else flags);
          flags = (if location opts \<noteq> None then set_add Location flags else flags);
          flags = (if mobile opts then set_add Mobile flags else flags);
          flags = (if truthyB (skipTlsVerification opts)
                   then set_add SkipTlsVerification flags else flags);
          flags = (if fastMode opts then set_add UseFastMode flags else flags);
          flags = (if proxy opts = Some ''stealth'' then set_add StealthProxy flags else flags);
          flags = (if blockAds opts = Some False then set_add DisableAdblock flags else flags)
      in flags)"

section \<open>Engine selection helpers (engines/index.ts)\<close>

definition selectLiveEngine :: "env \<Rightarrow> Meta \<Rightarrow> world \<Rightarrow> Engine \<times> world" where
  "selectLiveEngine e meta w =
     (if truthy (FIRE_ENGINE_BETA_URL (config e)) then (FireEngineChromeCdp, w)
      else if truthy (PLAYWRIGHT_MICROSERVICE_URL (config e)) then (Playwright, w)
      else (Fetch, logMsg LogInfo ''No live engine configured; defaulting to fetch'' w))"

definition shouldUseIndex :: "env \<Rightarrow> Meta \<Rightarrow> bool" where
  "shouldUseIndex e meta =
     (let screenshotFormat = hasFormatOfType (formats (options meta)) ''screenshot'';
          hasCustomScreenshotSettings =
            (case screenshotFormat of
               None \<Rightarrow> False
             | Some f \<Rightarrow> (case viewport f of Some v \<Rightarrow> True
                          | None \<Rightarrow> (case quality f of Some q \<Rightarrow> True | None \<Rightarrow> False)))
      in useIndex (config e)
         \<and> FIRECRAWL_INDEX_WRITE_ONLY (config e) \<noteq> Some True
         \<and> hasFormatOfType (formats (options meta)) ''changeTracking'' = None
         \<and> hasFormatOfType (formats (options meta)) ''branding'' = None
         \<and> getPDFMaxPages e (parsers (options meta)) = None
         \<and> \<not> hasCustomScreenshotSettings
         \<and> maxAge (options meta) \<noteq> Some 0
         \<and> (case headers_O (options meta) of None \<Rightarrow> True | Some hs \<Rightarrow> length hs = 0)
         \<and> (case actions_O (options meta) of None \<Rightarrow> True | Some as \<Rightarrow> length as = 0)
         \<and> proxy (options meta) \<noteq> Some ''stealth'')"

text \<open>
  \<open>engineHandlers\<close> has a handler for each of the four engines, so the
  "Unsupported engine" branch of the source cannot be reached from an \<open>Engine\<close>. The
  handler runs on a copy of Meta with a fresh copy of the flag set (equal to Meta here).
\<close>

definition scrapeURLWithEngine ::
  "env \<Rightarrow> Meta \<Rightarrow> Engine \<Rightarrow> world \<Rightarrow> (exn + EngineScrapeResult) \<times> world" where
  "scrapeURLWithEngine e meta engine w =
     (let meta' = meta\<lparr>featureFlags := featureFlags meta\<rparr>
      in (engineHandlers e engine meta' w, record_event (EngineInvoked engine) w))"

section \<open>Specialty content detection (engines/utils/specialtyHandler.ts)\<close>

datatype SpecialtyType = PdfType | DocumentType

record SpecialtyPlan =
  type_S :: SpecialtyType
  contentType_S :: "string option"
  prefetch :: "Prefetch option"

record SpecialtyDetectionInput =
  headers_I :: "(string \<times> string) list option"
  contentType_I :: "string option"
  body :: "string option"
  binaryFile_I :: "BinaryFile option"
  url_I :: "string option"
  status_I :: "nat option"
  proxyUsed_I :: "ProxyTier option"

definition documentTypes :: "string list" where
  "documentTypes =
     [''application/vnd.openxmlformats-officedocument.wordprocessingml.document'',
      ''application/vnd.openxmlformats-officedocument.spreadsheetml.sheet'',
      ''application/vnd.ms-excel'',
      ''application/msword'',
      ''application/rtf'',
      ''text/rtf'',
      ''application/vnd.oasis.opendocument.text'']"

definition getHeaderContentType ::
  "(string \<times> string) list option \<Rightarrow> string option \<Rightarrow> string option" where
  "getHeaderContentType hdrs fallback =
     (if truthy fallback then fallback
      else (case find (\<lambda>x. toLowerCase (fst x) = ''content-type'')
                   (case hdrs of None \<Rightarrow> [] | Some hs \<Rightarrow> hs) of
              None \<Rightarrow> None
            | Some x \<Rightarrow> Some (snd x)))"

definition getDocumentExtension :: "string option \<Rightarrow> string" where
  "getDocumentExtension contentType =
     (case contentType of
        None \<Rightarrow> ''tmp''
      | Some ct \<Rightarrow>
          if ct = [] then ''tmp''
          else if includesStr ct ''wordprocessingml'' \<or> includesStr ct ''msword'' then ''docx''
          else if includesStr ct ''spreadsheetml'' \<or> includesStr ct ''ms-excel'' then ''xlsx''
          else if includesStr ct ''opendocument.text'' then ''odt''
          else if includesStr ct ''rtf'' then ''rtf''
          else ''tmp'')"

definition specialtyTypeName :: "SpecialtyType \<Rightarrow> string" where
  "specialtyTypeName t = (case t of PdfType \<Rightarrow> ''pdf'' | DocumentType \<Rightarrow> ''document'')"

text \<open>
  \<open>base64ToPrefetch\<close>: the context argument is passed as its four fields. The file name
  takes the next UUID; a failed write is logged and thrown on.
\<close>

definition base64ToPrefetch ::
  "env \<Rightarrow> string \<Rightarrow> string \<Rightarrow> SpecialtyType \<Rightarrow> string option \<Rightarrow> nat option
     \<Rightarrow> ProxyTier option \<Rightarrow> string option \<Rightarrow> world \<Rightarrow> (exn + Prefetch) \<times> world" where
  "base64ToPrefetch e contentBase64 fileExtension fileType ctxUrl ctxStatus ctxProxyUsed
       ctxContentType w =
     (let path = pathJoin e (tmpdir e)
                   (''tempFile-'' @ randomUUID e (uuidsDrawn w) @ ''.'' @ fileExtension);
          w1 = w\<lparr>uuidsDrawn := Suc (uuidsDrawn w)\<rparr>
      in if writeFileFails e path w1
         then (Inl (FsError path),
               logMsg LogError
                 (''Failed to write '' @ specialtyTypeName fileType @ '' prefetch file'') w1)
         else (Inr \<lparr>filePath = path,
                    url_P = ctxUrl,
                    status_P = (case ctxStatus of None \<Rightarrow> 200 | Some st \<Rightarrow> st),
                    proxyUsed_P = (case ctxProxyUsed of None \<Rightarrow> Basic | Some px \<Rightarrow> px),
                    contentType_P = ctxContentType\<rparr>,
               record_event (FileWritten path)
                 (w1\<lparr>files := (files w1)(path \<mapsto> base64Decode e contentBase64)\<rparr>)))"

definition hasPdfSignature :: "string option \<Rightarrow> string option \<Rightarrow> bool" where
  "hasPdfSignature bodyOpt binaryContent =
     (let raw = (case bodyOpt of None \<Rightarrow> [] | Some b \<Rightarrow> b);
          base64 = (case binaryContent of None \<Rightarrow> [] | Some b \<Rightarrow> b)
      in startsWith raw ''%PDF-'' \<or> startsWith raw ''JVBERi0'' \<or> startsWith base64 ''JVBERi0'')"

definition hasDocumentSignature :: "string option \<Rightarrow> string option \<Rightarrow> bool" where
  "hasDocumentSignature bodyOpt binaryContent =
     (let raw = (case bodyOpt of None \<Rightarrow> [] | Some b \<Rightarrow> b);
          base64 = (case binaryContent of None \<Rightarrow> [] | Some b \<Rightarrow> b)
      in startsWith raw ''PK'' \<or> startsWith raw ''UEsD'' \<or> startsWith base64 ''UEsD'')"

definition detectSpecialtyPlan ::
  "env \<Rightarrow> SpecialtyDetectionInput \<Rightarrow> world \<Rightarrow> (exn + SpecialtyPlan option) \<times> world" where
  "detectSpecialtyPlan e input w =
     (let contentType = getHeaderContentType (headers_I input) (contentType_I input);
          normalizedContentType = map_option toLowerCase contentType;
          binaryContent = map_option content (binaryFile_I input)
      in if \<not> truthy normalizedContentType \<and> \<not> truthy (body input) \<and> \<not> truthy binaryContent
         then (Inr None,
               logMsg LogWarn ''Failed to detect specialty type: no content or headers'' w)
         else
           let isDocument =
                 (case normalizedContentType of
                    None \<Rightarrow> False
                  | Some ct \<Rightarrow> list_ex (\<lambda>t. startsWith ct t) documentTypes);
               isPdf =
                 (case normalizedContentType of
                    None \<Rightarrow> False
                  | Some ct \<Rightarrow> ct = ''application/pdf'' \<or> startsWith ct ''application/pdf;'');
               isOctetStream =
                 (case normalizedContentType of
                    None \<Rightarrow> False
                  | Some ct \<Rightarrow> ct = ''application/octet-stream''
                              \<or> startsWith ct ''application/octet-stream;'')
           in if isDocument \<or> (isOctetStream \<and> hasDocumentSignature (body input) binaryContent)
              then (if truthy binaryContent
                    then (case base64ToPrefetch e (the binaryContent)
                                 (getDocumentExtension normalizedContentType) DocumentType
                                 (url_I input) (status_I input) (proxyUsed_I input)
                                 normalizedContentType w of
                            (Inl err, w1) \<Rightarrow> (Inl err, w1)
                          | (Inr pf, w1) \<Rightarrow>
                              (Inr (Some \<lparr>type_S = DocumentType,
                                          contentType_S = normalizedContentType,
                                          prefetch = Some pf\<rparr>), w1))
                    else (Inr (Some \<lparr>type_S = DocumentType,
                                     contentType_S = normalizedContentType,
                                     prefetch = None\<rparr>), w))
              else if isPdf \<or> (isOctetStream \<and> hasPdfSignature (body input) binaryContent)
              then (if truthy binaryContent
                    then (case base64ToPrefetch e (the binaryContent) ''pdf'' PdfType
                                 (url_I input) (status_I input) (proxyUsed_I input)
                                 normalizedContentType w of
                            (Inl err, w1) \<Rightarrow> (Inl err, w1)
                          | (Inr pf, w1) \<Rightarrow>
                              (Inr (Some \<lparr>type_S = PdfType,
                                          contentType_S = normalizedContentType,
                                          prefetch = Some pf\<rparr>), w1))
                    else (Inr (Some \<lparr>type_S = PdfType,
                                     contentType_S = normalizedContentType,
                                     prefetch = None\<rparr>), w))
              else if \<not> truthy normalizedContentType
                      \<and> hasDocumentSignature (body input) binaryContent
              then (Inr (Some \<lparr>type_S = DocumentType,
                               contentType_S = normalizedContentType,
                               prefetch = None\<rparr>), w)
              else if \<not> truthy normalizedContentType
                      \<and> hasPdfSignature (body input) binaryContent
              then (Inr (Some \<lparr>type_S = PdfType,
                               contentType_S = normalizedContentType,
                               prefetch = None\<rparr>), w)
              else (Inr None, w))"

section \<open>File system and download\<close>

text \<open>
  \<open>readFile\<close> and \<open>unlink\<close> of node:fs/promises on the temporary files: both fail on a
  path that holds no file; \<open>unlink\<close> removes the file.
\<close>

definition readFile :: "string \<Rightarrow> world \<Rightarrow> (exn + string) \<times> world" where
  "readFile path w =
     (case files w path of
        None \<Rightarrow> (Inl (FsError path), record_event (FileRead path) w)
      | Some bytes \<Rightarrow> (Inr bytes, record_event (FileRead path) w))"

definition unlink :: "string \<Rightarrow> world \<Rightarrow> (exn + unit) \<times> world" where
  "unlink path w =
     (case files w path of
        None \<Rightarrow> (Inl (FsError path), record_event (UnlinkCalled path) w)
      | Some bytes \<Rightarrow>
          (Inr (), record_event (UnlinkCalled path) (w\<lparr>files := (files w)(path := None)\<rparr>)))"

text \<open>
  Modelled from the spec: \<open>downloadFile\<close> (engines/utils/downloadFile) is not among the
  sources; it is the "dedicated re-download" that leaves "one temp file per specialty
  request" on disk: when the fetch succeeds the bytes are stored at the returned temporary
  path, and a failed fetch throws.
\<close>

definition downloadFile ::
  "env \<Rightarrow> string \<Rightarrow> string \<Rightarrow> bool option \<Rightarrow> (string \<times> string) list option \<Rightarrow> world
     \<Rightarrow> (exn + Download) \<times> world" where
  "downloadFile e ident url skipTls hdrs w =
     (let w1 = record_event (DownloadRequested url) w
      in case fetchFile e ident url skipTls hdrs w of
           Inl err \<Rightarrow> (Inl err, w1)
         | Inr d \<Rightarrow> (Inr d, w1\<lparr>files := (files w1)(tempFilePath d \<mapsto> bytes_resp d)\<rparr>))"

section \<open>The PDF parser (engines/pdf/index.ts)\<close>

definition MAX_FILE_SIZE :: nat where
  "MAX_FILE_SIZE = 19 * 1024 * 1024"

definition MILLISECONDS_PER_PAGE :: nat where
  "MILLISECONDS_PER_PAGE = 150"

definition scrapePDFWithParsePDF ::
  "env \<Rightarrow> Meta \<Rightarrow> string \<Rightarrow> world \<Rightarrow> (exn + PDFProcessorResult) \<times> world" where
  "scrapePDFWithParsePDF e meta path w =
     (let w1 = logMsg LogDebug ''Processing PDF document with parse-pdf'' w
      in case readFile path w1 of
           (Inl err, w2) \<Rightarrow> (Inl err, w2)
         | (Inr bytes, w2) \<Rightarrow>
             (case pdfParseText e bytes of
                Inl err \<Rightarrow> (Inl err, w2)
              | Inr txt \<Rightarrow>
                  (let escaped = escapeHtml e txt
                   in (Inr \<lparr>html_PR = escaped, markdown_PR = Some escaped\<rparr>, w2))))"

text \<open>
  The variables \<open>scrapePDF\<close> binds before its \<open>try\<close>: \<open>tempFilePath\<close>,
  \<open>responseUrl\<close>, \<open>statusCode\<close>, \<open>contentType\<close> and \<open>proxyUsed\<close>.
\<close>

record PdfSource =
  src_tempFilePath :: string
  src_responseUrl :: string
  src_statusCode :: nat
  src_contentType :: "string option"
  src_proxyUsed :: ProxyTier

text \<open>Lines 257 to 286 of scrapePDF: the prefetch is reused, or the file is downloaded.
  Both branches throw PDFPrefetchFailed on a content type that is not a PDF's.\<close>

definition scrapePDF_source :: "env \<Rightarrow> Meta \<Rightarrow> world \<Rightarrow> (exn + PdfSource) \<times> world" where
  "scrapePDF_source e meta w =
     (case pdfPrefetch meta of
        Prefetched pf \<Rightarrow>
          (let src = \<lparr>src_tempFilePath = filePath pf,
                      src_responseUrl =
                        (case url_P pf of
                           Some u \<Rightarrow> u
                         | None \<Rightarrow> (case rewrittenUrl meta of Some u \<Rightarrow> u | None \<Rightarrow> url_M meta)),
                      src_statusCode = status_P pf,
                      src_contentType = contentType_P pf,
                      src_proxyUsed = proxyUsed_P pf\<rparr>
           in if truthy (contentType_P pf)
                 \<and> \<not> includesStr (the (contentType_P pf)) ''application/pdf''
              then (Inl PDFPrefetchFailed, w)
              else (Inr src, w))
      | _ \<Rightarrow>
          (case downloadFile e (id_M meta)
                  (case rewrittenUrl meta of Some u \<Rightarrow> u | None \<Rightarrow> url_M meta)
                  (skipTlsVerification (options meta)) (headers_O (options meta)) w of
             (Inl err, w1) \<Rightarrow> (Inl err, w1)
           | (Inr file, w1) \<Rightarrow>
               (let src = \<lparr>src_tempFilePath = tempFilePath file,
                           src_responseUrl = url_resp file,
                           src_statusCode = status_resp file,
                           src_contentType = contentType_resp file,
                           src_proxyUsed = Basic\<rparr>
                in if truthy (contentType_resp file)
                      \<and> \<not> includesStr (the (contentType_resp file)) ''application/pdf''
                   then (Inl PDFPrefetchFailed, w1)
                   else (Inr src, w1))))"

text \<open>
  Lines 317 to 373: the RunPod service when the file is small enough and the service is
  configured, the local parser otherwise. Of \<open>scrapePDFWithRunPodMU\<close> (lines 33 to 231)
  only the outcome is kept (a result, its own error or the abort manager's), as a parameter:
  its requests to the service, its polling of the job and the log lines it writes itself
  are not part of the history; the log lines of \<open>scrapePDF\<close> around the call are.
\<close>

definition scrapePDF_process ::
  "env \<Rightarrow> Meta \<Rightarrow> string \<Rightarrow> string \<Rightarrow> nat option \<Rightarrow> world
     \<Rightarrow> (exn + PDFProcessorResult) \<times> world" where
  "scrapePDF_process e meta path base64Content maxPages w =
     (if length base64Content < MAX_FILE_SIZE
         \<and> truthy (RUNPOD_MU_API_KEY (config e)) \<and> truthy (RUNPOD_MU_POD_ID (config e))
      then (case scrapePDFWithRunPodMU e meta path base64Content maxPages w of
              Inr res \<Rightarrow> (Inr res, logMsg LogInfo ''MU v1 completed'' w)
            | Inl err \<Rightarrow>
                if err = AbortManagerThrownError then (Inl err, w)
                else (Inl err,
                      logMsg LogInfo ''MU v1 failed''
                        (logMsg LogWarn ''RunPod MU failed to parse PDF'' w)))
      else scrapePDFWithParsePDF e meta path w)"

text \<open>Lines 289 to 388: the body of the \<open>try\<close>.\<close>

definition scrapePDF_try ::
  "env \<Rightarrow> Meta \<Rightarrow> PdfSource \<Rightarrow> world \<Rightarrow> (exn + EngineScrapeResult) \<times> world" where
  "scrapePDF_try e meta src w =
     (let shouldParse = shouldParsePDF e (parsers (options meta));
          maxPages = getPDFMaxPages e (parsers (options meta))
      in case readFile (src_tempFilePath src) w of
           (Inl err, w1) \<Rightarrow> (Inl err, w1)
         | (Inr bytes, w1) \<Rightarrow>
             (let base64Content = base64Encode e bytes
              in if \<not> shouldParse
                 then (Inr \<lparr>url_R = src_responseUrl src, html_R = base64Content,
                            markdown_R = Some base64Content, statusCode_R = src_statusCode src,
                            error_R = None, screenshot_R = None, actions_R = None,
                            branding_R = None, pdfMetadata = None, cacheInfo = None,
                            contentType_R = src_contentType src,
                            youtubeTranscriptContent = None, postprocessorsUsed_R = None,
                            proxyUsed_R = Some (src_proxyUsed src), timezone_R = None,
                            binaryFile_R = None\<rparr>, w1)
                 else
                   (case getPdfMetadata e (src_tempFilePath src) w1 of
                      Inl err \<Rightarrow> (Inl err, w1)
                    | Inr pdfMeta \<Rightarrow>
                        (let effectivePageCount =
                               (if truthyN maxPages then min (numPages pdfMeta) (the maxPages)
                                else numPages pdfMeta)
                         in if (case scrapeTimeout e w1 of
                                  None \<Rightarrow> False
                                | Some t \<Rightarrow> effectivePageCount * MILLISECONDS_PER_PAGE > t)
                            then (Inl (PDFInsufficientTimeError effectivePageCount
                                         (effectivePageCount * MILLISECONDS_PER_PAGE + 5000)), w1)
                            else
                              (case scrapePDF_process e meta (src_tempFilePath src)
                                      base64Content maxPages w1 of
                                 (Inl err, w2) \<Rightarrow> (Inl err, w2)
                               | (Inr res, w2) \<Rightarrow>
                                   (Inr \<lparr>url_R = src_responseUrl src, html_R = html_PR res,
                                          markdown_R = markdown_PR res,
                                          statusCode_R = src_statusCode src,
                                          error_R = None, screenshot_R = None, actions_R = None,
                                          branding_R = None,
                                          pdfMetadata =
                                            Some \<lparr>numPages = effectivePageCount,
                                                   title = title pdfMeta\<rparr>,
                                          cacheInfo = None,
                                          contentType_R = src_contentType src,
                                          youtubeTranscriptContent = None,
                                          postprocessorsUsed_R = None,
                                          proxyUsed_R = Some (src_proxyUsed src),
                                          timezone_R = None,
                                          binaryFile_R = None\<rparr>, w2))))))"

text \<open>Lines 389 to 398: the \<open>finally\<close> block; a failed unlink is logged and dropped.\<close>

definition scrapePDF_finally :: "string \<Rightarrow> world \<Rightarrow> world" where
  "scrapePDF_finally path w =
     (case unlink path w of
        (Inl err, w1) \<Rightarrow> logMsg LogWarn ''Failed to clean up temporary PDF file'' w1
      | (Inr u, w1) \<Rightarrow> w1)"

definition scrapePDF :: "env \<Rightarrow> Meta \<Rightarrow> world \<Rightarrow> (exn + EngineScrapeResult) \<times> world" where
  "scrapePDF e meta w =
     (case scrapePDF_source e meta w of
        (Inl err, w1) \<Rightarrow> (Inl err, w1)
      | (Inr src, w1) \<Rightarrow>
          (case scrapePDF_try e meta src w1 of
             (res, w2) \<Rightarrow> (res, scrapePDF_finally (src_tempFilePath src) w2)))"

section \<open>Specialty rerouting (applySpecialtyParsing)\<close>

text \<open>
  \<open>engineResult.url\<close> is a string of every result, so
  \<open>engineResult.url ?? meta.rewrittenUrl ?? meta.url\<close> is \<open>engineResult.url\<close>.
\<close>

definition prefetchPdfFile ::
  "env \<Rightarrow> Meta \<Rightarrow> EngineScrapeResult \<Rightarrow> string option \<Rightarrow> world \<Rightarrow> (exn + Prefetch) \<times> world"
  where
  "prefetchPdfFile e meta engineResult contentType w =
     (case downloadFile e (id_M meta) (url_R engineResult)
             (skipTlsVerification (options meta)) (headers_O (options meta)) w of
        (Inl err, w1) \<Rightarrow> (Inl err, w1)
      | (Inr download, w1) \<Rightarrow>
          (Inr \<lparr>filePath = tempFilePath download,
                 url_P = Some (url_resp download),
                 status_P = status_resp download,
                 proxyUsed_P = (case proxyUsed_R engineResult of None \<Rightarrow> Basic | Some px \<Rightarrow> px),
                 contentType_P =
                   (case contentType_resp download of Some c \<Rightarrow> Some c | None \<Rightarrow> contentType)\<rparr>,
           w1))"

definition prefetchDocumentFile ::
  "env \<Rightarrow> Meta \<Rightarrow> EngineScrapeResult \<Rightarrow> string option \<Rightarrow> world \<Rightarrow> (exn + Prefetch) \<times> world"
  where
  "prefetchDocumentFile e meta engineResult contentType w =
     (case downloadFile e (id_M meta) (url_R engineResult)
             (skipTlsVerification (options meta)) (headers_O (options meta)) w of
        (Inl err, w1) \<Rightarrow> (Inl err, w1)
      | (Inr download, w1) \<Rightarrow>
          (Inr \<lparr>filePath = tempFilePath download,
                 url_P = Some (url_resp download),
                 status_P = status_resp download,
                 proxyUsed_P = (case proxyUsed_R engineResult of None \<Rightarrow> Basic | Some px \<Rightarrow> px),
                 contentType_P =
                   (case contentType_resp download of Some c \<Rightarrow> Some c | None \<Rightarrow> contentType)\<rparr>,
           w1))"

text \<open>\<open>a ?? b ?? c\<close> on content types.\<close>

definition firstDefined3 :: "'a option \<Rightarrow> 'a option \<Rightarrow> 'a option \<Rightarrow> 'a option" where
  "firstDefined3 a b c =
     (case a of Some x \<Rightarrow> Some x | None \<Rightarrow> (case b of Some y \<Rightarrow> Some y | None \<Rightarrow> c))"

text \<open>The document parser (engines/document) is a collaborator; its invocation is
  recorded.\<close>

definition scrapeDocumentCall ::
  "env \<Rightarrow> Meta \<Rightarrow> world \<Rightarrow> (exn + EngineScrapeResult) \<times> world" where
  "scrapeDocumentCall e meta w = (scrapeDocument e meta w, record_event DocumentParserInvoked w)"

text \<open>The detector's input, as applySpecialtyParsing builds it from the engine's result.\<close>

definition specialtyInput :: "EngineScrapeResult \<Rightarrow> SpecialtyDetectionInput" where
  "specialtyInput engineResult =
     \<lparr>headers_I = None,
      contentType_I = contentType_R engineResult,
      body = Some (html_R engineResult),
      binaryFile_I = binaryFile_R engineResult,
      url_I = Some (url_R engineResult),
      status_I = Some (statusCode_R engineResult),
      proxyUsed_I = proxyUsed_R engineResult\<rparr>"

text \<open>
  The function assigns \<open>meta.pdfPrefetch\<close> and \<open>meta.documentPrefetch\<close>; the Meta it
  leaves behind is returned with the result.
\<close>

definition applySpecialtyParsing ::
  "env \<Rightarrow> Meta \<Rightarrow> Engine \<Rightarrow> EngineScrapeResult \<Rightarrow> world
     \<Rightarrow> (exn + EngineScrapeResult) \<times> Meta \<times> world" where
  "applySpecialtyParsing e meta engine engineResult w =
     (case detectSpecialtyPlan e (specialtyInput engineResult) w of
        (Inl err, w1) \<Rightarrow> (Inl err, meta, w1)
      | (Inr None, w1) \<Rightarrow> (Inr engineResult, meta, w1)
      | (Inr (Some specialtyPlan), w1) \<Rightarrow>
          if engine = FireEngineChromeCdp \<and> prefetch specialtyPlan = None
          then (Inl (EngineError (''Fire Engine response missing file payload for ''
                                   @ specialtyTypeName (type_S specialtyPlan))), meta, w1)
          else
            (case type_S specialtyPlan of
               PdfType \<Rightarrow>
                 (case (case prefetch specialtyPlan of
                          Some pf \<Rightarrow> (Inr pf, w1)
                        | None \<Rightarrow>
                            prefetchPdfFile e meta engineResult (contentType_S specialtyPlan) w1) of
                    (Inl err, w2) \<Rightarrow> (Inl err, meta, w2)
                  | (Inr pf, w2) \<Rightarrow>
                      (let meta1 = meta\<lparr>pdfPrefetch := Prefetched pf\<rparr>
                       in case scrapePDF e meta1 w2 of
                            (Inl err, w3) \<Rightarrow> (Inl err, meta1, w3)
                          | (Inr pdfResult, w3) \<Rightarrow>
                              (Inr (pdfResult\<lparr>contentType_R :=
                                      firstDefined3 (contentType_R pdfResult)
                                        (contentType_S specialtyPlan)
                                        (contentType_R engineResult)\<rparr>), meta1, w3)))
             | DocumentType \<Rightarrow>
                 (case (case prefetch specialtyPlan of
                          Some pf \<Rightarrow> (Inr pf, w1)
                        | None \<Rightarrow>
                            prefetchDocumentFile e meta engineResult
                              (contentType_S specialtyPlan) w1) of
                    (Inl err, w2) \<Rightarrow> (Inl err, meta, w2)
                  | (Inr pf, w2) \<Rightarrow>
                      (let meta1 = meta\<lparr>documentPrefetch := Prefetched pf\<rparr>
                       in case scrapeDocumentCall e meta1 w2 of
                            (Inl err, w3) \<Rightarrow> (Inl err, meta1, w3)
                          | (Inr documentResult, w3) \<Rightarrow>
                              (Inr (documentResult\<lparr>contentType_R :=
                                      firstDefined3 (contentType_R documentResult)
                                        (contentType_S specialtyPlan)
                                        (contentType_R engineResult)\<rparr>), meta1, w3)))))"

section \<open>Engine selection (selectEngineAndScrape)\<close>

record EngineOutcome =
  engine :: Engine
  unsupportedFeatures :: "FeatureFlag list"
  result :: EngineScrapeResult
  indexAttempted :: bool

text \<open>Lines 493 to 521: the live engine, its capability checks, its invocation and the
  specialty rerouting of its result.\<close>

definition selectEngineAndScrape_live ::
  "env \<Rightarrow> Meta \<Rightarrow> bool \<Rightarrow> Engine list \<Rightarrow> world
     \<Rightarrow> (exn + EngineOutcome \<times> Engine list) \<times> Meta \<times> world" where
  "selectEngineAndScrape_live e meta indexEligible enginesAttempted w =
     (case (case forceEngine (internalOptions meta) of
              Some forced \<Rightarrow> (forced, w)
            | None \<Rightarrow> selectLiveEngine e meta w) of
        (liveEngine, w1) \<Rightarrow>
          (let unsupported = getUnsupportedFeatures meta liveEngine;
               enginesAttempted1 = enginesAttempted @ [liveEngine]
           in if set_has (featureFlags meta) Actions \<and> set_has unsupported Actions
              then (Inl (ActionsNotSupportedError
                      ''Actions are not supported by this engine. Actions require Fire Engine (fire-engine) to be enabled.''),
                    meta, w1)
              else if set_has (featureFlags meta) Branding \<and> set_has unsupported Branding
              then (Inl (JsError ''Branding extraction requires Chrome CDP (fire-engine).''),
                    meta, w1)
              else
                (case scrapeURLWithEngine e meta liveEngine w1 of
                   (Inl err, w2) \<Rightarrow> (Inl err, meta, w2)
                 | (Inr rawResult, w2) \<Rightarrow>
                     (case applySpecialtyParsing e meta liveEngine rawResult w2 of
                        (Inl err, meta1, w3) \<Rightarrow> (Inl err, meta1, w3)
                      | (Inr parsedResult, meta1, w3) \<Rightarrow>
                          (Inr (\<lparr>engine = liveEngine,
                                  unsupportedFeatures = unsupported,
                                  result = parsedResult,
                                  indexAttempted = indexEligible\<rparr>, enginesAttempted1),
                           meta1, w3)))))"

definition selectEngineAndScrape ::
  "env \<Rightarrow> Meta \<Rightarrow> world \<Rightarrow> (exn + EngineOutcome \<times> Engine list) \<times> Meta \<times> world" where
  "selectEngineAndScrape e meta w =
     (let enginesAttempted = [];
          forced = forceEngine (internalOptions meta);
          indexEligible = (forced = None \<and> shouldUseIndex e meta)
      in if forced = Some Index
         then (case scrapeURLWithEngine e meta Index w of
                 (Inl err, w1) \<Rightarrow> (Inl err, meta, w1)
               | (Inr res, w1) \<Rightarrow>
                   (Inr (\<lparr>engine = Index,
                           unsupportedFeatures = getUnsupportedFeatures meta Index,
                           result = res,
                           indexAttempted = True\<rparr>, enginesAttempted @ [Index]), meta, w1))
         else if indexEligible
         then (case scrapeURLWithEngine e meta Index w of
                 (Inr res, w1) \<Rightarrow>
                   (Inr (\<lparr>engine = Index,
                           unsupportedFeatures = getUnsupportedFeatures meta Index,
                           result = res,
                           indexAttempted = True\<rparr>, enginesAttempted @ [Index]), meta, w1)
               | (Inl err, w1) \<Rightarrow>
                   if err \<noteq> IndexMissError \<and> err \<noteq> NoCachedDataError
                   then (Inl err, meta, w1)
                   else selectEngineAndScrape_live e meta indexEligible
                          (enginesAttempted @ [Index]) w1)
         else selectEngineAndScrape_live e meta indexEligible enginesAttempted w)"

section \<open>The pipeline of one request (scrapeURLSingle)\<close>

text \<open>Lines 535 to 557: the zero-data-retention checks.\<close>

definition zdrViolation :: "Meta \<Rightarrow> exn option" where
  "zdrViolation meta =
     (if truthyB (zeroDataRetention (internalOptions meta))
      then (if set_has (featureFlags meta) Screenshot
            then Some (ZDRViolationError ''screenshot'')
            else if set_has (featureFlags meta) ScreenshotFullScreen
            then Some (ZDRViolationError ''screenshot@fullScreen'')
            else if (case actions_O (options meta) of
                       None \<Rightarrow> False
                     | Some as \<Rightarrow> find (\<lambda>x. actionType x = ''screenshot'') as \<noteq> None)
            then Some (ZDRViolationError ''screenshot action'')
            else if (case actions_O (options meta) of
                       None \<Rightarrow> False
                     | Some as \<Rightarrow> find (\<lambda>x. actionType x = ''pdf'') as \<noteq> None)
            then Some (ZDRViolationError ''pdf action'')
            else None)
      else None)"

text \<open>
  Lines 576 to 604: the postprocessor chain. \<open>new URL(engineResult.url)\<close> is
  evaluated for every postprocessor and throws on a string that is no URL. When \<open>run\<close>
  returns, \<open>engineResult\<close> is assigned the returned result; when it throws, nothing is
  assigned and \<open>engineResult\<close> still names the object that was handed to \<open>run\<close>,
  with whatever \<open>run\<close> wrote to it.
\<close>

fun runPostprocessors ::
  "env \<Rightarrow> Meta \<Rightarrow> Postprocessor list \<Rightarrow> EngineScrapeResult \<Rightarrow> world
     \<Rightarrow> (exn + EngineScrapeResult) \<times> world" where
  "runPostprocessors e meta [] engineResult w = (Inr engineResult, w)"
| "runPostprocessors e meta (postprocessor # rest) engineResult w =
     (if \<not> validURL e (url_R engineResult) then (Inl (TypeError ''Invalid URL''), w)
      else if shouldRun postprocessor meta (url_R engineResult)
                (postprocessorsUsed_R engineResult)
      then (let w1 = logMsg LogInfo (''Running postprocessor '' @ name_PP postprocessor) w
            in case run postprocessor meta engineResult w1 of
                 (Inr res, handed) \<Rightarrow> runPostprocessors e meta rest res w1
               | (Inl err, handed) \<Rightarrow>
                   runPostprocessors e meta rest handed
                     (logMsg LogWarn
                        (''Failed to run postprocessor '' @ name_PP postprocessor) w1))
      else runPostprocessors e meta rest engineResult w)"

text \<open>Lines 606 to 616: \<open>cacheMetadata\<close>, as the pair of \<open>cacheState\<close> and
  \<open>cachedAt\<close>.\<close>

definition cacheMetadata ::
  "EngineOutcome \<Rightarrow> EngineScrapeResult \<Rightarrow> CacheState option \<times> string option" where
  "cacheMetadata outcome engineResult =
     (if indexAttempted outcome
      then (if engine outcome = Index \<and> cacheInfo engineResult \<noteq> None
            then (Some Hit, Some (created_at (the (cacheInfo engineResult))))
            else (Some Miss, None))
      else (None, None))"

text \<open>Lines 618 to 651: the document and its warning.\<close>

definition unsupportedWarning :: "FeatureFlag list \<Rightarrow> string" where
  "unsupportedWarning fs =
     ''The engine used does not support the following features: ''
       @ join '', '' (map flagName fs) @ '' -- your scrape may be partial.''"

definition assembleDocument ::
  "Meta \<Rightarrow> EngineOutcome \<Rightarrow> EngineScrapeResult \<Rightarrow> Document" where
  "assembleDocument meta outcome engineResult =
     (let document =
            \<lparr>markdown_D = markdown_R engineResult,
             rawHtml = html_R engineResult,
             screenshot_D = screenshot_R engineResult,
             actions_D = actions_R engineResult,
             branding_D = branding_R engineResult,
             metadata =
               \<lparr>sourceURL = (case unnormalizedSourceURL (internalOptions meta) of
                               Some u \<Rightarrow> u | None \<Rightarrow> url_M meta),
                url_MD = url_R engineResult,
                statusCode_MD = statusCode_R engineResult,
                error_MD = error_R engineResult,
                numPages_MD = map_option numPages (pdfMetadata engineResult),
                title_MD = (case pdfMetadata engineResult of
                              None \<Rightarrow> None
                            | Some pm \<Rightarrow> if truthy (title pm) then title pm else None),
                contentType_MD = contentType_R engineResult,
                timezone_MD = timezone_R engineResult,
                proxyUsed_MD = (case proxyUsed_R engineResult of None \<Rightarrow> Basic | Some px \<Rightarrow> px),
                cacheState = fst (cacheMetadata outcome engineResult),
                cachedAt = snd (cacheMetadata outcome engineResult),
                postprocessorsUsed_MD = postprocessorsUsed_R engineResult\<rparr>,
             warning = None\<rparr>
      in if length (unsupportedFeatures outcome) > 0
         then document\<lparr>warning :=
                (case warning document of
                   Some old \<Rightarrow> Some (old @ '' '' @ unsupportedWarning (unsupportedFeatures outcome))
                 | None \<Rightarrow> Some (unsupportedWarning (unsupportedFeatures outcome)))\<rparr>
         else document)"

record ScrapeSuccess =
  document :: Document
  unsupportedFeatures_resp :: "FeatureFlag list"

text \<open>
  \<open>scrapeURLSingle\<close>: the tracing span is not kept. Meta is returned as the request
  leaves it (\<open>winnerEngine\<close> and the prefetch slots are assigned on the way).
  \<open>scrapingLogged\<close> is the function's first statement, the "Scraping URL" log line.
\<close>

definition scrapingLogged :: "env \<Rightarrow> Meta \<Rightarrow> world \<Rightarrow> world" where
  "scrapingLogged e meta w =
     logMsg LogInfo
       (''Scraping URL ''
          @ JSON_stringify e (case rewrittenUrl meta of Some u \<Rightarrow> u | None \<Rightarrow> url_M meta)
          @ ''...'') w"

definition scrapeURLSingle ::
  "env \<Rightarrow> Meta \<Rightarrow> world \<Rightarrow> (exn + ScrapeSuccess) \<times> Meta \<times> world" where
  "scrapeURLSingle e meta w =
     (let w0 = scrapingLogged e meta w
      in case zdrViolation meta of
           Some err \<Rightarrow> (Inl err, meta, w0)
         | None \<Rightarrow>
             if aborted e w0 then (Inl AbortManagerThrownError, meta, w0)
             else
               (case selectEngineAndScrape e meta w0 of
                  (Inl err, meta1, w1) \<Rightarrow> (Inl err, meta1, w1)
                | (Inr (outcome, enginesAttempted), meta1, w1) \<Rightarrow>
                    (let meta2 = meta1\<lparr>winnerEngine := Some (engine outcome)\<rparr>
                     in case runPostprocessors e meta2 (postprocessors e) (result outcome) w1 of
                          (Inl err, w2) \<Rightarrow> (Inl err, meta2, w2)
                        | (Inr engineResult, w2) \<Rightarrow>
                            (let doc = assembleDocument meta2 outcome engineResult;
                                 w3 = (if length (unsupportedFeatures outcome) > 0
                                       then logMsg LogWarn
                                              (unsupportedWarning (unsupportedFeatures outcome)) w2
                                       else w2)
                             in case executeTransformers e meta2 doc w3 of
                                  Inl err \<Rightarrow> (Inl err, meta2, w3)
                                | Inr doc' \<Rightarrow>
                                    (Inr \<lparr>document = doc',
                                           unsupportedFeatures_resp =
                                             unsupportedFeatures outcome\<rparr>, meta2, w3)))))"

section \<open>Observing a run\<close>

text \<open>The engines a history invoked, in order, and the live ones among them.\<close>

fun engineCalls :: "event list \<Rightarrow> Engine list" where
  "engineCalls [] = []"
| "engineCalls (EngineInvoked en # evs) = en # engineCalls evs"
| "engineCalls (ev # evs) = engineCalls evs"

definition liveEngineCalls :: "event list \<Rightarrow> Engine list" where
  "liveEngineCalls evs = filter (\<lambda>en. en \<noteq> Index) (engineCalls evs)"

fun unlinkCalls :: "string \<Rightarrow> event list \<Rightarrow> nat" where
  "unlinkCalls path [] = 0"
| "unlinkCalls path (UnlinkCalled p # evs) =
     (if p = path then Suc (unlinkCalls path evs) else unlinkCalls path evs)"
| "unlinkCalls path (ev # evs) = unlinkCalls path evs"

fun downloadCalls :: "event list \<Rightarrow> string list" where
  "downloadCalls [] = []"
| "downloadCalls (DownloadRequested u # evs) = u # downloadCalls evs"
| "downloadCalls (ev # evs) = downloadCalls evs"

text \<open>The cache state of the document a run returned, if it returned one.\<close>

definition returnedCacheState ::
  "(exn + ScrapeSuccess) \<times> Meta \<times> world \<Rightarrow> CacheState option option" where
  "returnedCacheState r =
     (case fst r of
        Inl err \<Rightarrow> None
      | Inr resp \<Rightarrow> Some (cacheState (metadata (document resp))))"

definition thrown :: "(exn + 'a) \<times> 'b \<Rightarrow> exn option" where
  "thrown r = (case fst r of Inl err \<Rightarrow> Some err | Inr x \<Rightarrow> None)"

text \<open>The engine line 493 picks (\<open>forceEngine ?? selectLiveEngine(meta)\<close>): the forced
  engine, else the configured live engine.\<close>

definition liveEngineFor :: "env \<Rightarrow> Meta \<Rightarrow> world \<Rightarrow> Engine" where
  "liveEngineFor e meta w =
     (case forceEngine (internalOptions meta) of
        Some forced \<Rightarrow> forced
      | None \<Rightarrow> fst (selectLiveEngine e meta w))"

text \<open>A request asks for actions or branding that the engine's table does not support:
  the two capabilities selectEngineAndScrape refuses to degrade.\<close>

definition blockedBy :: "Meta \<Rightarrow> Engine \<Rightarrow> bool" where
  "blockedBy meta live =
     ((Actions \<in> set (featureFlags meta) \<and> \<not> supportsFeature live Actions)
      \<or> (Branding \<in> set (featureFlags meta) \<and> \<not> supportsFeature live Branding))"

section \<open>Concrete requests and collaborators\<close>

text \<open>
  A plain request for markdown whose caller set skipTlsVerification to false, so that its
  flag set (empty) is what buildFeatureFlags gives for its options; the result of a live
  engine for it (an HTML page), and the same result as the index serves it (with cacheInfo).
\<close>

definition markdownFormat :: Format where
  "markdownFormat = \<lparr>formatType = ''markdown'', fullPage = None, viewport = None, quality = None\<rparr>"

definition options0 :: ScrapeOptions where
  "options0 =
     \<lparr>formats = [markdownFormat], actions_O = None, waitFor = 0, location = None,
      mobile = False, skipTlsVerification = Some False, fastMode = False, proxy = None,
      blockAds = None, headers_O = None, maxAge = None, parsers = [], timeout = None\<rparr>"

definition internalOptions0 :: InternalOptions where
  "internalOptions0 =
     \<lparr>teamId = ''team-1'', forceEngine = None, atsv = None, zeroDataRetention = None,
      unnormalizedSourceURL = None\<rparr>"

definition meta0 :: Meta where
  "meta0 =
     \<lparr>id_M = ''scrape-1'', url_M = ''https://example.com/'', rewrittenUrl = None,
      options = options0, internalOptions = internalOptions0, featureFlags = [],
      pdfPrefetch = NoPrefetchYet, documentPrefetch = NoPrefetchYet, winnerEngine = None\<rparr>"

definition result0 :: EngineScrapeResult where
  "result0 =
     \<lparr>url_R = ''https://example.com/'', html_R = ''<html></html>'', markdown_R = None,
      statusCode_R = 200, error_R = None, screenshot_R = None, actions_R = None,
      branding_R = None, pdfMetadata = None, cacheInfo = None,
      contentType_R = Some ''text/html'', youtubeTranscriptContent = None,
      postprocessorsUsed_R = None, proxyUsed_R = Some Basic, timezone_R = None,
      binaryFile_R = None\<rparr>"

definition cachedResult0 :: EngineScrapeResult where
  "cachedResult0 = result0\<lparr>cacheInfo := Some \<lparr>created_at = ''2024-01-01T00:00:00.000Z''\<rparr>\<rparr>"

text \<open>A configuration with the index in use and no browser engine or PDF service
  configured (so the live engine is fetch), and a download that brings a PDF.\<close>

definition config0 :: Config where
  "config0 =
     \<lparr>FIRE_ENGINE_BETA_URL = None, PLAYWRIGHT_MICROSERVICE_URL = None,
      FIRECRAWL_INDEX_WRITE_ONLY = None, RUNPOD_MU_API_KEY = None, RUNPOD_MU_POD_ID = None,
      useIndex = True\<rparr>"

definition download0 :: Download where
  "download0 =
     \<lparr>tempFilePath = ''/tmp/tempFile-download.pdf'', url_resp = ''https://example.com/a.pdf'',
      status_resp = 200, contentType_resp = Some ''application/pdf'', bytes_resp = ''%PDF-1.5''\<rparr>"

text \<open>An environment in which the index holds the page, every live engine answers with a
  plain HTML page, no postprocessor is installed and the transformers return the document
  as it is.\<close>

definition env0 :: env where
  "env0 =
     \<lparr>config = config0,
      getPDFMaxPages = (\<lambda>ps. None),
      shouldParsePDF = (\<lambda>ps. True),
      engineHandlers = (\<lambda>en m w. if en = Index then Inr cachedResult0 else Inr result0),
      fetchFile = (\<lambda>ident u skipTls hdrs w. Inr download0),
      scrapeDocument = (\<lambda>m w. Inr result0),
      postprocessors = [],
      executeTransformers = (\<lambda>m d w. Inr d),
      validURL = (\<lambda>u. True),
      aborted = (\<lambda>w. False),
      scrapeTimeout = (\<lambda>w. None),
      tmpdir = ''/tmp'',
      pathJoin = (\<lambda>a b. a @ ''/'' @ b),
      randomUUID = (\<lambda>n. ''uuid-'' @ replicate n (CHR ''x'')),
      writeFileFails = (\<lambda>path w. False),
      base64Decode = (\<lambda>s. s),
      base64Encode = (\<lambda>s. s),
      getPdfMetadata = (\<lambda>path w. Inr \<lparr>numPages = 1, title = None\<rparr>),
      scrapePDFWithRunPodMU = (\<lambda>m path b64 mp w. Inl (JsError ''RunPod MU failed to parse PDF'')),
      pdfParseText = (\<lambda>bytes. Inr bytes),
      escapeHtml = (\<lambda>s. s),
      JSON_stringify = (\<lambda>s. s)\<rparr>"

text \<open>The world before the request: no event, no temporary file.\<close>

definition world0 :: world where
  "world0 = \<lparr>trace = [], files = Map.empty, uuidsDrawn = 0\<rparr>"

text \<open>An index engine whose result carries no cacheInfo.\<close>

definition envNoProvenance :: env where
  "envNoProvenance = env0\<lparr>engineHandlers := (\<lambda>en m w. Inr result0)\<rparr>"

text \<open>An index engine that reports a miss.\<close>

definition envMiss :: env where
  "envMiss = env0\<lparr>engineHandlers :=
                     (\<lambda>en m w. if en = Index then Inl IndexMissError else Inr result0)\<rparr>"

text \<open>A request with an empty action list: buildFeatureFlags sets the actions flag, and
  shouldUseIndex still lets the index answer.\<close>

definition metaEmptyActions :: Meta where
  "metaEmptyActions =
     meta0\<lparr>options := options0\<lparr>actions_O := Some []\<rparr>, featureFlags := [Actions]\<rparr>"

text \<open>The plain request with the index engine forced, and what the plain request's run
  after an index miss leaves behind.\<close>

definition metaForcedIndex :: Meta where
  "metaForcedIndex = meta0\<lparr>internalOptions := internalOptions0\<lparr>forceEngine := Some Index\<rparr>\<rparr>"

definition missRunWorld :: world where
  "missRunWorld =
     record_event (EngineInvoked Fetch)
       (logMsg LogInfo ''No live engine configured; defaulting to fetch''
          (record_event (EngineInvoked Index) (scrapingLogged envMiss meta0 world0)))"

definition missOutcome :: EngineOutcome where
  "missOutcome = \<lparr>engine = Fetch, unsupportedFeatures = [], result = result0,
                   indexAttempted = True\<rparr>"

text \<open>The plain request with the fetch engine forced; the outcomes of the plain request
  on an index hit and of the forced fetch.\<close>

definition metaForcedFetch :: Meta where
  "metaForcedFetch = meta0\<lparr>internalOptions := internalOptions0\<lparr>forceEngine := Some Fetch\<rparr>\<rparr>"


definition forcedFetchOutcome :: EngineOutcome where
  "forcedFetchOutcome = \<lparr>engine = Fetch, unsupportedFeatures = [], result = result0,
                          indexAttempted = False\<rparr>"

text \<open>A request with one action, and the same request with the index engine forced.\<close>

definition clickAction :: Action where
  "clickAction = \<lparr>actionType = ''click''\<rparr>"

definition metaActions :: Meta where
  "metaActions =
     meta0\<lparr>options := options0\<lparr>actions_O := Some [clickAction]\<rparr>, featureFlags := [Actions]\<rparr>"

definition metaActionsForcedIndex :: Meta where
  "metaActionsForcedIndex =
     metaActions\<lparr>internalOptions := internalOptions0\<lparr>forceEngine := Some Index\<rparr>\<rparr>"

text \<open>A zero-data-retention request for a screenshot.\<close>

definition screenshotFormat :: Format where
  "screenshotFormat =
     \<lparr>formatType = ''screenshot'', fullPage = None, viewport = None, quality = None\<rparr>"

definition metaZdrScreenshot :: Meta where
  "metaZdrScreenshot =
     meta0\<lparr>options := options0\<lparr>formats := [screenshotFormat]\<rparr>,
           internalOptions := internalOptions0\<lparr>zeroDataRetention := Some True\<rparr>,
           featureFlags := [Screenshot]\<rparr>"

text \<open>
  A postprocessor that throws at once; one that returns a copy of the result tagged with its
  name; and one that writes its name and a markdown text into the object it is handed, and
  then throws.
\<close>

definition ppFailing :: Postprocessor where
  "ppFailing =
     \<lparr>name_PP = ''failing'', shouldRun = (\<lambda>m u used. True),
      run = (\<lambda>m r w. (Inl (JsError ''postprocessor failed''), r))\<rparr>"

definition ppTagging :: Postprocessor where
  "ppTagging =
     \<lparr>name_PP = ''tagging'', shouldRun = (\<lambda>m u used. True),
      run = (\<lambda>m r w. (Inr (r\<lparr>postprocessorsUsed_R :=
                                Some ((case postprocessorsUsed_R r of None \<Rightarrow> [] | Some xs \<Rightarrow> xs)
                                      @ [''tagging''])\<rparr>), r))\<rparr>"

definition ppMutating :: Postprocessor where
  "ppMutating =
     \<lparr>name_PP = ''mutating'', shouldRun = (\<lambda>m u used. True),
      run = (\<lambda>m r w. (Inl (JsError ''postprocessor failed''),
                       r\<lparr>markdown_R := Some ''half-written'',
                         postprocessorsUsed_R :=
                           Some ((case postprocessorsUsed_R r of None \<Rightarrow> [] | Some xs \<Rightarrow> xs)
                                 @ [''mutating''])\<rparr>))\<rparr>"

text \<open>The environment of the plain request with that last postprocessor installed.\<close>

definition envMutating :: env where
  "envMutating = env0\<lparr>postprocessors := [ppMutating]\<rparr>"

text \<open>An engine result that only hints at a PDF: the content type, and no inline payload.\<close>

definition pdfHintResult :: EngineScrapeResult where
  "pdfHintResult = result0\<lparr>contentType_R := Some ''application/pdf''\<rparr>"

definition pdfHintPlan :: SpecialtyPlan where
  "pdfHintPlan = \<lparr>type_S = PdfType, contentType_S = Some ''application/pdf'', prefetch = None\<rparr>"

text \<open>
  An engine result that only hints at a Word document; the download that brings the
  document; and an environment whose download is that one and whose document parser
  returns the bytes it finds at the prefetched path (and fails without a prefetched file).
\<close>

definition docHintResult :: EngineScrapeResult where
  "docHintResult = result0\<lparr>contentType_R := Some ''application/msword''\<rparr>"

definition docHintPlan :: SpecialtyPlan where
  "docHintPlan =
     \<lparr>type_S = DocumentType, contentType_S = Some ''application/msword'', prefetch = None\<rparr>"

definition docDownload :: Download where
  "docDownload =
     \<lparr>tempFilePath = ''/tmp/tempFile-download.docx'', url_resp = ''https://example.com/a.doc'',
      status_resp = 200, contentType_resp = Some ''application/msword'', bytes_resp = ''PK-doc''\<rparr>"

definition envDoc :: env where
  "envDoc =
     env0\<lparr>fetchFile := (\<lambda>ident u skipTls hdrs w. Inr docDownload),
          scrapeDocument :=
            (\<lambda>m w. case documentPrefetch m of
                      Prefetched pf \<Rightarrow>
                        (case files w (filePath pf) of
                           Some bytes \<Rightarrow>
                             Inr (result0\<lparr>url_R := (case url_P pf of Some u \<Rightarrow> u
                                                       | None \<Rightarrow> url_M m),
                                          html_R := bytes, contentType_R := None\<rparr>)
                         | None \<Rightarrow> Inl (FsError (filePath pf)))
                    | _ \<Rightarrow> Inl DocumentPrefetchFailed)\<rparr>"

text \<open>The base64 text of the bytes "PK\x03\x04".\<close>

definition zipPayload :: BinaryFile where
  "zipPayload = \<lparr>name_BF = None, content = ''UEsDBA==''\<rparr>"

text \<open>A download that came back as an HTML page (an anti-bot page instead of the PDF), the
  prefetch made from it, and the world in which its temporary file exists.\<close>

definition htmlDownload :: Download where
  "htmlDownload =
     download0\<lparr>contentType_resp := Some ''text/html'', bytes_resp := ''<html>blocked</html>''\<rparr>"

definition htmlPrefetch :: Prefetch where
  "htmlPrefetch =
     \<lparr>filePath = ''/tmp/tempFile-download.pdf'', url_P = Some ''https://example.com/a.pdf'',
      status_P = 200, proxyUsed_P = Basic, contentType_P = Some ''text/html''\<rparr>"

definition metaHtmlPrefetch :: Meta where
  "metaHtmlPrefetch = metaForcedFetch\<lparr>pdfPrefetch := Prefetched htmlPrefetch\<rparr>"

definition worldWithTemp :: world where
  "worldWithTemp =
     world0\<lparr>files := [''/tmp/tempFile-download.pdf'' \<mapsto> ''<html>blocked</html>'']\<rparr>"

text \<open>The fetch engine reports a PDF by content type only, and the re-download is answered
  with an HTML page.\<close>

definition envBlockedPdf :: env where
  "envBlockedPdf =
     env0\<lparr>engineHandlers := (\<lambda>en m w. Inr pdfHintResult),
          fetchFile := (\<lambda>ident u skipTls hdrs w. Inr htmlDownload)\<rparr>"

text \<open>A prefetch whose content type is a PDF's, and the world in which its file exists.\<close>

definition pdfPrefetch0 :: Prefetch where
  "pdfPrefetch0 = htmlPrefetch\<lparr>contentType_P := Some ''application/pdf''\<rparr>"

definition metaPdfPrefetch :: Meta where
  "metaPdfPrefetch = metaForcedFetch\<lparr>pdfPrefetch := Prefetched pdfPrefetch0\<rparr>"

section \<open>Properties\<close>

lemma fold_set_delete:
  "fold (\<lambda>flag acc. if P flag then set_delete flag acc else acc) xs acc =
     filter (\<lambda>x. \<not> (P x \<and> x \<in> set xs)) acc"
proof (induction xs arbitrary: acc)
  case Nil
  show ?case by simp
next
  case (Cons a xs)
  have "filter (\<lambda>x. \<not> (P x \<and> x \<in> set xs)) (removeAll a acc) =
        filter (\<lambda>x. \<not> (P x \<and> (x = a \<or> x \<in> set xs))) acc" if "P a"
    using that by (induction acc) auto
  moreover have "filter (\<lambda>x. \<not> (P x \<and> x \<in> set xs)) acc =
        filter (\<lambda>x. \<not> (P x \<and> (x = a \<or> x \<in> set xs))) acc" if "\<not> P a"
    using that by (induction acc) auto
  ultimately show ?case
    using Cons.IH by (simp add: set_delete_def)
qed

lemma engineOptions_keys:
  "map fst (engineOptions eng) =
     [Actions, WaitFor, Screenshot, ScreenshotFullScreen, Atsv, Location, Mobile,
      SkipTlsVerification, UseFastMode, StealthProxy, Branding, DisableAdblock]"
  by (cases eng) simp_all

lemma supportsFeature_mem:
  "supportsFeature eng flag \<longleftrightarrow> (flag, True) \<in> set (engineOptions eng)"
proof -
  have "distinct (map fst (engineOptions eng))"
    by (simp add: engineOptions_keys)
  then show ?thesis
    unfolding supportsFeature_def by (metis map_of_eq_Some_iff)
qed

lemma getUnsupportedFeatures_filter:
  "getUnsupportedFeatures meta eng =
     filter (\<lambda>flag. \<not> supportsFeature eng flag) (featureFlags meta)"
proof -
  have "set_has (map fst (filter (\<lambda>(flag, isSupported). isSupported \<and> set_has F flag)
                 (engineOptions eng))) x
        \<longleftrightarrow> supportsFeature eng x \<and> x \<in> set F" for x F
    unfolding set_has_def supportsFeature_mem by force
  then show ?thesis
    unfolding getUnsupportedFeatures_def Let_def
    by (simp add: fold_set_delete cong: filter_cong)
qed

text \<open>
  C2. For every requested flag set and every eng, getUnsupportedFeatures is the set
  difference of the requested flags and the flags the eng's capability table marks as
  supported; when the eng supports every requested flag the result is empty.
\<close>

theorem getUnsupportedFeatures_set_difference:
  "set (getUnsupportedFeatures meta eng) =
     set (featureFlags meta) - {flag. supportsFeature eng flag}
   \<and> (list_all (supportsFeature eng) (featureFlags meta) \<longrightarrow>
        getUnsupportedFeatures meta eng = [])"
  by (auto simp: getUnsupportedFeatures_filter list_all_iff filter_empty_conv)

theorem getUnsupportedFeatures_set_difference_witness:
  "list_all (supportsFeature Index) (featureFlags (meta0\<lparr>featureFlags := [WaitFor, Screenshot]\<rparr>))
   \<and> getUnsupportedFeatures (meta0\<lparr>featureFlags := [WaitFor, Screenshot]\<rparr>) Index = []"
proof -
  have h: "list_all (supportsFeature Index)
             (featureFlags (meta0\<lparr>featureFlags := [WaitFor, Screenshot]\<rparr>))"
    by (simp add: supportsFeature_def)
  with getUnsupportedFeatures_set_difference
         [of "meta0\<lparr>featureFlags := [WaitFor, Screenshot]\<rparr>" Index]
  show ?thesis by blast
qed

subsection \<open>Engine invocations of the stages\<close>

lemma scrapeURLWithEngine_eq:
  "scrapeURLWithEngine e meta en w =
     (engineHandlers e en meta w, record_event (EngineInvoked en) w)"
  by (simp add: scrapeURLWithEngine_def)

lemma engineCalls_append: "engineCalls (xs @ ys) = engineCalls xs @ engineCalls ys"
  by (induction xs rule: engineCalls.induct) auto

lemma logMsg_simps:
  "trace (logMsg l m w) = trace w @ [Logged l m]"
  "files (logMsg l m w) = files w"
  "uuidsDrawn (logMsg l m w) = uuidsDrawn w"
  by (simp_all add: logMsg_def)

lemma record_event_simps:
  "trace (record_event ev w) = trace w @ [ev]"
  "files (record_event ev w) = files w"
  "uuidsDrawn (record_event ev w) = uuidsDrawn w"
  by (simp_all add: record_event_def)

lemma engineCalls_logMsg: "engineCalls (trace (logMsg l m w)) = engineCalls (trace w)"
  by (simp add: logMsg_simps engineCalls_append)

lemma engineCalls_record_event:
  "engineCalls (trace (record_event ev w)) =
     engineCalls (trace w) @ engineCalls [ev]"
  by (simp add: record_event_simps engineCalls_append)

lemmas ec = engineCalls_logMsg engineCalls_record_event engineCalls_append record_event_simps logMsg_simps

lemma base64ToPrefetch_engineCalls:
  "base64ToPrefetch e c ext t u st px ct w = (res, w') \<Longrightarrow>
     engineCalls (trace w') = engineCalls (trace w)"
  by (auto simp: base64ToPrefetch_def Let_def ec split: if_splits)

lemma detectSpecialtyPlan_engineCalls:
  "detectSpecialtyPlan e inp w = (res, w') \<Longrightarrow>
     engineCalls (trace w') = engineCalls (trace w)"
  unfolding detectSpecialtyPlan_def Let_def
  by (auto simp: ec split: if_splits prod.splits sum.splits
           dest: base64ToPrefetch_engineCalls)

lemma readFile_engineCalls:
  "readFile p w = (res, w') \<Longrightarrow> engineCalls (trace w') = engineCalls (trace w)"
  by (auto simp: readFile_def ec split: option.splits)

lemma unlink_engineCalls:
  "unlink p w = (res, w') \<Longrightarrow> engineCalls (trace w') = engineCalls (trace w)"
  by (auto simp: unlink_def ec split: option.splits)

lemma downloadFile_engineCalls:
  "downloadFile e i u s h w = (res, w') \<Longrightarrow> engineCalls (trace w') = engineCalls (trace w)"
  by (auto simp: downloadFile_def Let_def ec split: sum.splits)

lemma scrapePDF_finally_engineCalls:
  "engineCalls (trace (scrapePDF_finally p w)) = engineCalls (trace w)"
  by (auto simp: scrapePDF_finally_def ec split: prod.splits sum.splits
           dest: unlink_engineCalls)

lemma scrapePDFWithParsePDF_engineCalls:
  "scrapePDFWithParsePDF e m p w = (res, w') \<Longrightarrow> engineCalls (trace w') = engineCalls (trace w)"
  by (auto simp: scrapePDFWithParsePDF_def Let_def ec split: prod.splits sum.splits
           dest!: readFile_engineCalls)

lemma scrapePDF_process_engineCalls:
  "scrapePDF_process e m p b mp w = (res, w') \<Longrightarrow> engineCalls (trace w') = engineCalls (trace w)"
  by (auto simp: scrapePDF_process_def ec split: if_splits sum.splits
           dest!: scrapePDFWithParsePDF_engineCalls)

lemma scrapePDF_try_engineCalls:
  "scrapePDF_try e m src w = (res, w') \<Longrightarrow> engineCalls (trace w') = engineCalls (trace w)"
  unfolding scrapePDF_try_def Let_def
  by (auto simp: ec split: if_splits sum.splits prod.splits option.splits
           dest!: scrapePDF_process_engineCalls readFile_engineCalls)

lemma scrapePDF_source_engineCalls:
  "scrapePDF_source e m w = (res, w') \<Longrightarrow> engineCalls (trace w') = engineCalls (trace w)"
  unfolding scrapePDF_source_def Let_def
  by (auto simp: ec split: if_splits sum.splits prod.splits PrefetchSlot.splits
           dest!: downloadFile_engineCalls)

lemma scrapePDF_engineCalls:
  "scrapePDF e m w = (res, w') \<Longrightarrow> engineCalls (trace w') = engineCalls (trace w)"
  unfolding scrapePDF_def
  by (auto simp: scrapePDF_finally_engineCalls split: sum.splits prod.splits
           dest!: scrapePDF_source_engineCalls scrapePDF_try_engineCalls)

lemma prefetchPdfFile_engineCalls:
  "prefetchPdfFile e m r c w = (res, w') \<Longrightarrow> engineCalls (trace w') = engineCalls (trace w)"
  by (auto simp: prefetchPdfFile_def split: sum.splits prod.splits dest!: downloadFile_engineCalls)

lemma prefetchDocumentFile_engineCalls:
  "prefetchDocumentFile e m r c w = (res, w') \<Longrightarrow> engineCalls (trace w') = engineCalls (trace w)"
  by (auto simp: prefetchDocumentFile_def split: sum.splits prod.splits dest!: downloadFile_engineCalls)

lemma scrapeDocumentCall_engineCalls:
  "scrapeDocumentCall e m w = (res, w') \<Longrightarrow> engineCalls (trace w') = engineCalls (trace w)"
  by (auto simp: scrapeDocumentCall_def ec)

lemma applySpecialtyParsing_engineCalls:
  "applySpecialtyParsing e m en r w = (res, m', w') \<Longrightarrow>
     engineCalls (trace w') = engineCalls (trace w)"
  unfolding applySpecialtyParsing_def Let_def
  by (auto split: if_splits sum.splits prod.splits option.splits SpecialtyType.splits
           dest!: detectSpecialtyPlan_engineCalls prefetchPdfFile_engineCalls
                  prefetchDocumentFile_engineCalls scrapePDF_engineCalls
                  scrapeDocumentCall_engineCalls)


lemma selectLiveEngine_facts:
  "fst (selectLiveEngine e meta w) \<noteq> Index"
  "engineCalls (trace (snd (selectLiveEngine e meta w))) = engineCalls (trace w)"
  by (simp_all add: selectLiveEngine_def ec)

lemma mem_unsupported:
  "flag \<in> set (getUnsupportedFeatures meta en) \<longleftrightarrow>
     flag \<in> set (featureFlags meta) \<and> \<not> supportsFeature en flag"
  by (simp add: getUnsupportedFeatures_filter)

lemma selectEngineAndScrape_live_calls:
  assumes run: "selectEngineAndScrape_live e meta elig att w = (res, m1, w1)"
    and lw: "(case forceEngine (internalOptions meta) of
                Some forced \<Rightarrow> (forced, w) | None \<Rightarrow> selectLiveEngine e meta w) = (live, w0)"
  shows "engineCalls (trace w1) = engineCalls (trace w) @
          (if blockedBy meta live then [] else [live])
     \<and> (\<forall>outcome attempted. res = Inr (outcome, attempted) \<longrightarrow>
           attempted = att @ [live] \<and> engine outcome = live \<and> indexAttempted outcome = elig
           \<and> unsupportedFeatures outcome = getUnsupportedFeatures meta live)"
proof -
  have w0: "engineCalls (trace w0) = engineCalls (trace w)"
    using lw selectLiveEngine_facts(2)[of e meta w]
    by (auto split: option.splits simp: prod_eq_iff)
  show ?thesis
  proof (cases "blockedBy meta live")
    case True
    then have "w1 = w0 \<and> (\<exists>err. res = Inl err)"
      using run lw unfolding selectEngineAndScrape_live_def Let_def blockedBy_def set_has_def
      by (auto simp: mem_unsupported split: if_splits)
    then show ?thesis using True w0 by auto
  next
    case False
    then have eq: "selectEngineAndScrape_live e meta elig att w =
        (case scrapeURLWithEngine e meta live w0 of
           (Inl err, w2) \<Rightarrow> (Inl err, meta, w2)
         | (Inr rawResult, w2) \<Rightarrow>
             (case applySpecialtyParsing e meta live rawResult w2 of
                (Inl err, meta1, w3) \<Rightarrow> (Inl err, meta1, w3)
              | (Inr parsedResult, meta1, w3) \<Rightarrow>
                  (Inr (\<lparr>engine = live,
                          unsupportedFeatures = getUnsupportedFeatures meta live,
                          result = parsedResult,
                          indexAttempted = elig\<rparr>, att @ [live]),
                   meta1, w3)))"
      using lw unfolding selectEngineAndScrape_live_def Let_def blockedBy_def set_has_def
      by (auto simp: mem_unsupported)
    show ?thesis
    proof (cases "engineHandlers e live meta w0")
      case (Inl err)
      then show ?thesis using run eq False w0
        by (auto simp: scrapeURLWithEngine_eq ec)
    next
      case (Inr raw)
      obtain r2 m2 w2 where ap:
        "applySpecialtyParsing e meta live raw (record_event (EngineInvoked live) w0) = (r2, m2, w2)"
        by (metis prod_cases3)
      have "engineCalls (trace w2) = engineCalls (trace w) @ [live]"
        using applySpecialtyParsing_engineCalls[OF ap] w0 by (simp add: ec)
      then show ?thesis using run eq False Inr ap
        by (auto simp: scrapeURLWithEngine_eq split: sum.splits)
    qed
  qed
qed

lemma runPostprocessors_engineCalls:
  "engineCalls (trace (snd (runPostprocessors e m ps r w))) = engineCalls (trace w)"
proof (induction ps arbitrary: r w)
  case Nil
  show ?case by simp
next
  case (Cons p ps)
  show ?case
    by (simp add: Cons.IH ec Let_def split: sum.splits prod.splits)
qed

lemma scrapeURLSingle_returns_iff:
  "scrapeURLSingle e meta w = (Inr resp, m', w') \<longleftrightarrow>
     zdrViolation meta = None \<and> \<not> aborted e (scrapingLogged e meta w) \<and>
     (\<exists>outcome attempted meta1 w1 r' w2.
        selectEngineAndScrape e meta (scrapingLogged e meta w) = (Inr (outcome, attempted), meta1, w1)
      \<and> m' = meta1\<lparr>winnerEngine := Some (engine outcome)\<rparr>
      \<and> runPostprocessors e m' (postprocessors e) (result outcome) w1 = (Inr r', w2)
      \<and> w' = (if length (unsupportedFeatures outcome) > 0
               then logMsg LogWarn (unsupportedWarning (unsupportedFeatures outcome)) w2 else w2)
      \<and> executeTransformers e m' (assembleDocument m' outcome r') w' = Inr (document resp)
      \<and> unsupportedFeatures_resp resp = unsupportedFeatures outcome)"
  unfolding scrapeURLSingle_def Let_def
  by (auto split: option.splits sum.splits prod.splits if_splits)

lemma cacheState_assembleDocument:
  "cacheState (metadata (assembleDocument m outcome r')) = fst (cacheMetadata outcome r')"
  by (simp add: assembleDocument_def Let_def)

lemma runPostprocessors_engineCalls':
  "runPostprocessors e m ps r w = (res, w') \<Longrightarrow> engineCalls (trace w') = engineCalls (trace w)"
  using runPostprocessors_engineCalls[of e m ps r w] by simp

lemma engineCalls_scrapingLogged:
  "engineCalls (trace (scrapingLogged e meta w)) = engineCalls (trace w)"
  by (simp add: scrapingLogged_def ec)

lemma scrapeURLSingle_engineCalls:
  assumes "scrapeURLSingle e meta w = (res, m', w')"
    and "selectEngineAndScrape e meta (scrapingLogged e meta w) = (sres, m1, w1)"
  shows "engineCalls (trace w') = engineCalls (trace w)
         \<or> engineCalls (trace w') = engineCalls (trace w1)"
  using assms unfolding scrapeURLSingle_def Let_def
  by (auto simp: ec engineCalls_scrapingLogged
           split: option.splits sum.splits prod.splits if_splits
           dest!: runPostprocessors_engineCalls')

lemma liveEngineCalls_Index:
  "liveEngineCalls (trace (record_event (EngineInvoked Index) w)) = liveEngineCalls (trace w)"
  by (simp add: liveEngineCalls_def ec)

subsection \<open>Cache hits\<close>

text \<open>
  C1 (as amended). For every request that forces no engine and passes shouldUseIndex, and
  whose index engine invocation returns a result: selectEngineAndScrape returns that result
  as the index engine's outcome, having invoked the index engine only; the whole pipeline
  invokes no live engine; and whenever the pipeline returns a document, the document it
  assembled has cacheState "hit" when the working result after the postprocessor chain
  carries cacheInfo and "miss" when it does not. The returned document has the same
  cacheState whenever the transformers leave that field alone.
\<close>

theorem index_hit_short_circuits:
  assumes gate: "forceEngine (internalOptions meta) = None" "shouldUseIndex e meta"
    and hit: "engineHandlers e Index meta (scrapingLogged e meta w) = Inr r"
  shows
   "selectEngineAndScrape e meta (scrapingLogged e meta w) =
       (Inr (\<lparr>engine = Index, unsupportedFeatures = getUnsupportedFeatures meta Index,
               result = r, indexAttempted = True\<rparr>, [Index]),
        meta, record_event (EngineInvoked Index) (scrapingLogged e meta w))
    \<and> liveEngineCalls (trace (snd (snd (scrapeURLSingle e meta w)))) = liveEngineCalls (trace w)
    \<and> (\<forall>resp m' w'. scrapeURLSingle e meta w = (Inr resp, m', w') \<longrightarrow>
         (\<exists>r' w2 doc.
            runPostprocessors e m' (postprocessors e) r
              (record_event (EngineInvoked Index) (scrapingLogged e meta w)) = (Inr r', w2)
            \<and> executeTransformers e m' doc w' = Inr (document resp)
            \<and> cacheState (metadata doc) = (if cacheInfo r' = None then Some Miss else Some Hit)
            \<and> ((\<forall>m d x d'. executeTransformers e m d x = Inr d' \<longrightarrow>
                    cacheState (metadata d') = cacheState (metadata d))
                 \<longrightarrow> cacheState (metadata (document resp)) =
                       (if cacheInfo r' = None then Some Miss else Some Hit))))"
proof -
  let ?w0 = "scrapingLogged e meta w"
  let ?out = "\<lparr>engine = Index, unsupportedFeatures = getUnsupportedFeatures meta Index,
               result = r, indexAttempted = True\<rparr>"
  have sel: "selectEngineAndScrape e meta ?w0 =
       (Inr (?out, [Index]), meta, record_event (EngineInvoked Index) ?w0)"
    using gate hit by (simp add: selectEngineAndScrape_def scrapeURLWithEngine_eq)
  obtain res m' w' where run: "scrapeURLSingle e meta w = (res, m', w')"
    by (metis prod_cases3)
  have "engineCalls (trace w') = engineCalls (trace w)
         \<or> engineCalls (trace w') = engineCalls (trace (record_event (EngineInvoked Index) ?w0))"
    by (rule scrapeURLSingle_engineCalls[OF run sel])
  then have live: "liveEngineCalls (trace (snd (snd (scrapeURLSingle e meta w)))) =
                   liveEngineCalls (trace w)"
    using run by (auto simp: liveEngineCalls_def ec engineCalls_scrapingLogged)
  have doc: "\<exists>r' w2 doc.
            runPostprocessors e m' (postprocessors e) r
              (record_event (EngineInvoked Index) ?w0) = (Inr r', w2)
            \<and> executeTransformers e m' doc w' = Inr (document resp)
            \<and> cacheState (metadata doc) = (if cacheInfo r' = None then Some Miss else Some Hit)
            \<and> ((\<forall>m d x d'. executeTransformers e m d x = Inr d' \<longrightarrow>
                    cacheState (metadata d') = cacheState (metadata d))
                 \<longrightarrow> cacheState (metadata (document resp)) =
                       (if cacheInfo r' = None then Some Miss else Some Hit))"
    if ok: "scrapeURLSingle e meta w = (Inr resp, m', w')" for resp m' w'
  proof -
    from ok[unfolded scrapeURLSingle_returns_iff sel] obtain r' w2 where
      pp: "runPostprocessors e m' (postprocessors e) r
             (record_event (EngineInvoked Index) ?w0) = (Inr r', w2)"
      and tr: "executeTransformers e m' (assembleDocument m' ?out r') w' = Inr (document resp)"
      by auto
    have cs: "cacheState (metadata (assembleDocument m' ?out r')) =
                (if cacheInfo r' = None then Some Miss else Some Hit)"
      by (simp add: cacheState_assembleDocument cacheMetadata_def)
    show ?thesis
      using pp tr cs by metis
  qed
  show ?thesis
    using sel live doc by blast
qed

theorem index_hit_short_circuits_witness:
  "forceEngine (internalOptions meta0) = None \<and> shouldUseIndex env0 meta0
   \<and> engineHandlers env0 Index meta0 (scrapingLogged env0 meta0 world0) = Inr cachedResult0
   \<and> liveEngineCalls (trace (snd (snd (scrapeURLSingle env0 meta0 world0)))) = []
   \<and> returnedCacheState (scrapeURLSingle env0 meta0 world0) = Some (Some Hit)"
proof -
  have g1: "forceEngine (internalOptions meta0) = None"
    by (simp add: meta0_def internalOptions0_def)
  have g2: "shouldUseIndex env0 meta0"
    by (simp add: shouldUseIndex_def env0_def config0_def meta0_def options0_def
                  hasFormatOfType_def markdownFormat_def)
  have g3: "engineHandlers env0 Index meta0 (scrapingLogged env0 meta0 world0) = Inr cachedResult0"
    by (simp add: env0_def)
  have run: "scrapeURLSingle env0 meta0 world0 =
      (Inr \<lparr>document = assembleDocument (meta0\<lparr>winnerEngine := Some Index\<rparr>)
               \<lparr>engine = Index, unsupportedFeatures = getUnsupportedFeatures meta0 Index,
                result = cachedResult0, indexAttempted = True\<rparr> cachedResult0,
             unsupportedFeatures_resp = getUnsupportedFeatures meta0 Index\<rparr>,
       meta0\<lparr>winnerEngine := Some Index\<rparr>,
       record_event (EngineInvoked Index) (scrapingLogged env0 meta0 world0))"
  proof -
    have z: "zdrViolation meta0 = None"
      by (simp add: zdrViolation_def meta0_def internalOptions0_def truthyB_def)
    have u: "getUnsupportedFeatures meta0 Index = []"
      by (simp add: getUnsupportedFeatures_filter meta0_def)
    have a: "\<not> aborted env0 (scrapingLogged env0 meta0 world0)"
      "postprocessors env0 = []"
      "executeTransformers env0 = (\<lambda>m d w. Inr d)"
      by (simp_all add: env0_def)
    show ?thesis
      using index_hit_short_circuits[OF g1 g2 g3] z u a
      by (simp add: scrapeURLSingle_def Let_def)
  qed
  have "liveEngineCalls (trace (snd (snd (scrapeURLSingle env0 meta0 world0)))) = []"
    using index_hit_short_circuits[OF g1 g2 g3]
    by (simp add: world0_def liveEngineCalls_def)
  moreover have "returnedCacheState (scrapeURLSingle env0 meta0 world0) = Some (Some Hit)"
    unfolding run
    by (simp add: returnedCacheState_def cacheState_assembleDocument cacheMetadata_def
                  cachedResult0_def)
  ultimately show ?thesis using g1 g2 g3 by blast
qed

text \<open>
  The claim as stated fails when the index engine returns a result without cacheInfo: the
  request is index-eligible, the index engine returns, and the document says "miss".
\<close>

theorem index_hit_without_cacheInfo_counterexample:
  "forceEngine (internalOptions meta0) = None \<and> shouldUseIndex envNoProvenance meta0
   \<and> engineHandlers envNoProvenance Index meta0
        (scrapingLogged envNoProvenance meta0 world0) = Inr result0
   \<and> returnedCacheState (scrapeURLSingle envNoProvenance meta0 world0) = Some (Some Miss)"
proof -
  have g1: "forceEngine (internalOptions meta0) = None"
    by (simp add: meta0_def internalOptions0_def)
  have g2: "shouldUseIndex envNoProvenance meta0"
    by (simp add: shouldUseIndex_def envNoProvenance_def env0_def config0_def meta0_def
                  options0_def hasFormatOfType_def markdownFormat_def)
  have g3: "engineHandlers envNoProvenance Index meta0
              (scrapingLogged envNoProvenance meta0 world0) = Inr result0"
    by (simp add: envNoProvenance_def)
  have z: "zdrViolation meta0 = None"
    by (simp add: zdrViolation_def meta0_def internalOptions0_def truthyB_def)
  have u: "getUnsupportedFeatures meta0 Index = []"
    by (simp add: getUnsupportedFeatures_filter meta0_def)
  have a: "\<not> aborted envNoProvenance (scrapingLogged envNoProvenance meta0 world0)"
      "postprocessors envNoProvenance = []"
      "executeTransformers envNoProvenance = (\<lambda>m d w. Inr d)"
    by (simp_all add: envNoProvenance_def env0_def)
  have sel: "selectEngineAndScrape envNoProvenance meta0
               (scrapingLogged envNoProvenance meta0 world0) =
       (Inr (\<lparr>engine = Index, unsupportedFeatures = getUnsupportedFeatures meta0 Index,
               result = result0, indexAttempted = True\<rparr>, [Index]),
        meta0, record_event (EngineInvoked Index) (scrapingLogged envNoProvenance meta0 world0))"
    using g1 g2 g3 by (simp add: selectEngineAndScrape_def scrapeURLWithEngine_eq)
  have "returnedCacheState (scrapeURLSingle envNoProvenance meta0 world0) = Some (Some Miss)"
    using sel z u a
    by (simp add: scrapeURLSingle_def Let_def returnedCacheState_def
                  cacheState_assembleDocument cacheMetadata_def result0_def)
  then show ?thesis using g1 g2 g3 by blast
qed

lemma liveEngineFor_world: "liveEngineFor e meta w = liveEngineFor e meta w'"
  by (simp add: liveEngineFor_def selectLiveEngine_def split: option.splits)

lemma liveEngineFor_not_Index:
  "forceEngine (internalOptions meta) \<noteq> Some Index \<Longrightarrow> liveEngineFor e meta w \<noteq> Index"
  using selectLiveEngine_facts(1)[of e meta w]
  by (auto simp: liveEngineFor_def split: option.splits)

lemma live_choice:
  "\<exists>w0. (case forceEngine (internalOptions meta) of
            Some forced \<Rightarrow> (forced, w) | None \<Rightarrow> selectLiveEngine e meta w)
         = (liveEngineFor e meta w, w0)"
  by (auto simp: liveEngineFor_def split: option.splits intro: prod.collapse[symmetric])

lemma selectEngineAndScrape_live_blocked:
  assumes "blockedBy meta (liveEngineFor e meta w)"
  shows "\<exists>msg w0. engineCalls (trace w0) = engineCalls (trace w)
     \<and> selectEngineAndScrape_live e meta elig att w =
         (Inl (if Actions \<in> set (featureFlags meta)
                  \<and> \<not> supportsFeature (liveEngineFor e meta w) Actions
               then ActionsNotSupportedError msg else JsError msg), meta, w0)"
proof -
  obtain w0 where lw: "(case forceEngine (internalOptions meta) of
            Some forced \<Rightarrow> (forced, w) | None \<Rightarrow> selectLiveEngine e meta w)
         = (liveEngineFor e meta w, w0)"
    using live_choice by blast
  have w0: "engineCalls (trace w0) = engineCalls (trace w)"
    using lw selectLiveEngine_facts(2)[of e meta w]
    by (auto split: option.splits simp: prod_eq_iff)
  show ?thesis
    using assms lw w0
    unfolding selectEngineAndScrape_live_def Let_def blockedBy_def set_has_def
    by (auto simp: mem_unsupported)
qed

lemma selectEngineAndScrape_live_calls':
  assumes run: "selectEngineAndScrape_live e meta elig att w = (res, m1, w1)"
  shows "engineCalls (trace w1) = engineCalls (trace w) @
          (if blockedBy meta (liveEngineFor e meta w) then [] else [liveEngineFor e meta w])
     \<and> (\<forall>outcome attempted. res = Inr (outcome, attempted) \<longrightarrow>
           \<not> blockedBy meta (liveEngineFor e meta w)
           \<and> attempted = att @ [liveEngineFor e meta w]
           \<and> engine outcome = liveEngineFor e meta w \<and> indexAttempted outcome = elig
           \<and> unsupportedFeatures outcome = getUnsupportedFeatures meta (liveEngineFor e meta w))"
proof -
  obtain w0 where lw: "(case forceEngine (internalOptions meta) of
            Some forced \<Rightarrow> (forced, w) | None \<Rightarrow> selectLiveEngine e meta w)
         = (liveEngineFor e meta w, w0)"
    using live_choice by blast
  have nb: "\<not> blockedBy meta (liveEngineFor e meta w)" if "res = Inr x" for x
    using selectEngineAndScrape_live_blocked[of meta e w elig att] run that by auto
  show ?thesis
    using selectEngineAndScrape_live_calls[OF run lw] nb by auto
qed


subsection \<open>Cache state of the returned document\<close>


lemma selectEngineAndScrape_miss:
  assumes "forceEngine (internalOptions meta) = None" "shouldUseIndex e meta"
    and "engineHandlers e Index meta w = Inl err" "err = IndexMissError \<or> err = NoCachedDataError"
  shows "selectEngineAndScrape e meta w =
           selectEngineAndScrape_live e meta True [Index] (record_event (EngineInvoked Index) w)"
  using assms by (auto simp: selectEngineAndScrape_def scrapeURLWithEngine_eq)

lemma selectEngineAndScrape_forced_index:
  assumes "forceEngine (internalOptions meta) = Some Index"
  shows "selectEngineAndScrape e meta w =
           (case engineHandlers e Index meta w of
              Inl err \<Rightarrow> (Inl err, meta, record_event (EngineInvoked Index) w)
            | Inr res \<Rightarrow>
                (Inr (\<lparr>engine = Index, unsupportedFeatures = getUnsupportedFeatures meta Index,
                        result = res, indexAttempted = True\<rparr>, [Index]),
                 meta, record_event (EngineInvoked Index) w))"
  using assms by (simp add: selectEngineAndScrape_def scrapeURLWithEngine_eq split: sum.splits)

lemma scrapeURLSingle_success_calls:
  assumes "scrapeURLSingle e meta w = (Inr resp, m', w')"
    and "selectEngineAndScrape e meta (scrapingLogged e meta w) = (sres, m1, w1)"
  shows "engineCalls (trace w') = engineCalls (trace w1)"
  using assms unfolding scrapeURLSingle_returns_iff
  by (auto simp: ec dest!: runPostprocessors_engineCalls' split: if_splits)

lemma scrapeURLSingle_select_fails:
  assumes "zdrViolation meta = None" "\<not> aborted e (scrapingLogged e meta w)"
    and "selectEngineAndScrape e meta (scrapingLogged e meta w) = (Inl err, m1, w1)"
  shows "scrapeURLSingle e meta w = (Inl err, m1, w1)"
  using assms by (simp add: scrapeURLSingle_def Let_def)

subsection \<open>Cache misses\<close>

text \<open>
  C3 (as amended). For an index-eligible request whose index engine throws IndexMissError
  or NoCachedDataError, the error is swallowed and selection continues with the live engine.
  Unless the request carries the actions or branding flag and the live engine does not
  support it (then ActionsNotSupportedError, or an Error for branding, is raised and the
  live engine is not invoked), the live engine is invoked exactly once after the index
  engine; whenever the pipeline returns a document, exactly the index engine and one live
  engine were invoked and the document's cacheState is "miss". When the index engine is
  forced, its error (a miss signal included) is not swallowed: it is the outcome of
  selectEngineAndScrape and of the pipeline.
\<close>

theorem index_miss_falls_back:
  "(forceEngine (internalOptions meta) = None \<and> shouldUseIndex e meta
      \<and> engineHandlers e Index meta w = Inl err
      \<and> (err = IndexMissError \<or> err = NoCachedDataError)
    \<longrightarrow> selectEngineAndScrape e meta w =
          selectEngineAndScrape_live e meta True [Index] (record_event (EngineInvoked Index) w)
      \<and> liveEngineFor e meta w \<noteq> Index
      \<and> engineCalls (trace (snd (snd (selectEngineAndScrape e meta w)))) =
          engineCalls (trace w) @
            (if blockedBy meta (liveEngineFor e meta w) then [Index]
             else [Index, liveEngineFor e meta w])
      \<and> (blockedBy meta (liveEngineFor e meta w) \<longrightarrow>
            (\<exists>msg. fst (selectEngineAndScrape e meta w) = Inl (ActionsNotSupportedError msg)
                  \<or> fst (selectEngineAndScrape e meta w) = Inl (JsError msg)))
      \<and> (\<forall>w_in resp m' w'.
            w = scrapingLogged e meta w_in \<and> scrapeURLSingle e meta w_in = (Inr resp, m', w')
            \<longrightarrow> engineCalls (trace w') =
                  engineCalls (trace w_in) @ [Index, liveEngineFor e meta w]
              \<and> (\<exists>doc. executeTransformers e m' doc w' = Inr (document resp)
                        \<and> cacheState (metadata doc) = Some Miss)
              \<and> ((\<forall>m d x d'. executeTransformers e m d x = Inr d' \<longrightarrow>
                      cacheState (metadata d') = cacheState (metadata d))
                   \<longrightarrow> cacheState (metadata (document resp)) = Some Miss)))
   \<and> (forceEngine (internalOptions meta) = Some Index \<and> engineHandlers e Index meta w = Inl err
    \<longrightarrow> selectEngineAndScrape e meta w = (Inl err, meta, record_event (EngineInvoked Index) w)
      \<and> (\<forall>w_in. w = scrapingLogged e meta w_in \<and> zdrViolation meta = None \<and> \<not> aborted e w
            \<longrightarrow> scrapeURLSingle e meta w_in =
                  (Inl err, meta, record_event (EngineInvoked Index) w)))"
proof (intro conjI impI)
  assume h: "forceEngine (internalOptions meta) = None \<and> shouldUseIndex e meta
      \<and> engineHandlers e Index meta w = Inl err
      \<and> (err = IndexMissError \<or> err = NoCachedDataError)"
  let ?w1 = "record_event (EngineInvoked Index) w"
  let ?live = "liveEngineFor e meta w"
  have l: "liveEngineFor e meta ?w1 = ?live"
    by (rule liveEngineFor_world)
  show eq: "selectEngineAndScrape e meta w = selectEngineAndScrape_live e meta True [Index] ?w1"
    using h by (intro selectEngineAndScrape_miss) auto
  show ni: "?live \<noteq> Index"
    using h liveEngineFor_not_Index[of meta e w] by simp
  obtain res m1 w1 where run: "selectEngineAndScrape_live e meta True [Index] ?w1 = (res, m1, w1)"
    by (metis prod_cases3)
  note lc = selectEngineAndScrape_live_calls'[OF run, unfolded l]
  show "engineCalls (trace (snd (snd (selectEngineAndScrape e meta w)))) =
          engineCalls (trace w) @
            (if blockedBy meta ?live then [Index] else [Index, ?live])"
    using lc unfolding eq run by (simp add: ec)
  show "\<exists>msg. fst (selectEngineAndScrape e meta w) = Inl (ActionsNotSupportedError msg)
                  \<or> fst (selectEngineAndScrape e meta w) = Inl (JsError msg)"
    if "blockedBy meta ?live"
  proof -
    from that have "blockedBy meta (liveEngineFor e meta ?w1)" by (simp add: l)
    from selectEngineAndScrape_live_blocked[OF this, of True "[Index]"]
    show ?thesis unfolding eq by (auto split: if_splits)
  qed
  show "\<forall>w_in resp m' w'.
            w = scrapingLogged e meta w_in \<and> scrapeURLSingle e meta w_in = (Inr resp, m', w')
            \<longrightarrow> engineCalls (trace w') = engineCalls (trace w_in) @ [Index, ?live]
              \<and> (\<exists>doc. executeTransformers e m' doc w' = Inr (document resp)
                        \<and> cacheState (metadata doc) = Some Miss)
              \<and> ((\<forall>m d x d'. executeTransformers e m d x = Inr d' \<longrightarrow>
                      cacheState (metadata d') = cacheState (metadata d))
                   \<longrightarrow> cacheState (metadata (document resp)) = Some Miss)"
  proof (intro allI impI)
    fix w_in resp m' w'
    assume a: "w = scrapingLogged e meta w_in \<and> scrapeURLSingle e meta w_in = (Inr resp, m', w')"
    then have ok: "scrapeURLSingle e meta w_in = (Inr resp, m', w')" and w: "w = scrapingLogged e meta w_in"
      by simp_all
    from ok[unfolded scrapeURLSingle_returns_iff] obtain outcome attempted meta1 wa r' w2 where
      sel: "selectEngineAndScrape e meta w = (Inr (outcome, attempted), meta1, wa)"
      and tr: "executeTransformers e m' (assembleDocument m' outcome r') w' = Inr (document resp)"
      unfolding w by auto
    from sel have res: "res = Inr (outcome, attempted)" "w1 = wa"
      unfolding eq run by simp_all
    from lc res have f: "\<not> blockedBy meta ?live" "engine outcome = ?live" "indexAttempted outcome"
      by simp_all
    have c1: "engineCalls (trace w') = engineCalls (trace w_in) @ [Index, ?live]"
      using scrapeURLSingle_success_calls[OF ok sel[unfolded w]] lc f(1) res(2)
      by (simp add: ec w engineCalls_scrapingLogged)
    have cs: "cacheState (metadata (assembleDocument m' outcome r')) = Some Miss"
      using f ni by (simp add: cacheState_assembleDocument cacheMetadata_def)
    have c3: "(\<forall>m d x d'. executeTransformers e m d x = Inr d' \<longrightarrow>
                      cacheState (metadata d') = cacheState (metadata d))
                   \<longrightarrow> cacheState (metadata (document resp)) = Some Miss"
      using tr cs by metis
    show "engineCalls (trace w') = engineCalls (trace w_in) @ [Index, ?live]
              \<and> (\<exists>doc. executeTransformers e m' doc w' = Inr (document resp)
                        \<and> cacheState (metadata doc) = Some Miss)
              \<and> ((\<forall>m d x d'. executeTransformers e m d x = Inr d' \<longrightarrow>
                      cacheState (metadata d') = cacheState (metadata d))
                   \<longrightarrow> cacheState (metadata (document resp)) = Some Miss)"
      using c1 tr cs c3 by blast
  qed
next
  assume h: "forceEngine (internalOptions meta) = Some Index \<and> engineHandlers e Index meta w = Inl err"
  then show sel: "selectEngineAndScrape e meta w = (Inl err, meta, record_event (EngineInvoked Index) w)"
    by (simp add: selectEngineAndScrape_forced_index)
  show "\<forall>w_in. w = scrapingLogged e meta w_in \<and> zdrViolation meta = None \<and> \<not> aborted e w
            \<longrightarrow> scrapeURLSingle e meta w_in =
                  (Inl err, meta, record_event (EngineInvoked Index) w)"
    using sel scrapeURLSingle_select_fails by blast
qed

lemma applySpecialtyParsing_result0:
  "applySpecialtyParsing e m en result0 w = (Inr result0, m, w)"
  by (simp add: applySpecialtyParsing_def specialtyInput_def detectSpecialtyPlan_def result0_def Let_def
                getHeaderContentType_def truthy_def toLowerCase_def toLowerChar_def
                documentTypes_def hasDocumentSignature_def hasPdfSignature_def)

lemma meta0_gate:
  "forceEngine (internalOptions meta0) = None"
  "zdrViolation meta0 = None"
  "getUnsupportedFeatures meta0 en = []"
  "\<not> blockedBy meta0 en"
  by (simp_all add: meta0_def internalOptions0_def zdrViolation_def truthyB_def
                    getUnsupportedFeatures_filter blockedBy_def)

lemma shouldUseIndex_meta0:
  "config e = config0 \<Longrightarrow> getPDFMaxPages e = (\<lambda>ps. None) \<Longrightarrow> shouldUseIndex e meta0"
  by (simp add: shouldUseIndex_def config0_def meta0_def options0_def
                hasFormatOfType_def markdownFormat_def)

lemma liveEngineFor_config0:
  "config e = config0 \<Longrightarrow> forceEngine (internalOptions m) = None \<Longrightarrow>
     liveEngineFor e m w = Fetch"
  by (simp add: liveEngineFor_def selectLiveEngine_def config0_def truthy_def)

lemma scrapeURLSingle_miss_run:
  "scrapeURLSingle envMiss meta0 world0 =
     (Inr \<lparr>document = assembleDocument (meta0\<lparr>winnerEngine := Some Fetch\<rparr>) missOutcome result0,
            unsupportedFeatures_resp = []\<rparr>,
      meta0\<lparr>winnerEngine := Some Fetch\<rparr>, missRunWorld)"
proof -
  have c: "config envMiss = config0" "getPDFMaxPages envMiss = (\<lambda>ps. None)"
    "\<not> aborted envMiss w" "postprocessors envMiss = []"
    "executeTransformers envMiss = (\<lambda>m d w. Inr d)"
    "engineHandlers envMiss = (\<lambda>en m w. if en = Index then Inl IndexMissError else Inr result0)"
    for w
    by (simp_all add: envMiss_def env0_def)
  have live: "selectEngineAndScrape_live envMiss meta0 True [Index] w =
       (Inr (missOutcome, [Index, Fetch]), meta0,
        record_event (EngineInvoked Fetch)
          (logMsg LogInfo ''No live engine configured; defaulting to fetch'' w))" for w
    by (simp add: selectEngineAndScrape_live_def Let_def meta0_gate selectLiveEngine_def c
                  config0_def truthy_def set_has_def scrapeURLWithEngine_eq
                  applySpecialtyParsing_result0 missOutcome_def)
  have sel: "selectEngineAndScrape envMiss meta0 w =
       (Inr (missOutcome, [Index, Fetch]), meta0,
        record_event (EngineInvoked Fetch)
          (logMsg LogInfo ''No live engine configured; defaulting to fetch''
             (record_event (EngineInvoked Index) w)))" for w
    using selectEngineAndScrape_miss[of meta0 envMiss w IndexMissError]
    by (simp add: meta0_gate shouldUseIndex_meta0 c live)
  show ?thesis
    by (simp add: scrapeURLSingle_def Let_def meta0_gate c sel missOutcome_def missRunWorld_def)
qed

theorem index_miss_falls_back_witness:
  "forceEngine (internalOptions meta0) = None \<and> shouldUseIndex envMiss meta0
   \<and> engineHandlers envMiss Index meta0 (scrapingLogged envMiss meta0 world0) = Inl IndexMissError
   \<and> engineCalls (trace (snd (snd (scrapeURLSingle envMiss meta0 world0)))) = [Index, Fetch]
   \<and> returnedCacheState (scrapeURLSingle envMiss meta0 world0) = Some (Some Miss)
   \<and> forceEngine (internalOptions metaForcedIndex) = Some Index
   \<and> engineHandlers envMiss Index metaForcedIndex (scrapingLogged envMiss metaForcedIndex world0)
        = Inl IndexMissError
   \<and> thrown (scrapeURLSingle envMiss metaForcedIndex world0) = Some IndexMissError"
proof -
  let ?w = "scrapingLogged envMiss meta0 world0"
  have c: "config envMiss = config0" "getPDFMaxPages envMiss = (\<lambda>ps. None)"
    "\<not> aborted envMiss w"
    "executeTransformers envMiss = (\<lambda>m d w. Inr d)"
    "engineHandlers envMiss Index m w = Inl IndexMissError" for m w
    by (simp_all add: envMiss_def env0_def)
  have h1: "forceEngine (internalOptions meta0) = None \<and> shouldUseIndex envMiss meta0
      \<and> engineHandlers envMiss Index meta0 ?w = Inl IndexMissError
      \<and> (IndexMissError = IndexMissError \<or> IndexMissError = NoCachedDataError)"
    by (simp add: meta0_gate shouldUseIndex_meta0 c)
  have live: "liveEngineFor envMiss meta0 ?w = Fetch"
    by (simp add: liveEngineFor_config0 c meta0_gate)
  from index_miss_falls_back[of meta0 envMiss ?w IndexMissError] h1
  have part: "\<forall>w_in resp m' w'.
            ?w = scrapingLogged envMiss meta0 w_in
            \<and> scrapeURLSingle envMiss meta0 w_in = (Inr resp, m', w')
            \<longrightarrow> engineCalls (trace w') =
                  engineCalls (trace w_in) @ [Index, liveEngineFor envMiss meta0 ?w]
              \<and> ((\<forall>m d x d'. executeTransformers envMiss m d x = Inr d' \<longrightarrow>
                      cacheState (metadata d') = cacheState (metadata d))
                   \<longrightarrow> cacheState (metadata (document resp)) = Some Miss)"
    by blast
  have keeps: "\<forall>m d x d'. executeTransformers envMiss m d x = Inr d' \<longrightarrow>
                      cacheState (metadata d') = cacheState (metadata d)"
    by (simp add: c)
  have t0: "engineCalls (trace world0) = []"
    by (simp add: world0_def)
  from part[rule_format, OF conjI[OF refl scrapeURLSingle_miss_run]] keeps
  have a: "engineCalls (trace (snd (snd (scrapeURLSingle envMiss meta0 world0)))) = [Index, Fetch]"
    and b: "returnedCacheState (scrapeURLSingle envMiss meta0 world0) = Some (Some Miss)"
    unfolding scrapeURLSingle_miss_run live t0
    by (simp_all add: returnedCacheState_def)
  let ?wf = "scrapingLogged envMiss metaForcedIndex world0"
  have h2: "forceEngine (internalOptions metaForcedIndex) = Some Index
            \<and> engineHandlers envMiss Index metaForcedIndex ?wf = Inl IndexMissError"
    by (simp add: metaForcedIndex_def c)
  have z: "zdrViolation metaForcedIndex = None"
    by (simp add: zdrViolation_def metaForcedIndex_def internalOptions0_def truthyB_def)
  from index_miss_falls_back[of metaForcedIndex envMiss ?wf IndexMissError] h2 z c(3)
  have "scrapeURLSingle envMiss metaForcedIndex world0 =
          (Inl IndexMissError, metaForcedIndex, record_event (EngineInvoked Index) ?wf)"
    by blast
  then have d: "thrown (scrapeURLSingle envMiss metaForcedIndex world0) = Some IndexMissError"
    by (simp add: thrown_def)
  show ?thesis using h1 h2 a b d by blast
qed

text \<open>
  The claim as stated fails for a request with an empty action list where no browser engine
  is configured: it is index-eligible, the index misses, and ActionsNotSupportedError is
  raised without the live engine being invoked.
\<close>

theorem index_miss_empty_actions_counterexample:
  "forceEngine (internalOptions metaEmptyActions) = None
   \<and> shouldUseIndex envMiss metaEmptyActions
   \<and> featureFlags metaEmptyActions =
       buildFeatureFlags (url_M metaEmptyActions) (options metaEmptyActions)
         (internalOptions metaEmptyActions)
   \<and> engineHandlers envMiss Index metaEmptyActions
        (scrapingLogged envMiss metaEmptyActions world0) = Inl IndexMissError
   \<and> engineCalls (trace (snd (snd (scrapeURLSingle envMiss metaEmptyActions world0)))) = [Index]
   \<and> thrown (scrapeURLSingle envMiss metaEmptyActions world0) =
       Some (ActionsNotSupportedError
         ''Actions are not supported by this engine. Actions require Fire Engine (fire-engine) to be enabled.'')"
proof -
  have c: "config envMiss = config0" "getPDFMaxPages envMiss = (\<lambda>ps. None)"
    "\<not> aborted envMiss w"
    "engineHandlers envMiss Index m w = Inl IndexMissError" for m w
    by (simp_all add: envMiss_def env0_def)
  have g: "forceEngine (internalOptions metaEmptyActions) = None"
    "zdrViolation metaEmptyActions = None"
    by (simp_all add: metaEmptyActions_def meta0_def internalOptions0_def zdrViolation_def
                      truthyB_def)
  have u: "shouldUseIndex envMiss metaEmptyActions"
    by (simp add: shouldUseIndex_def c config0_def metaEmptyActions_def meta0_def options0_def
                  hasFormatOfType_def markdownFormat_def)
  have f: "featureFlags metaEmptyActions =
       buildFeatureFlags (url_M metaEmptyActions) (options metaEmptyActions)
         (internalOptions metaEmptyActions)"
    by (simp add: buildFeatureFlags_def metaEmptyActions_def meta0_def options0_def
                  internalOptions0_def hasFormatOfType_def markdownFormat_def set_add_def
                  truthyB_def Let_def)
  have ff: "featureFlags metaEmptyActions = [Actions]"
    by (simp add: metaEmptyActions_def)
  have live: "selectEngineAndScrape_live envMiss metaEmptyActions True [Index] w =
       (Inl (ActionsNotSupportedError
         ''Actions are not supported by this engine. Actions require Fire Engine (fire-engine) to be enabled.''),
        metaEmptyActions,
        logMsg LogInfo ''No live engine configured; defaulting to fetch'' w)" for w
    by (simp add: selectEngineAndScrape_live_def Let_def g selectLiveEngine_def c
                  config0_def truthy_def set_has_def mem_unsupported supportsFeature_def ff)
  have run: "scrapeURLSingle envMiss metaEmptyActions world0 =
       (Inl (ActionsNotSupportedError
         ''Actions are not supported by this engine. Actions require Fire Engine (fire-engine) to be enabled.''),
        metaEmptyActions,
        logMsg LogInfo ''No live engine configured; defaulting to fetch''
          (record_event (EngineInvoked Index) (scrapingLogged envMiss metaEmptyActions world0)))"
    using selectEngineAndScrape_miss[of metaEmptyActions envMiss
            "scrapingLogged envMiss metaEmptyActions world0" IndexMissError]
    by (simp add: scrapeURLSingle_select_fails g u c live)
  have t0: "engineCalls (trace world0) = []"
    by (simp add: world0_def)
  show ?thesis
    using g(1) u f c(4) unfolding run
    by (simp add: thrown_def ec engineCalls_scrapingLogged t0)
qed

lemma selectEngineAndScrape_index_hit:
  assumes "forceEngine (internalOptions meta) = None" "shouldUseIndex e meta"
    and "engineHandlers e Index meta w = Inr r"
  shows "selectEngineAndScrape e meta w =
     (Inr (\<lparr>engine = Index, unsupportedFeatures = getUnsupportedFeatures meta Index,
             result = r, indexAttempted = True\<rparr>, [Index]),
      meta, record_event (EngineInvoked Index) w)"
  using assms by (simp add: selectEngineAndScrape_def scrapeURLWithEngine_eq)




lemma selectEngineAndScrape_not_eligible:
  assumes "forceEngine (internalOptions meta) \<noteq> Some Index"
    and "\<not> (forceEngine (internalOptions meta) = None \<and> shouldUseIndex e meta)"
  shows "selectEngineAndScrape e meta w = selectEngineAndScrape_live e meta False [] w"
  using assms by (auto simp: selectEngineAndScrape_def)

lemma selectEngineAndScrape_index_error:
  assumes "forceEngine (internalOptions meta) = None" "shouldUseIndex e meta"
    and "engineHandlers e Index meta w = Inl err" "err \<noteq> IndexMissError" "err \<noteq> NoCachedDataError"
  shows "selectEngineAndScrape e meta w = (Inl err, meta, record_event (EngineInvoked Index) w)"
  using assms by (auto simp: selectEngineAndScrape_def scrapeURLWithEngine_eq)

lemma liveEngineCalls_eq:
  "engineCalls (trace w') = engineCalls (trace w) \<Longrightarrow>
     liveEngineCalls (trace w') = liveEngineCalls (trace w)"
  "engineCalls (trace w') = engineCalls (trace w) @ [Index] \<Longrightarrow>
     liveEngineCalls (trace w') = liveEngineCalls (trace w)"
  by (simp_all add: liveEngineCalls_def)

subsection \<open>Actions on an engine without actions\<close>

text \<open>
  C7 (as amended). For every request with the actions flag set that does not force the
  index engine and whose live engine (the forced engine, else the configured one) marks
  actions as unsupported: the live engine is never invoked. When the index engine is not
  attempted (an engine is forced, or shouldUseIndex fails), selectEngineAndScrape and the
  pipeline raise ActionsNotSupportedError before any engine is invoked. When the index
  engine is attempted first (shouldUseIndex admits an empty action list), it is the only
  engine invoked: a hit is returned, a miss signal leads to ActionsNotSupportedError, and
  any other index error propagates.
\<close>

theorem actions_unsupported_raises:
  assumes a: "Actions \<in> set (featureFlags meta)"
    and f: "forceEngine (internalOptions meta) \<noteq> Some Index"
    and u: "\<not> supportsFeature (liveEngineFor e meta w) Actions"
  shows
   "liveEngineCalls (trace (snd (snd (selectEngineAndScrape e meta w)))) = liveEngineCalls (trace w)
    \<and> (\<not> (forceEngine (internalOptions meta) = None \<and> shouldUseIndex e meta) \<longrightarrow>
          (\<exists>msg. fst (selectEngineAndScrape e meta w) = Inl (ActionsNotSupportedError msg))
          \<and> engineCalls (trace (snd (snd (selectEngineAndScrape e meta w)))) = engineCalls (trace w))
    \<and> (forceEngine (internalOptions meta) = None \<and> shouldUseIndex e meta \<longrightarrow>
          engineCalls (trace (snd (snd (selectEngineAndScrape e meta w)))) =
            engineCalls (trace w) @ [Index]
          \<and> (case engineHandlers e Index meta w of
                Inr r \<Rightarrow>
                  (\<exists>outcome. fst (selectEngineAndScrape e meta w) = Inr (outcome, [Index])
                             \<and> engine outcome = Index \<and> result outcome = r)
              | Inl err \<Rightarrow>
                  if err = IndexMissError \<or> err = NoCachedDataError
                  then (\<exists>msg. fst (selectEngineAndScrape e meta w) =
                                Inl (ActionsNotSupportedError msg))
                  else fst (selectEngineAndScrape e meta w) = Inl err))
    \<and> (\<forall>w_in. w = scrapingLogged e meta w_in \<longrightarrow>
          liveEngineCalls (trace (snd (snd (scrapeURLSingle e meta w_in)))) =
            liveEngineCalls (trace w_in)
          \<and> (zdrViolation meta = None \<and> \<not> aborted e w
               \<and> \<not> (forceEngine (internalOptions meta) = None \<and> shouldUseIndex e meta) \<longrightarrow>
                (\<exists>msg. fst (scrapeURLSingle e meta w_in) = Inl (ActionsNotSupportedError msg))
                \<and> engineCalls (trace (snd (snd (scrapeURLSingle e meta w_in)))) =
                    engineCalls (trace w_in)))"
proof -
  let ?live = "liveEngineFor e meta w"
  let ?elig = "forceEngine (internalOptions meta) = None \<and> shouldUseIndex e meta"
  let ?w1 = "record_event (EngineInvoked Index) w"
  have blocked: "blockedBy meta (liveEngineFor e meta x)" for x
    using a u liveEngineFor_world[of e meta x w] by (simp add: blockedBy_def)
  have act: "Actions \<in> set (featureFlags meta) \<and> \<not> supportsFeature (liveEngineFor e meta x) Actions"
    for x
    using a u liveEngineFor_world[of e meta x w] by simp
  have live_run: "\<exists>msg w0. engineCalls (trace w0) = engineCalls (trace x)
       \<and> selectEngineAndScrape_live e meta elig att x =
           (Inl (ActionsNotSupportedError msg), meta, w0)" for elig att x
    using selectEngineAndScrape_live_blocked[OF blocked, of x elig att] act[of x] by auto
  have ne: "(\<exists>msg w0. selectEngineAndScrape e meta w = (Inl (ActionsNotSupportedError msg), meta, w0)
                \<and> engineCalls (trace w0) = engineCalls (trace w))"
    if "\<not> ?elig"
  proof -
    from live_run[of w False "[]"] obtain msg w0 where
      c: "engineCalls (trace w0) = engineCalls (trace w)"
      and r: "selectEngineAndScrape_live e meta False [] w =
                (Inl (ActionsNotSupportedError msg), meta, w0)"
      by blast
    have "selectEngineAndScrape e meta w = (Inl (ActionsNotSupportedError msg), meta, w0)"
      using selectEngineAndScrape_not_eligible[OF f that, of w] r by simp
    with c show ?thesis by blast
  qed
  have el: "engineCalls (trace (snd (snd (selectEngineAndScrape e meta w)))) =
            engineCalls (trace w) @ [Index]
          \<and> (case engineHandlers e Index meta w of
                Inr r \<Rightarrow>
                  (\<exists>outcome. fst (selectEngineAndScrape e meta w) = Inr (outcome, [Index])
                             \<and> engine outcome = Index \<and> result outcome = r)
              | Inl err \<Rightarrow>
                  if err = IndexMissError \<or> err = NoCachedDataError
                  then (\<exists>msg. fst (selectEngineAndScrape e meta w) =
                                Inl (ActionsNotSupportedError msg))
                  else fst (selectEngineAndScrape e meta w) = Inl err)"
    if e: "?elig"
  proof (cases "engineHandlers e Index meta w")
    case (Inr r)
    then show ?thesis
      using selectEngineAndScrape_index_hit[of meta e w r] e by (simp add: ec)
  next
    case (Inl err)
    show ?thesis
    proof (cases "err = IndexMissError \<or> err = NoCachedDataError")
      case True
      from live_run[of ?w1 True "[Index]"] obtain msg w0 where
        c: "engineCalls (trace w0) = engineCalls (trace ?w1)"
        and r: "selectEngineAndScrape_live e meta True [Index] ?w1 =
                  (Inl (ActionsNotSupportedError msg), meta, w0)"
        by blast
      have s: "selectEngineAndScrape e meta w = (Inl (ActionsNotSupportedError msg), meta, w0)"
        using selectEngineAndScrape_miss[of meta e w err] e Inl True r by simp
      show ?thesis
        unfolding s using Inl True c by (simp add: ec)
    next
      case False
      then show ?thesis
        using selectEngineAndScrape_index_error[of meta e w err] e Inl by (simp add: ec)
    qed
  qed
  have sel_live: "liveEngineCalls (trace (snd (snd (selectEngineAndScrape e meta w)))) =
                  liveEngineCalls (trace w)"
  proof (cases ?elig)
    case True
    then have "engineCalls (trace (snd (snd (selectEngineAndScrape e meta w)))) =
            engineCalls (trace w) @ [Index]"
      using el by simp
    then show ?thesis by (rule liveEngineCalls_eq(2))
  next
    case False
    from ne[OF False] obtain msg w0 where
      s: "selectEngineAndScrape e meta w = (Inl (ActionsNotSupportedError msg), meta, w0)"
      and c: "engineCalls (trace w0) = engineCalls (trace w)"
      by blast
    show ?thesis unfolding s using c by (simp add: liveEngineCalls_def)
  qed
  have pipe: "liveEngineCalls (trace (snd (snd (scrapeURLSingle e meta w_in)))) =
            liveEngineCalls (trace w_in)
          \<and> (zdrViolation meta = None \<and> \<not> aborted e w \<and> \<not> ?elig \<longrightarrow>
                (\<exists>msg. fst (scrapeURLSingle e meta w_in) = Inl (ActionsNotSupportedError msg))
                \<and> engineCalls (trace (snd (snd (scrapeURLSingle e meta w_in)))) =
                    engineCalls (trace w_in))"
    if w: "w = scrapingLogged e meta w_in" for w_in
  proof -
    obtain res m' w' where run: "scrapeURLSingle e meta w_in = (res, m', w')"
      by (metis prod_cases3)
    obtain sres m1 w1 where sel: "selectEngineAndScrape e meta w = (sres, m1, w1)"
      by (metis prod_cases3)
    have base: "liveEngineCalls (trace w) = liveEngineCalls (trace w_in)"
      by (simp add: w liveEngineCalls_def engineCalls_scrapingLogged)
    have "engineCalls (trace w') = engineCalls (trace w_in)
           \<or> engineCalls (trace w') = engineCalls (trace w1)"
      using scrapeURLSingle_engineCalls[OF run sel[unfolded w]] .
    moreover have "liveEngineCalls (trace w1) = liveEngineCalls (trace w_in)"
      using sel_live base unfolding sel by simp
    ultimately have p1: "liveEngineCalls (trace w') = liveEngineCalls (trace w_in)"
      unfolding liveEngineCalls_def by metis
    have p2: "(\<exists>msg. fst (scrapeURLSingle e meta w_in) = Inl (ActionsNotSupportedError msg))
                \<and> engineCalls (trace (snd (snd (scrapeURLSingle e meta w_in)))) =
                    engineCalls (trace w_in)"
      if "zdrViolation meta = None \<and> \<not> aborted e w \<and> \<not> ?elig"
    proof -
      from that ne obtain msg w0 where
        s: "selectEngineAndScrape e meta w = (Inl (ActionsNotSupportedError msg), meta, w0)"
        and c: "engineCalls (trace w0) = engineCalls (trace w)"
        by blast
      have "scrapeURLSingle e meta w_in = (Inl (ActionsNotSupportedError msg), meta, w0)"
        using scrapeURLSingle_select_fails[of meta e w_in] that s unfolding w by simp
      then show ?thesis using c by (simp add: w engineCalls_scrapingLogged)
    qed
    show ?thesis using p1 p2 unfolding run by simp
  qed
  have ne': "(\<exists>msg. fst (selectEngineAndScrape e meta w) = Inl (ActionsNotSupportedError msg))
          \<and> engineCalls (trace (snd (snd (selectEngineAndScrape e meta w)))) = engineCalls (trace w)"
    if "\<not> ?elig"
  proof -
    from ne[OF that] obtain msg w0 where
      s: "selectEngineAndScrape e meta w = (Inl (ActionsNotSupportedError msg), meta, w0)"
      and c: "engineCalls (trace w0) = engineCalls (trace w)"
      by blast
    show ?thesis unfolding s using c by simp
  qed
  show ?thesis
    apply (intro conjI impI allI)
    subgoal by (rule sel_live)
    subgoal using ne' by simp
    subgoal using ne' by simp
    subgoal using el by simp
    subgoal using el by simp
    subgoal using pipe by simp
    subgoal using pipe by simp
    subgoal using pipe by simp
    done
qed

theorem actions_unsupported_raises_witness:
  "Actions \<in> set (featureFlags metaActions)
   \<and> forceEngine (internalOptions metaActions) \<noteq> Some Index
   \<and> \<not> supportsFeature (liveEngineFor env0 metaActions (scrapingLogged env0 metaActions world0))
         Actions
   \<and> \<not> shouldUseIndex env0 metaActions
   \<and> (\<exists>msg. fst (scrapeURLSingle env0 metaActions world0) = Inl (ActionsNotSupportedError msg))
   \<and> engineCalls (trace (snd (snd (scrapeURLSingle env0 metaActions world0)))) = []"
proof -
  let ?w = "scrapingLogged env0 metaActions world0"
  have a: "Actions \<in> set (featureFlags metaActions)"
    by (simp add: metaActions_def)
  have f: "forceEngine (internalOptions metaActions) \<noteq> Some Index"
    "forceEngine (internalOptions metaActions) = None"
    by (simp_all add: metaActions_def meta0_def internalOptions0_def)
  have l: "liveEngineFor env0 metaActions ?w = Fetch"
    by (rule liveEngineFor_config0) (simp_all add: env0_def f)
  have u: "\<not> supportsFeature (liveEngineFor env0 metaActions ?w) Actions"
    unfolding l by (simp add: supportsFeature_def)
  have n: "\<not> shouldUseIndex env0 metaActions"
    by (simp add: shouldUseIndex_def metaActions_def clickAction_def)
  have z: "zdrViolation metaActions = None" "\<not> aborted env0 ?w"
    by (simp_all add: zdrViolation_def metaActions_def meta0_def internalOptions0_def
                      truthyB_def env0_def)
  have t0: "engineCalls (trace world0) = []"
    by (simp add: world0_def)
  from actions_unsupported_raises[OF a f(1) u] z n
  have "(\<exists>msg. fst (scrapeURLSingle env0 metaActions world0) = Inl (ActionsNotSupportedError msg))
        \<and> engineCalls (trace (snd (snd (scrapeURLSingle env0 metaActions world0)))) =
            engineCalls (trace world0)"
    by blast
  then show ?thesis using a f(1) u n t0 by simp
qed

text \<open>
  The claim as stated fails when the index engine is forced: its table marks actions as
  unsupported, it is the only engine the request can run on, and the pipeline invokes it and
  returns a document (with a warning) instead of raising ActionsNotSupportedError.
\<close>

theorem forced_index_with_actions_counterexample:
  "Actions \<in> set (featureFlags metaActionsForcedIndex)
   \<and> featureFlags metaActionsForcedIndex =
       buildFeatureFlags (url_M metaActionsForcedIndex) (options metaActionsForcedIndex)
         (internalOptions metaActionsForcedIndex)
   \<and> forceEngine (internalOptions metaActionsForcedIndex) = Some Index
   \<and> \<not> supportsFeature Index Actions
   \<and> thrown (scrapeURLSingle env0 metaActionsForcedIndex world0) = None
   \<and> engineCalls (trace (snd (snd (scrapeURLSingle env0 metaActionsForcedIndex world0)))) = [Index]"
proof -
  let ?m = metaActionsForcedIndex
  let ?w = "scrapingLogged env0 ?m world0"
  have g: "featureFlags ?m = [Actions]"
    "forceEngine (internalOptions ?m) = Some Index"
    "zdrViolation ?m = None"
    by (simp_all add: metaActionsForcedIndex_def metaActions_def zdrViolation_def
                      internalOptions0_def truthyB_def set_has_def options0_def clickAction_def)
  have b: "featureFlags ?m = buildFeatureFlags (url_M ?m) (options ?m) (internalOptions ?m)"
    by (simp add: buildFeatureFlags_def metaActionsForcedIndex_def metaActions_def meta0_def
                  options0_def internalOptions0_def hasFormatOfType_def markdownFormat_def
                  set_add_def truthyB_def Let_def)
  have c: "\<not> aborted env0 w" "postprocessors env0 = []"
    "executeTransformers env0 = (\<lambda>m d w. Inr d)"
    "engineHandlers env0 Index m w = Inr cachedResult0" for m w
    by (simp_all add: env0_def)
  have u: "getUnsupportedFeatures ?m Index = [Actions]" "\<not> supportsFeature Index Actions"
    by (simp_all add: getUnsupportedFeatures_filter g supportsFeature_def)
  have sel: "selectEngineAndScrape env0 ?m ?w =
      (Inr (\<lparr>engine = Index, unsupportedFeatures = [Actions], result = cachedResult0,
              indexAttempted = True\<rparr>, [Index]), ?m, record_event (EngineInvoked Index) ?w)"
    by (simp add: selectEngineAndScrape_forced_index g c u)
  have t0: "engineCalls (trace world0) = []"
    by (simp add: world0_def)
  have run: "thrown (scrapeURLSingle env0 ?m world0) = None
     \<and> engineCalls (trace (snd (snd (scrapeURLSingle env0 ?m world0)))) = [Index]"
    by (simp add: scrapeURLSingle_def Let_def g c sel thrown_def ec engineCalls_scrapingLogged t0)
  show ?thesis using g(1,2) b u(2) run by simp
qed

lemma set_set_add: "set (set_add x xs) = insert x (set xs)"
  by (auto simp: set_add_def)

lemma screenshot_flag:
  "hasFormatOfType (formats opts) ''screenshot'' \<noteq> None \<Longrightarrow>
     Screenshot \<in> set (buildFeatureFlags u opts iopts)
     \<or> ScreenshotFullScreen \<in> set (buildFeatureFlags u opts iopts)"
  unfolding buildFeatureFlags_def Let_def
  by (auto simp: set_set_add split: option.splits)

lemma zdrViolation_Some:
  assumes "truthyB (zeroDataRetention (internalOptions meta))"
    and "Screenshot \<in> set (featureFlags meta) \<or> ScreenshotFullScreen \<in> set (featureFlags meta)
         \<or> (\<exists>acts a. actions_O (options meta) = Some acts \<and> a \<in> set acts
               \<and> (actionType a = ''screenshot'' \<or> actionType a = ''pdf''))"
  shows "\<exists>what. zdrViolation meta = Some (ZDRViolationError what)"
  using assms unfolding zdrViolation_def set_has_def
  by (auto simp: find_None_iff split: option.splits)

subsection \<open>Zero data retention\<close>

text \<open>
  C8. A requested screenshot format puts the screenshot or the full-screen screenshot flag
  into the request's flags. For every request in zero-data-retention mode that carries one
  of these flags, or a screenshot or pdf action, scrapeURLSingle raises ZDRViolationError
  right after its first log line: before engine selection, with no engine invoked.
\<close>

theorem zdr_violation_rejected:
  "(hasFormatOfType (formats opts) ''screenshot'' \<noteq> None \<longrightarrow>
      Screenshot \<in> set (buildFeatureFlags u opts iopts)
      \<or> ScreenshotFullScreen \<in> set (buildFeatureFlags u opts iopts))
   \<and> (truthyB (zeroDataRetention (internalOptions meta))
       \<and> (Screenshot \<in> set (featureFlags meta) \<or> ScreenshotFullScreen \<in> set (featureFlags meta)
           \<or> (\<exists>acts a. actions_O (options meta) = Some acts \<and> a \<in> set acts
                 \<and> (actionType a = ''screenshot'' \<or> actionType a = ''pdf'')))
      \<longrightarrow> (\<exists>what. scrapeURLSingle e meta w =
                     (Inl (ZDRViolationError what), meta, scrapingLogged e meta w))
          \<and> trace (snd (snd (scrapeURLSingle e meta w))) =
              trace w @ [Logged LogInfo
                           (''Scraping URL ''
                              @ JSON_stringify e
                                  (case rewrittenUrl meta of Some x \<Rightarrow> x | None \<Rightarrow> url_M meta)
                              @ ''...'')]
          \<and> engineCalls (trace (snd (snd (scrapeURLSingle e meta w)))) = engineCalls (trace w))"
proof (intro conjI impI)
  assume "hasFormatOfType (formats opts) ''screenshot'' \<noteq> None"
  then show "Screenshot \<in> set (buildFeatureFlags u opts iopts)
      \<or> ScreenshotFullScreen \<in> set (buildFeatureFlags u opts iopts)"
    by (rule screenshot_flag)
next
  assume h: "truthyB (zeroDataRetention (internalOptions meta))
       \<and> (Screenshot \<in> set (featureFlags meta) \<or> ScreenshotFullScreen \<in> set (featureFlags meta)
           \<or> (\<exists>acts a. actions_O (options meta) = Some acts \<and> a \<in> set acts
                 \<and> (actionType a = ''screenshot'' \<or> actionType a = ''pdf'')))"
  then obtain what where z: "zdrViolation meta = Some (ZDRViolationError what)"
    using zdrViolation_Some[of meta] by blast
  have run: "scrapeURLSingle e meta w =
               (Inl (ZDRViolationError what), meta, scrapingLogged e meta w)"
    by (simp add: scrapeURLSingle_def Let_def z)
  show "\<exists>what. scrapeURLSingle e meta w =
                     (Inl (ZDRViolationError what), meta, scrapingLogged e meta w)"
    using run by blast
  show "trace (snd (snd (scrapeURLSingle e meta w))) =
              trace w @ [Logged LogInfo
                           (''Scraping URL ''
                              @ JSON_stringify e
                                  (case rewrittenUrl meta of Some x \<Rightarrow> x | None \<Rightarrow> url_M meta)
                              @ ''...'')]"
    unfolding run by (simp add: scrapingLogged_def logMsg_simps)
  show "engineCalls (trace (snd (snd (scrapeURLSingle e meta w)))) = engineCalls (trace w)"
    unfolding run by (simp add: engineCalls_scrapingLogged)
qed

theorem zdr_violation_rejected_witness:
  "hasFormatOfType (formats (options metaZdrScreenshot)) ''screenshot'' \<noteq> None
   \<and> featureFlags metaZdrScreenshot =
       buildFeatureFlags (url_M metaZdrScreenshot) (options metaZdrScreenshot)
         (internalOptions metaZdrScreenshot)
   \<and> truthyB (zeroDataRetention (internalOptions metaZdrScreenshot))
   \<and> Screenshot \<in> set (featureFlags metaZdrScreenshot)
   \<and> (\<exists>what. thrown (scrapeURLSingle env0 metaZdrScreenshot world0) =
                 Some (ZDRViolationError what))
   \<and> engineCalls (trace (snd (snd (scrapeURLSingle env0 metaZdrScreenshot world0)))) = []"
proof -
  let ?m = metaZdrScreenshot
  have f: "hasFormatOfType (formats (options ?m)) ''screenshot'' \<noteq> None"
    by (simp add: metaZdrScreenshot_def hasFormatOfType_def screenshotFormat_def)
  have b: "featureFlags ?m = buildFeatureFlags (url_M ?m) (options ?m) (internalOptions ?m)"
    by (simp add: buildFeatureFlags_def metaZdrScreenshot_def meta0_def options0_def
                  internalOptions0_def hasFormatOfType_def screenshotFormat_def
                  set_add_def truthyB_def Let_def)
  have z: "truthyB (zeroDataRetention (internalOptions ?m))"
    by (simp add: metaZdrScreenshot_def truthyB_def)
  have s: "Screenshot \<in> set (featureFlags ?m)"
    by (simp add: metaZdrScreenshot_def)
  have t0: "engineCalls (trace world0) = []"
    by (simp add: world0_def)
  from zdr_violation_rejected[of "options ?m" "url_M ?m" "internalOptions ?m" ?m env0 world0] z s
  have "(\<exists>what. scrapeURLSingle env0 ?m world0 =
                     (Inl (ZDRViolationError what), ?m, scrapingLogged env0 ?m world0))
        \<and> engineCalls (trace (snd (snd (scrapeURLSingle env0 ?m world0)))) =
            engineCalls (trace world0)"
    by blast
  then have "(\<exists>what. thrown (scrapeURLSingle env0 ?m world0) = Some (ZDRViolationError what))
     \<and> engineCalls (trace (snd (snd (scrapeURLSingle env0 ?m world0)))) = []"
    unfolding t0 by (auto simp: thrown_def)
  then show ?thesis using f b z s by blast
qed

lemma runPostprocessors_append:
  "runPostprocessors e meta (xs @ ys) r w =
     (case runPostprocessors e meta xs r w of
        (Inl err, w1) \<Rightarrow> (Inl err, w1)
      | (Inr r1, w1) \<Rightarrow> runPostprocessors e meta ys r1 w1)"
proof (induction xs arbitrary: r w)
  case Nil
  show ?case by simp
next
  case (Cons p ps)
  show ?case
    by (simp add: Cons.IH Let_def split: sum.splits prod.splits)
qed

subsection \<open>The postprocessor chain\<close>

text \<open>
  C5. When a postprocessor whose shouldRun predicate is true throws from run, the failure is
  only logged (two log lines, the second a warning) and nothing is assigned to the working
  result: the step ends with the object that was handed to run, as run left it, and the
  chain goes on with the rest of the list from there, wherever in the list the step stands.
  The next postprocessor, when its predicate is true, is run on that object (if the step
  wrote to it, its url must still be one). When run did not write to the object before it
  threw, the working result is equal to its value from before the step, and so is its
  postprocessorsUsed: the thrown step added nothing to it.
\<close>

theorem postprocessor_failure_is_skipped:
  "validURL e (url_R r)
   \<and> shouldRun p meta (url_R r) (postprocessorsUsed_R r)
   \<and> run p meta r (logMsg LogInfo (''Running postprocessor '' @ name_PP p) w) = (Inl err, r')
   \<longrightarrow> runPostprocessors e meta [p] r w =
         (Inr r', logMsg LogWarn (''Failed to run postprocessor '' @ name_PP p)
                    (logMsg LogInfo (''Running postprocessor '' @ name_PP p) w))
     \<and> trace (snd (runPostprocessors e meta [p] r w)) =
         trace w @ [Logged LogInfo (''Running postprocessor '' @ name_PP p),
                    Logged LogWarn (''Failed to run postprocessor '' @ name_PP p)]
     \<and> runPostprocessors e meta (p # rest) r w =
         runPostprocessors e meta rest r'
           (logMsg LogWarn (''Failed to run postprocessor '' @ name_PP p)
              (logMsg LogInfo (''Running postprocessor '' @ name_PP p) w))
     \<and> (\<forall>before r0 w0. runPostprocessors e meta before r0 w0 = (Inr r, w) \<longrightarrow>
           runPostprocessors e meta (before @ p # rest) r0 w0 =
             runPostprocessors e meta rest r'
               (logMsg LogWarn (''Failed to run postprocessor '' @ name_PP p)
                  (logMsg LogInfo (''Running postprocessor '' @ name_PP p) w)))
     \<and> (\<forall>q rest'. rest = q # rest' \<and> (r' \<noteq> r \<longrightarrow> validURL e (url_R r'))
                   \<and> shouldRun q meta (url_R r') (postprocessorsUsed_R r') \<longrightarrow>
           (\<exists>w1 w2. trace w1 = trace w
                       @ [Logged LogInfo (''Running postprocessor '' @ name_PP p),
                          Logged LogWarn (''Failed to run postprocessor '' @ name_PP p),
                          Logged LogInfo (''Running postprocessor '' @ name_PP q)]
                  \<and> runPostprocessors e meta (p # rest) r w =
                      (case run q meta r' w1 of
                         (Inr res, handed) \<Rightarrow> runPostprocessors e meta rest' res w1
                       | (Inl err', handed) \<Rightarrow> runPostprocessors e meta rest' handed w2)))
     \<and> (r' = r \<longrightarrow>
           fst (runPostprocessors e meta [p] r w) = Inr r
           \<and> (\<forall>res. fst (runPostprocessors e meta [p] r w) = Inr res \<longrightarrow>
                  postprocessorsUsed_R res = postprocessorsUsed_R r))"
proof (intro impI)
  assume h: "validURL e (url_R r)
   \<and> shouldRun p meta (url_R r) (postprocessorsUsed_R r)
   \<and> run p meta r (logMsg LogInfo (''Running postprocessor '' @ name_PP p) w) = (Inl err, r')"
  let ?w' = "logMsg LogWarn (''Failed to run postprocessor '' @ name_PP p)
              (logMsg LogInfo (''Running postprocessor '' @ name_PP p) w)"
  have step: "runPostprocessors e meta (p # xs) r w = runPostprocessors e meta xs r' ?w'" for xs
    using h by (simp add: Let_def)
  have one: "runPostprocessors e meta [p] r w = (Inr r', ?w')"
    using step[of "[]"] by simp
  have tr: "trace (snd (runPostprocessors e meta [p] r w)) =
         trace w @ [Logged LogInfo (''Running postprocessor '' @ name_PP p),
                    Logged LogWarn (''Failed to run postprocessor '' @ name_PP p)]"
    unfolding one by (simp add: logMsg_simps)
  have mid: "runPostprocessors e meta (before @ p # rest) r0 w0 =
             runPostprocessors e meta rest r' ?w'"
    if "runPostprocessors e meta before r0 w0 = (Inr r, w)" for before r0 w0
    using that step[of rest] by (simp add: runPostprocessors_append)
  have nxt: "\<exists>w1 w2. trace w1 = trace w
                       @ [Logged LogInfo (''Running postprocessor '' @ name_PP p),
                          Logged LogWarn (''Failed to run postprocessor '' @ name_PP p),
                          Logged LogInfo (''Running postprocessor '' @ name_PP q)]
                  \<and> runPostprocessors e meta (p # rest) r w =
                      (case run q meta r' w1 of
                         (Inr res, handed) \<Rightarrow> runPostprocessors e meta rest' res w1
                       | (Inl err', handed) \<Rightarrow> runPostprocessors e meta rest' handed w2)"
    if "rest = q # rest' \<and> (r' \<noteq> r \<longrightarrow> validURL e (url_R r'))
        \<and> shouldRun q meta (url_R r') (postprocessorsUsed_R r')" for q rest'
  proof -
    let ?w1 = "logMsg LogInfo (''Running postprocessor '' @ name_PP q) ?w'"
    let ?w2 = "logMsg LogWarn (''Failed to run postprocessor '' @ name_PP q) ?w1"
    have "trace ?w1 = trace w
                       @ [Logged LogInfo (''Running postprocessor '' @ name_PP p),
                          Logged LogWarn (''Failed to run postprocessor '' @ name_PP p),
                          Logged LogInfo (''Running postprocessor '' @ name_PP q)]"
      by (simp add: logMsg_simps)
    moreover have "runPostprocessors e meta (p # rest) r w =
                      (case run q meta r' ?w1 of
                         (Inr res, handed) \<Rightarrow> runPostprocessors e meta rest' res ?w1
                       | (Inl err', handed) \<Rightarrow> runPostprocessors e meta rest' handed ?w2)"
    proof -
      from that have eq: "rest = q # rest'"
        and sr: "shouldRun q meta (url_R r') (postprocessorsUsed_R r')"
        and v': "r' \<noteq> r \<longrightarrow> validURL e (url_R r')"
        by simp_all
      from h v' have v: "validURL e (url_R r')" by (cases "r' = r") simp_all
      show ?thesis
        unfolding step eq using sr v by (simp add: Let_def split: sum.splits prod.splits)
    qed
    ultimately show ?thesis by blast
  qed
  have same: "fst (runPostprocessors e meta [p] r w) = Inr r
           \<and> (\<forall>res. fst (runPostprocessors e meta [p] r w) = Inr res \<longrightarrow>
                  postprocessorsUsed_R res = postprocessorsUsed_R r)"
    if "r' = r"
    unfolding one using that by simp
  show "runPostprocessors e meta [p] r w = (Inr r', ?w')
     \<and> trace (snd (runPostprocessors e meta [p] r w)) =
         trace w @ [Logged LogInfo (''Running postprocessor '' @ name_PP p),
                    Logged LogWarn (''Failed to run postprocessor '' @ name_PP p)]
     \<and> runPostprocessors e meta (p # rest) r w = runPostprocessors e meta rest r' ?w'
     \<and> (\<forall>before r0 w0. runPostprocessors e meta before r0 w0 = (Inr r, w) \<longrightarrow>
           runPostprocessors e meta (before @ p # rest) r0 w0 =
             runPostprocessors e meta rest r' ?w')
     \<and> (\<forall>q rest'. rest = q # rest' \<and> (r' \<noteq> r \<longrightarrow> validURL e (url_R r'))
                   \<and> shouldRun q meta (url_R r') (postprocessorsUsed_R r') \<longrightarrow>
           (\<exists>w1 w2. trace w1 = trace w
                       @ [Logged LogInfo (''Running postprocessor '' @ name_PP p),
                          Logged LogWarn (''Failed to run postprocessor '' @ name_PP p),
                          Logged LogInfo (''Running postprocessor '' @ name_PP q)]
                  \<and> runPostprocessors e meta (p # rest) r w =
                      (case run q meta r' w1 of
                         (Inr res, handed) \<Rightarrow> runPostprocessors e meta rest' res w1
                       | (Inl err', handed) \<Rightarrow> runPostprocessors e meta rest' handed w2)))
     \<and> (r' = r \<longrightarrow>
           fst (runPostprocessors e meta [p] r w) = Inr r
           \<and> (\<forall>res. fst (runPostprocessors e meta [p] r w) = Inr res \<longrightarrow>
                  postprocessorsUsed_R res = postprocessorsUsed_R r))"
    apply (intro conjI)
    subgoal by (rule one)
    subgoal by (rule tr)
    subgoal by (rule step)
    subgoal using mid by blast
    subgoal using nxt by blast
    subgoal using same by blast
    done
qed

theorem postprocessor_failure_is_skipped_witness:
  "validURL env0 (url_R result0)
   \<and> shouldRun ppFailing meta0 (url_R result0) (postprocessorsUsed_R result0)
   \<and> run ppFailing meta0 result0
       (logMsg LogInfo (''Running postprocessor '' @ name_PP ppFailing) world0)
       = (Inl (JsError ''postprocessor failed''), result0)
   \<and> fst (runPostprocessors env0 meta0 [ppFailing] result0 world0) = Inr result0
   \<and> trace (snd (runPostprocessors env0 meta0 [ppFailing] result0 world0)) =
       [Logged LogInfo ''Running postprocessor failing'',
        Logged LogWarn ''Failed to run postprocessor failing'']
   \<and> fst (runPostprocessors env0 meta0 [ppFailing, ppTagging] result0 world0) =
       Inr (result0\<lparr>postprocessorsUsed_R := Some [''tagging'']\<rparr>)
   \<and> trace (snd (runPostprocessors env0 meta0 [ppFailing, ppTagging] result0 world0)) =
       [Logged LogInfo ''Running postprocessor failing'',
        Logged LogWarn ''Failed to run postprocessor failing'',
        Logged LogInfo ''Running postprocessor tagging'']"
proof -
  have h: "validURL env0 (url_R result0)
   \<and> shouldRun ppFailing meta0 (url_R result0) (postprocessorsUsed_R result0)
   \<and> run ppFailing meta0 result0
       (logMsg LogInfo (''Running postprocessor '' @ name_PP ppFailing) world0)
       = (Inl (JsError ''postprocessor failed''), result0)"
    by (simp add: env0_def ppFailing_def)
  note t = postprocessor_failure_is_skipped[of env0 result0 ppFailing meta0 world0
             "JsError ''postprocessor failed''" result0 "[ppTagging]", rule_format, OF h]
  have n: "name_PP ppFailing = ''failing''" "name_PP ppTagging = ''tagging''"
    by (simp_all add: ppTagging_def ppFailing_def)
  have a: "fst (runPostprocessors env0 meta0 [ppFailing] result0 world0) = Inr result0"
    using t by simp
  have a': "trace (snd (runPostprocessors env0 meta0 [ppFailing] result0 world0)) =
       [Logged LogInfo ''Running postprocessor failing'',
        Logged LogWarn ''Failed to run postprocessor failing'']"
    using t[THEN conjunct2, THEN conjunct1]
    by (simp add: n world0_def del: runPostprocessors.simps)
  have v: "validURL env0 u" for u
    by (simp add: env0_def)
  have p: "postprocessorsUsed_R result0 = None" "shouldRun ppTagging m u used"
    "run ppTagging m result0 w =
       (Inr (result0\<lparr>postprocessorsUsed_R := Some [''tagging'']\<rparr>), result0)"
    for m u used w
    by (simp_all add: result0_def ppTagging_def)
  have b: "runPostprocessors env0 meta0 [ppFailing, ppTagging] result0 world0 =
       (Inr (result0\<lparr>postprocessorsUsed_R := Some [''tagging'']\<rparr>),
        logMsg LogInfo ''Running postprocessor tagging''
          (logMsg LogWarn ''Failed to run postprocessor failing''
             (logMsg LogInfo ''Running postprocessor failing'' world0)))"
    using t by (simp add: v p n Let_def)
  show ?thesis
    using h a a' unfolding b by (simp add: logMsg_simps world0_def)
qed

text \<open>
  A postprocessor that writes to the object it is handed and then throws: the failure is
  logged, and the chain goes on with the written object. The working result is no longer
  what it was before the step, the name of the thrown step stands in postprocessorsUsed,
  and both reach the document the request returns.
\<close>

theorem postprocessor_mutating_failure_counterexample:
  "shouldRun ppMutating meta0 (url_R result0) (postprocessorsUsed_R result0)
   \<and> fst (run ppMutating meta0 result0
            (logMsg LogInfo (''Running postprocessor '' @ name_PP ppMutating) world0))
       = Inl (JsError ''postprocessor failed'')
   \<and> runPostprocessors env0 meta0 [ppMutating] result0 world0 =
       (Inr (result0\<lparr>markdown_R := Some ''half-written'',
                      postprocessorsUsed_R := Some [''mutating'']\<rparr>),
        world0\<lparr>trace := [Logged LogInfo ''Running postprocessor mutating'',
                          Logged LogWarn ''Failed to run postprocessor mutating'']\<rparr>)
   \<and> fst (runPostprocessors env0 meta0 [ppMutating] result0 world0) \<noteq> Inr result0
   \<and> fst (runPostprocessors env0 meta0 [ppMutating, ppTagging] result0 world0) =
       Inr (result0\<lparr>markdown_R := Some ''half-written'',
                     postprocessorsUsed_R := Some [''mutating'', ''tagging'']\<rparr>)
   \<and> (\<exists>resp m w. scrapeURLSingle envMutating metaForcedFetch world0 = (Inr resp, m, w)
         \<and> markdown_D (document resp) = Some ''half-written''
         \<and> postprocessorsUsed_MD (metadata (document resp)) = Some [''mutating''])"
proof -
  have v: "validURL env0 u" for u
    by (simp add: env0_def)
  have n: "name_PP ppMutating = ''mutating''" "name_PP ppTagging = ''tagging''"
    "shouldRun ppMutating m u used" "shouldRun ppTagging m u used" for m u used
    by (simp_all add: ppMutating_def ppTagging_def)
  have r: "run ppMutating m result0 w =
             (Inl (JsError ''postprocessor failed''),
              result0\<lparr>markdown_R := Some ''half-written'',
                      postprocessorsUsed_R := Some [''mutating'']\<rparr>)"
    "run ppTagging m (result0\<lparr>markdown_R := Some ''half-written'',
                              postprocessorsUsed_R := Some [''mutating'']\<rparr>) w =
             (Inr (result0\<lparr>markdown_R := Some ''half-written'',
                           postprocessorsUsed_R := Some [''mutating'', ''tagging'']\<rparr>),
              result0\<lparr>markdown_R := Some ''half-written'',
                      postprocessorsUsed_R := Some [''mutating'']\<rparr>)"
    for m w
    by (simp_all add: ppMutating_def ppTagging_def result0_def)
  have one: "runPostprocessors e m [ppMutating] result0 w =
       (Inr (result0\<lparr>markdown_R := Some ''half-written'',
                      postprocessorsUsed_R := Some [''mutating'']\<rparr>),
        logMsg LogWarn ''Failed to run postprocessor mutating''
          (logMsg LogInfo ''Running postprocessor mutating'' w))"
    if "validURL e (url_R result0)" for e m w
    using that by (simp add: n r Let_def)
  have a: "runPostprocessors env0 meta0 [ppMutating] result0 world0 =
       (Inr (result0\<lparr>markdown_R := Some ''half-written'',
                      postprocessorsUsed_R := Some [''mutating'']\<rparr>),
        world0\<lparr>trace := [Logged LogInfo ''Running postprocessor mutating'',
                          Logged LogWarn ''Failed to run postprocessor mutating'']\<rparr>)"
    unfolding one[OF v] by (simp add: logMsg_def world0_def)
  have ne: "result0\<lparr>markdown_R := Some ''half-written'',
                    postprocessorsUsed_R := Some [''mutating'']\<rparr> \<noteq> result0"
    by (simp add: result0_def)
  have b: "fst (runPostprocessors env0 meta0 [ppMutating, ppTagging] result0 world0) =
       Inr (result0\<lparr>markdown_R := Some ''half-written'',
                     postprocessorsUsed_R := Some [''mutating'', ''tagging'']\<rparr>)"
    by (simp add: n r v Let_def)
  have c: "\<not> aborted envMutating w" "postprocessors envMutating = [ppMutating]"
    "executeTransformers envMutating = (\<lambda>m d w. Inr d)"
    "engineHandlers envMutating Fetch m w = Inr result0"
    "validURL envMutating u" for m w u
    by (simp_all add: envMutating_def env0_def)
  have g: "forceEngine (internalOptions metaForcedFetch) = Some Fetch"
    "zdrViolation metaForcedFetch = None"
    "featureFlags metaForcedFetch = []"
    "getUnsupportedFeatures metaForcedFetch en = []" for en
    by (simp_all add: metaForcedFetch_def meta0_def internalOptions0_def zdrViolation_def
                      truthyB_def getUnsupportedFeatures_filter)
  have sel: "selectEngineAndScrape envMutating metaForcedFetch w =
       (Inr (forcedFetchOutcome, [Fetch]), metaForcedFetch, record_event (EngineInvoked Fetch) w)"
    for w
    by (simp add: selectEngineAndScrape_def selectEngineAndScrape_live_def Let_def g c
                  set_has_def scrapeURLWithEngine_eq applySpecialtyParsing_result0
                  forcedFetchOutcome_def)
  have fo: "result forcedFetchOutcome = result0" "unsupportedFeatures forcedFetchOutcome = []"
    by (simp_all add: forcedFetchOutcome_def g)
  have d: "\<exists>resp m w. scrapeURLSingle envMutating metaForcedFetch world0 = (Inr resp, m, w)
         \<and> markdown_D (document resp) = Some ''half-written''
         \<and> postprocessorsUsed_MD (metadata (document resp)) = Some [''mutating'']"
    by (simp add: scrapeURLSingle_def Let_def g c sel fo n r assembleDocument_def)
  show ?thesis
    using n(3) r(1) a ne b d by (simp add: n)
qed

lemma downloadCalls_append: "downloadCalls (xs @ ys) = downloadCalls xs @ downloadCalls ys"
  by (induction xs rule: downloadCalls.induct) auto

lemma detectSpecialtyPlan_no_prefetch_world:
  assumes "detectSpecialtyPlan e inp w = (Inr (Some plan), w1)" "prefetch plan = None"
  shows "w1 = w"
  using assms unfolding detectSpecialtyPlan_def Let_def
  by (auto split: if_splits prod.splits sum.splits)

lemma readFile_trace: "trace (snd (readFile p w)) = trace w @ [FileRead p]"
  by (simp add: readFile_def record_event_simps split: option.splits)

lemma readFile_trace': "readFile p w = (res, w') \<Longrightarrow> trace w' = trace w @ [FileRead p]"
  using readFile_trace[of p w] by simp

lemma scrapePDFWithParsePDF_trace:
  "scrapePDFWithParsePDF e m p w = (res, w') \<Longrightarrow>
     \<exists>more. trace w' = trace w @ more \<and> downloadCalls more = []"
  by (auto simp: scrapePDFWithParsePDF_def Let_def logMsg_simps
           split: prod.splits sum.splits dest!: readFile_trace')

lemma scrapePDF_process_trace:
  "scrapePDF_process e m p b mp w = (res, w') \<Longrightarrow>
     \<exists>more. trace w' = trace w @ more \<and> downloadCalls more = []"
  by (auto simp: scrapePDF_process_def logMsg_simps split: if_splits sum.splits
           dest!: scrapePDFWithParsePDF_trace)

lemma scrapePDF_try_trace:
  "scrapePDF_try e m src w = (res, w') \<Longrightarrow>
     \<exists>more. trace w' = trace w @ FileRead (src_tempFilePath src) # more
            \<and> downloadCalls more = []"
  unfolding scrapePDF_try_def Let_def
  by (auto split: if_splits sum.splits prod.splits option.splits
           dest!: scrapePDF_process_trace readFile_trace')

lemma scrapePDF_finally_trace:
  "\<exists>more. trace (scrapePDF_finally p w) = trace w @ more \<and> downloadCalls more = []"
  by (simp add: scrapePDF_finally_def unlink_def record_event_simps logMsg_simps
           split: option.splits)

lemma scrapePDF_prefetched_trace:
  assumes "pdfPrefetch meta = Prefetched pf"
    and "\<not> (truthy (contentType_P pf) \<and> \<not> includesStr (the (contentType_P pf)) ''application/pdf'')"
  shows "\<exists>more. trace (snd (scrapePDF e meta w)) = trace w @ FileRead (filePath pf) # more
            \<and> downloadCalls more = []"
proof -
  let ?src = "\<lparr>src_tempFilePath = filePath pf,
                      src_responseUrl =
                        (case url_P pf of
                           Some u \<Rightarrow> u
                         | None \<Rightarrow> (case rewrittenUrl meta of Some u \<Rightarrow> u | None \<Rightarrow> url_M meta)),
                      src_statusCode = status_P pf,
                      src_contentType = contentType_P pf,
                      src_proxyUsed = proxyUsed_P pf\<rparr>"
  have s: "scrapePDF_source e meta w = (Inr ?src, w)"
    using assms by (auto simp: scrapePDF_source_def Let_def)
  obtain res w2 where t: "scrapePDF_try e meta ?src w = (res, w2)"
    by (cases "scrapePDF_try e meta ?src w") auto
  from scrapePDF_try_trace[OF t] obtain m1 where
    m1: "trace w2 = trace w @ FileRead (filePath pf) # m1" "downloadCalls m1 = []"
    by auto
  obtain m2 where m2: "trace (scrapePDF_finally (filePath pf) w2) = trace w2 @ m2"
    "downloadCalls m2 = []"
    using scrapePDF_finally_trace[of "filePath pf" w2] by auto
  have "scrapePDF e meta w = (res, scrapePDF_finally (filePath pf) w2)"
    by (simp add: scrapePDF_def s t)
  then have "trace (snd (scrapePDF e meta w)) = trace w @ FileRead (filePath pf) # (m1 @ m2)"
    using m1 m2 by simp
  moreover have "downloadCalls (m1 @ m2) = []"
    using m1 m2 by (simp add: downloadCalls_append)
  ultimately show ?thesis by blast
qed


lemma scrapePDF_prefetch_mismatch:
  assumes "pdfPrefetch meta = Prefetched pf" "truthy (contentType_P pf)"
    and "\<not> includesStr (the (contentType_P pf)) ''application/pdf''"
  shows "scrapePDF e meta w = (Inl PDFPrefetchFailed, w)"
  using assms by (simp add: scrapePDF_def scrapePDF_source_def Let_def)

subsection \<open>A specialty plan without prefetch\<close>

text \<open>
  C6. When the detector classifies an engine's result as pdf or document without a prefetch
  descriptor (it then leaves the world as it was): for the engine "fire-engine;chrome-cdp"
  applySpecialtyParsing raises EngineError and the world stays as it is, so no download is
  requested. For any other engine it first requests one download of the result's url. If
  the download fails, its error is thrown and the history ends with the download request.
  If it succeeds, the downloaded file is on disk and fills the prefetch slot of Meta, and
  then the specialized parser runs. For a document, the document parser is called on that
  Meta in the world the download left, its invocation follows the download request in the
  history, and its result (with the content type filled in) or its error is the outcome.
  For a pdf, the outcome is that of scrapePDF on that Meta and world, the download request
  is the only one of the run, and scrapePDF either rejects the downloaded file for its
  content type (PDFPrefetchFailed, nothing more in the history) or reads it right after the
  download request.
\<close>

theorem missing_prefetch:
  "detectSpecialtyPlan e (specialtyInput r) w = (Inr (Some plan), w1) \<and> prefetch plan = None
   \<longrightarrow> w1 = w
     \<and> (eng = FireEngineChromeCdp \<longrightarrow>
           applySpecialtyParsing e meta eng r w =
             (Inl (EngineError (''Fire Engine response missing file payload for ''
                                 @ specialtyTypeName (type_S plan))), meta, w))
     \<and> (eng \<noteq> FireEngineChromeCdp \<longrightarrow>
           (\<forall>err. fetchFile e (id_M meta) (url_R r) (skipTlsVerification (options meta))
                    (headers_O (options meta)) w = Inl err \<longrightarrow>
                  applySpecialtyParsing e meta eng r w =
                    (Inl err, meta, w\<lparr>trace := trace w @ [DownloadRequested (url_R r)]\<rparr>))
         \<and> (\<forall>d pf w2.
               fetchFile e (id_M meta) (url_R r) (skipTlsVerification (options meta))
                 (headers_O (options meta)) w = Inr d
               \<and> pf = \<lparr>filePath = tempFilePath d, url_P = Some (url_resp d),
                        status_P = status_resp d,
                        proxyUsed_P = (case proxyUsed_R r of None \<Rightarrow> Basic | Some px \<Rightarrow> px),
                        contentType_P = (case contentType_resp d of
                                           Some c \<Rightarrow> Some c | None \<Rightarrow> contentType_S plan)\<rparr>
               \<and> w2 = w\<lparr>trace := trace w @ [DownloadRequested (url_R r)],
                         files := (files w)(tempFilePath d \<mapsto> bytes_resp d)\<rparr>
               \<longrightarrow>
                 (type_S plan = DocumentType \<longrightarrow>
                    applySpecialtyParsing e meta eng r w =
                      (case scrapeDocument e (meta\<lparr>documentPrefetch := Prefetched pf\<rparr>) w2 of
                         Inl err \<Rightarrow> Inl err
                       | Inr documentResult \<Rightarrow>
                           Inr (documentResult\<lparr>contentType_R :=
                                  firstDefined3 (contentType_R documentResult)
                                    (contentType_S plan) (contentType_R r)\<rparr>),
                       meta\<lparr>documentPrefetch := Prefetched pf\<rparr>,
                       w2\<lparr>trace := trace w @ [DownloadRequested (url_R r),
                                               DocumentParserInvoked]\<rparr>))
               \<and> (type_S plan = PdfType \<longrightarrow>
                    applySpecialtyParsing e meta eng r w =
                      (case scrapePDF e (meta\<lparr>pdfPrefetch := Prefetched pf\<rparr>) w2 of
                         (Inl err, w3) \<Rightarrow> (Inl err, meta\<lparr>pdfPrefetch := Prefetched pf\<rparr>, w3)
                       | (Inr pdfResult, w3) \<Rightarrow>
                           (Inr (pdfResult\<lparr>contentType_R :=
                                   firstDefined3 (contentType_R pdfResult) (contentType_S plan)
                                     (contentType_R r)\<rparr>),
                            meta\<lparr>pdfPrefetch := Prefetched pf\<rparr>, w3))
                    \<and> downloadCalls (trace (snd (snd (applySpecialtyParsing e meta eng r w)))) =
                        downloadCalls (trace w) @ [url_R r]
                    \<and> (truthy (contentType_P pf)
                        \<and> \<not> includesStr (the (contentType_P pf)) ''application/pdf'' \<longrightarrow>
                          applySpecialtyParsing e meta eng r w =
                            (Inl PDFPrefetchFailed, meta\<lparr>pdfPrefetch := Prefetched pf\<rparr>, w2))
                    \<and> (\<not> (truthy (contentType_P pf)
                           \<and> \<not> includesStr (the (contentType_P pf)) ''application/pdf'') \<longrightarrow>
                          (\<exists>more. trace (snd (snd (applySpecialtyParsing e meta eng r w))) =
                                    trace w @ [DownloadRequested (url_R r),
                                               FileRead (tempFilePath d)] @ more
                                  \<and> downloadCalls more = [])))))"
proof (intro impI)
  assume h: "detectSpecialtyPlan e (specialtyInput r) w = (Inr (Some plan), w1)
             \<and> prefetch plan = None"
  then have w1: "w1 = w"
    using detectSpecialtyPlan_no_prefetch_world by blast
  have det: "detectSpecialtyPlan e (specialtyInput r) w = (Inr (Some plan), w)"
    and np: "prefetch plan = None"
    using h w1 by simp_all
  let ?fetch = "fetchFile e (id_M meta) (url_R r) (skipTlsVerification (options meta))
                  (headers_O (options meta)) w"
  have cdp: "applySpecialtyParsing e meta eng r w =
             (Inl (EngineError (''Fire Engine response missing file payload for ''
                                 @ specialtyTypeName (type_S plan))), meta, w)"
    if "eng = FireEngineChromeCdp"
    using that det np by (simp add: applySpecialtyParsing_def)
  have dl_fail: "downloadFile e (id_M meta) (url_R r) (skipTlsVerification (options meta))
                   (headers_O (options meta)) w =
                 (Inl err, w\<lparr>trace := trace w @ [DownloadRequested (url_R r)]\<rparr>)"
    if "?fetch = Inl err" for err
    using that by (simp add: downloadFile_def Let_def record_event_def)
  have dl_ok: "downloadFile e (id_M meta) (url_R r) (skipTlsVerification (options meta))
                   (headers_O (options meta)) w =
                 (Inr d, w\<lparr>trace := trace w @ [DownloadRequested (url_R r)],
                            files := (files w)(tempFilePath d \<mapsto> bytes_resp d)\<rparr>)"
    if "?fetch = Inr d" for d
    using that by (simp add: downloadFile_def Let_def record_event_def)
  have failed: "applySpecialtyParsing e meta eng r w =
                    (Inl err, meta, w\<lparr>trace := trace w @ [DownloadRequested (url_R r)]\<rparr>)"
    if ne: "eng \<noteq> FireEngineChromeCdp" and f: "?fetch = Inl err" for err
    using ne det np dl_fail[OF f]
    by (cases "type_S plan")
       (simp_all add: applySpecialtyParsing_def prefetchPdfFile_def prefetchDocumentFile_def)
  have ok: "(type_S plan = DocumentType \<longrightarrow>
                    applySpecialtyParsing e meta eng r w =
                      (case scrapeDocument e (meta\<lparr>documentPrefetch := Prefetched pf\<rparr>) w2 of
                         Inl err \<Rightarrow> Inl err
                       | Inr documentResult \<Rightarrow>
                           Inr (documentResult\<lparr>contentType_R :=
                                  firstDefined3 (contentType_R documentResult)
                                    (contentType_S plan) (contentType_R r)\<rparr>),
                       meta\<lparr>documentPrefetch := Prefetched pf\<rparr>,
                       w2\<lparr>trace := trace w @ [DownloadRequested (url_R r),
                                               DocumentParserInvoked]\<rparr>))
               \<and> (type_S plan = PdfType \<longrightarrow>
                    applySpecialtyParsing e meta eng r w =
                      (case scrapePDF e (meta\<lparr>pdfPrefetch := Prefetched pf\<rparr>) w2 of
                         (Inl err, w3) \<Rightarrow> (Inl err, meta\<lparr>pdfPrefetch := Prefetched pf\<rparr>, w3)
                       | (Inr pdfResult, w3) \<Rightarrow>
                           (Inr (pdfResult\<lparr>contentType_R :=
                                   firstDefined3 (contentType_R pdfResult) (contentType_S plan)
                                     (contentType_R r)\<rparr>),
                            meta\<lparr>pdfPrefetch := Prefetched pf\<rparr>, w3))
                    \<and> downloadCalls (trace (snd (snd (applySpecialtyParsing e meta eng r w)))) =
                        downloadCalls (trace w) @ [url_R r]
                    \<and> (truthy (contentType_P pf)
                        \<and> \<not> includesStr (the (contentType_P pf)) ''application/pdf'' \<longrightarrow>
                          applySpecialtyParsing e meta eng r w =
                            (Inl PDFPrefetchFailed, meta\<lparr>pdfPrefetch := Prefetched pf\<rparr>, w2))
                    \<and> (\<not> (truthy (contentType_P pf)
                           \<and> \<not> includesStr (the (contentType_P pf)) ''application/pdf'') \<longrightarrow>
                          (\<exists>more. trace (snd (snd (applySpecialtyParsing e meta eng r w))) =
                                    trace w @ [DownloadRequested (url_R r),
                                               FileRead (tempFilePath d)] @ more
                                  \<and> downloadCalls more = [])))"
    if ne: "eng \<noteq> FireEngineChromeCdp"
      and f: "?fetch = Inr d
               \<and> pf = \<lparr>filePath = tempFilePath d, url_P = Some (url_resp d),
                        status_P = status_resp d,
                        proxyUsed_P = (case proxyUsed_R r of None \<Rightarrow> Basic | Some px \<Rightarrow> px),
                        contentType_P = (case contentType_resp d of
                                           Some c \<Rightarrow> Some c | None \<Rightarrow> contentType_S plan)\<rparr>
               \<and> w2 = w\<lparr>trace := trace w @ [DownloadRequested (url_R r)],
                         files := (files w)(tempFilePath d \<mapsto> bytes_resp d)\<rparr>"
    for d pf w2
  proof -
    from f have fd: "?fetch = Inr d"
      and pf: "pf = \<lparr>filePath = tempFilePath d, url_P = Some (url_resp d),
                        status_P = status_resp d,
                        proxyUsed_P = (case proxyUsed_R r of None \<Rightarrow> Basic | Some px \<Rightarrow> px),
                        contentType_P = (case contentType_resp d of
                                           Some c \<Rightarrow> Some c | None \<Rightarrow> contentType_S plan)\<rparr>"
      and w2: "w2 = w\<lparr>trace := trace w @ [DownloadRequested (url_R r)],
                         files := (files w)(tempFilePath d \<mapsto> bytes_resp d)\<rparr>"
      by simp_all
    have tw2: "trace w2 = trace w @ [DownloadRequested (url_R r)]"
      by (simp add: w2)
    have fp: "filePath pf = tempFilePath d"
      by (simp add: pf)
    have ppdf: "prefetchPdfFile e meta r (contentType_S plan) w = (Inr pf, w2)"
      using dl_ok[OF fd] by (simp add: prefetchPdfFile_def pf w2)
    have pdoc: "prefetchDocumentFile e meta r (contentType_S plan) w = (Inr pf, w2)"
      using dl_ok[OF fd] by (simp add: prefetchDocumentFile_def pf w2)
    have doc: "applySpecialtyParsing e meta eng r w =
                      (case scrapeDocument e (meta\<lparr>documentPrefetch := Prefetched pf\<rparr>) w2 of
                         Inl err \<Rightarrow> Inl err
                       | Inr documentResult \<Rightarrow>
                           Inr (documentResult\<lparr>contentType_R :=
                                  firstDefined3 (contentType_R documentResult)
                                    (contentType_S plan) (contentType_R r)\<rparr>),
                       meta\<lparr>documentPrefetch := Prefetched pf\<rparr>,
                       w2\<lparr>trace := trace w @ [DownloadRequested (url_R r),
                                               DocumentParserInvoked]\<rparr>)"
      if "type_S plan = DocumentType"
      using that ne det np
      by (simp add: applySpecialtyParsing_def pdoc Let_def scrapeDocumentCall_def
                    record_event_def tw2 split: sum.splits)
    have pdf: "applySpecialtyParsing e meta eng r w =
                      (case scrapePDF e (meta\<lparr>pdfPrefetch := Prefetched pf\<rparr>) w2 of
                         (Inl err, w3) \<Rightarrow> (Inl err, meta\<lparr>pdfPrefetch := Prefetched pf\<rparr>, w3)
                       | (Inr pdfResult, w3) \<Rightarrow>
                           (Inr (pdfResult\<lparr>contentType_R :=
                                   firstDefined3 (contentType_R pdfResult) (contentType_S plan)
                                     (contentType_R r)\<rparr>),
                            meta\<lparr>pdfPrefetch := Prefetched pf\<rparr>, w3))"
      if "type_S plan = PdfType"
      using that ne det np
      by (simp add: applySpecialtyParsing_def ppdf Let_def split: sum.splits prod.splits)
    have w3: "snd (snd (applySpecialtyParsing e meta eng r w)) =
                snd (scrapePDF e (meta\<lparr>pdfPrefetch := Prefetched pf\<rparr>) w2)"
      if "type_S plan = PdfType"
      unfolding pdf[OF that] by (simp split: sum.splits prod.splits)
    have mis: "applySpecialtyParsing e meta eng r w =
                 (Inl PDFPrefetchFailed, meta\<lparr>pdfPrefetch := Prefetched pf\<rparr>, w2)"
      if "type_S plan = PdfType" "truthy (contentType_P pf)
                        \<and> \<not> includesStr (the (contentType_P pf)) ''application/pdf''"
      unfolding pdf[OF that(1)]
      using scrapePDF_prefetch_mismatch[of "meta\<lparr>pdfPrefetch := Prefetched pf\<rparr>" pf e w2] that(2)
      by simp
    have good: "\<exists>more. trace (snd (snd (applySpecialtyParsing e meta eng r w))) =
                                    trace w @ [DownloadRequested (url_R r),
                                               FileRead (tempFilePath d)] @ more
                                  \<and> downloadCalls more = []"
      if "type_S plan = PdfType" "\<not> (truthy (contentType_P pf)
                           \<and> \<not> includesStr (the (contentType_P pf)) ''application/pdf'')"
      unfolding w3[OF that(1)]
      using scrapePDF_prefetched_trace[of "meta\<lparr>pdfPrefetch := Prefetched pf\<rparr>" pf e w2] that(2)
      by (simp add: tw2 fp)
    have dc: "downloadCalls (trace (snd (snd (applySpecialtyParsing e meta eng r w)))) =
                        downloadCalls (trace w) @ [url_R r]"
      if t: "type_S plan = PdfType"
    proof (cases "truthy (contentType_P pf)
                        \<and> \<not> includesStr (the (contentType_P pf)) ''application/pdf''")
      case True
      show ?thesis
        unfolding mis[OF t True] by (simp add: tw2 downloadCalls_append)
    next
      case False
      from good[OF t False] obtain more where
        "trace (snd (snd (applySpecialtyParsing e meta eng r w))) =
           trace w @ [DownloadRequested (url_R r), FileRead (tempFilePath d)] @ more"
        "downloadCalls more = []"
        by blast
      then show ?thesis
        by (simp add: downloadCalls_append)
    qed
    show ?thesis
      using doc pdf dc mis good by blast
  qed
  show "w1 = w
     \<and> (eng = FireEngineChromeCdp \<longrightarrow>
           applySpecialtyParsing e meta eng r w =
             (Inl (EngineError (''Fire Engine response missing file payload for ''
                                 @ specialtyTypeName (type_S plan))), meta, w))
     \<and> (eng \<noteq> FireEngineChromeCdp \<longrightarrow>
           (\<forall>err. fetchFile e (id_M meta) (url_R r) (skipTlsVerification (options meta))
                    (headers_O (options meta)) w = Inl err \<longrightarrow>
                  applySpecialtyParsing e meta eng r w =
                    (Inl err, meta, w\<lparr>trace := trace w @ [DownloadRequested (url_R r)]\<rparr>))
         \<and> (\<forall>d pf w2.
               fetchFile e (id_M meta) (url_R r) (skipTlsVerification (options meta))
                 (headers_O (options meta)) w = Inr d
               \<and> pf = \<lparr>filePath = tempFilePath d, url_P = Some (url_resp d),
                        status_P = status_resp d,
                        proxyUsed_P = (case proxyUsed_R r of None \<Rightarrow> Basic | Some px \<Rightarrow> px),
                        contentType_P = (case contentType_resp d of
                                           Some c \<Rightarrow> Some c | None \<Rightarrow> contentType_S plan)\<rparr>
               \<and> w2 = w\<lparr>trace := trace w @ [DownloadRequested (url_R r)],
                         files := (files w)(tempFilePath d \<mapsto> bytes_resp d)\<rparr>
               \<longrightarrow>
                 (type_S plan = DocumentType \<longrightarrow>
                    applySpecialtyParsing e meta eng r w =
                      (case scrapeDocument e (meta\<lparr>documentPrefetch := Prefetched pf\<rparr>) w2 of
                         Inl err \<Rightarrow> Inl err
                       | Inr documentResult \<Rightarrow>
                           Inr (documentResult\<lparr>contentType_R :=
                                  firstDefined3 (contentType_R documentResult)
                                    (contentType_S plan) (contentType_R r)\<rparr>),
                       meta\<lparr>documentPrefetch := Prefetched pf\<rparr>,
                       w2\<lparr>trace := trace w @ [DownloadRequested (url_R r),
                                               DocumentParserInvoked]\<rparr>))
               \<and> (type_S plan = PdfType \<longrightarrow>
                    applySpecialtyParsing e meta eng r w =
                      (case scrapePDF e (meta\<lparr>pdfPrefetch := Prefetched pf\<rparr>) w2 of
                         (Inl err, w3) \<Rightarrow> (Inl err, meta\<lparr>pdfPrefetch := Prefetched pf\<rparr>, w3)
                       | (Inr pdfResult, w3) \<Rightarrow>
                           (Inr (pdfResult\<lparr>contentType_R :=
                                   firstDefined3 (contentType_R pdfResult) (contentType_S plan)
                                     (contentType_R r)\<rparr>),
                            meta\<lparr>pdfPrefetch := Prefetched pf\<rparr>, w3))
                    \<and> downloadCalls (trace (snd (snd (applySpecialtyParsing e meta eng r w)))) =
                        downloadCalls (trace w) @ [url_R r]
                    \<and> (truthy (contentType_P pf)
                        \<and> \<not> includesStr (the (contentType_P pf)) ''application/pdf'' \<longrightarrow>
                          applySpecialtyParsing e meta eng r w =
                            (Inl PDFPrefetchFailed, meta\<lparr>pdfPrefetch := Prefetched pf\<rparr>, w2))
                    \<and> (\<not> (truthy (contentType_P pf)
                           \<and> \<not> includesStr (the (contentType_P pf)) ''application/pdf'') \<longrightarrow>
                          (\<exists>more. trace (snd (snd (applySpecialtyParsing e meta eng r w))) =
                                    trace w @ [DownloadRequested (url_R r),
                                               FileRead (tempFilePath d)] @ more
                                  \<and> downloadCalls more = [])))))"
    apply (intro conjI impI allI)
    subgoal by (rule w1)
    subgoal using cdp by simp
    subgoal using failed by simp
    subgoal using ok by blast
    subgoal using ok by blast
    subgoal using ok by blast
    subgoal using ok by blast
    subgoal using ok by blast
    done
qed


lemma detect_pdfHint:
  "detectSpecialtyPlan e (specialtyInput pdfHintResult) w = (Inr (Some pdfHintPlan), w)"
  by (simp add: specialtyInput_def detectSpecialtyPlan_def pdfHintResult_def result0_def Let_def
                getHeaderContentType_def truthy_def toLowerCase_def toLowerChar_def
                documentTypes_def hasDocumentSignature_def hasPdfSignature_def pdfHintPlan_def)

lemma applySpecialtyParsing_pdfHint_fetch:
  "thrown (applySpecialtyParsing env0 meta0 Fetch pdfHintResult world0) = None
   \<and> downloadCalls (trace (snd (snd (applySpecialtyParsing env0 meta0 Fetch pdfHintResult world0))))
       = [''https://example.com/'']
   \<and> files (snd (snd (applySpecialtyParsing env0 meta0 Fetch pdfHintResult world0)))
        (tempFilePath download0) = None"
proof -
  have c: "fetchFile env0 i u s h w = Inr download0"
    "shouldParsePDF env0 ps" "getPDFMaxPages env0 ps = None"
    "getPdfMetadata env0 path w = Inr \<lparr>numPages = 1, title = None\<rparr>"
    "scrapeTimeout env0 w = None" "RUNPOD_MU_API_KEY (config env0) = None"
    "pdfParseText env0 bytes = Inr bytes" "escapeHtml env0 t = t" "base64Encode env0 t = t"
    for i u s h w ps path bytes t
    by (simp_all add: env0_def config0_def)
  have d: "tempFilePath download0 = ''/tmp/tempFile-download.pdf''"
    "contentType_resp download0 = Some ''application/pdf''"
    by (simp_all add: download0_def)
  have r: "url_R pdfHintResult = ''https://example.com/''"
    "proxyUsed_R pdfHintResult = Some Basic"
    "contentType_R pdfHintResult = Some ''application/pdf''"
    by (simp_all add: pdfHintResult_def result0_def)
  have w: "trace world0 = []" "files world0 = Map.empty"
    by (simp_all add: world0_def)
  have pl: "prefetch pdfHintPlan = None" "type_S pdfHintPlan = PdfType"
    "contentType_S pdfHintPlan = Some ''application/pdf''"
    by (simp_all add: pdfHintPlan_def)
  show ?thesis
    by (simp add: applySpecialtyParsing_def detect_pdfHint pl prefetchPdfFile_def
                  downloadFile_def Let_def c d r w scrapePDF_def scrapePDF_source_def
                  scrapePDF_try_def scrapePDF_process_def scrapePDFWithParsePDF_def
                  scrapePDF_finally_def readFile_def unlink_def truthy_def truthyN_def
                  record_event_simps logMsg_simps
                  MILLISECONDS_PER_PAGE_def thrown_def downloadCalls_append)
qed

lemma applySpecialtyParsing_pdfHint_fetch_trace:
  "trace (snd (snd (applySpecialtyParsing env0 meta0 Fetch pdfHintResult world0))) =
     [DownloadRequested ''https://example.com/'',
      FileRead ''/tmp/tempFile-download.pdf'',
      Logged LogDebug ''Processing PDF document with parse-pdf'',
      FileRead ''/tmp/tempFile-download.pdf'',
      UnlinkCalled ''/tmp/tempFile-download.pdf'']"
proof -
  have c: "fetchFile env0 i u s h w = Inr download0"
    "shouldParsePDF env0 ps" "getPDFMaxPages env0 ps = None"
    "getPdfMetadata env0 path w = Inr \<lparr>numPages = 1, title = None\<rparr>"
    "scrapeTimeout env0 w = None" "RUNPOD_MU_API_KEY (config env0) = None"
    "pdfParseText env0 bytes = Inr bytes" "escapeHtml env0 t = t" "base64Encode env0 t = t"
    for i u s h w ps path bytes t
    by (simp_all add: env0_def config0_def)
  have d: "tempFilePath download0 = ''/tmp/tempFile-download.pdf''"
    "contentType_resp download0 = Some ''application/pdf''"
    by (simp_all add: download0_def)
  have r: "url_R pdfHintResult = ''https://example.com/''"
    "proxyUsed_R pdfHintResult = Some Basic"
    "contentType_R pdfHintResult = Some ''application/pdf''"
    by (simp_all add: pdfHintResult_def result0_def)
  have w: "trace world0 = []" "files world0 = Map.empty"
    by (simp_all add: world0_def)
  have pl: "prefetch pdfHintPlan = None" "type_S pdfHintPlan = PdfType"
    "contentType_S pdfHintPlan = Some ''application/pdf''"
    by (simp_all add: pdfHintPlan_def)
  show ?thesis
    by (simp add: applySpecialtyParsing_def detect_pdfHint pl prefetchPdfFile_def
                  downloadFile_def Let_def c d r w scrapePDF_def scrapePDF_source_def
                  scrapePDF_try_def scrapePDF_process_def scrapePDFWithParsePDF_def
                  scrapePDF_finally_def readFile_def unlink_def truthy_def truthyN_def
                  record_event_simps logMsg_simps
                  MILLISECONDS_PER_PAGE_def)
qed

lemma detect_docHint:
  "detectSpecialtyPlan e (specialtyInput docHintResult) w = (Inr (Some docHintPlan), w)"
  by (simp add: specialtyInput_def detectSpecialtyPlan_def docHintResult_def result0_def Let_def
                getHeaderContentType_def truthy_def toLowerCase_def toLowerChar_def
                documentTypes_def hasDocumentSignature_def hasPdfSignature_def docHintPlan_def)

theorem missing_prefetch_witness:
  "detectSpecialtyPlan env0 (specialtyInput pdfHintResult) world0 = (Inr (Some pdfHintPlan), world0)
   \<and> prefetch pdfHintPlan = None
   \<and> applySpecialtyParsing env0 meta0 FireEngineChromeCdp pdfHintResult world0 =
       (Inl (EngineError ''Fire Engine response missing file payload for pdf''), meta0, world0)
   \<and> thrown (applySpecialtyParsing env0 meta0 Fetch pdfHintResult world0) = None
   \<and> trace (snd (snd (applySpecialtyParsing env0 meta0 Fetch pdfHintResult world0))) =
       [DownloadRequested ''https://example.com/'',
        FileRead ''/tmp/tempFile-download.pdf'',
        Logged LogDebug ''Processing PDF document with parse-pdf'',
        FileRead ''/tmp/tempFile-download.pdf'',
        UnlinkCalled ''/tmp/tempFile-download.pdf'']
   \<and> detectSpecialtyPlan envDoc (specialtyInput docHintResult) world0 =
       (Inr (Some docHintPlan), world0)
   \<and> prefetch docHintPlan = None
   \<and> applySpecialtyParsing envDoc meta0 Playwright docHintResult world0 =
       (Inr (result0\<lparr>url_R := ''https://example.com/a.doc'', html_R := ''PK-doc'',
                      contentType_R := Some ''application/msword''\<rparr>),
        meta0\<lparr>documentPrefetch :=
                 Prefetched \<lparr>filePath = ''/tmp/tempFile-download.docx'',
                              url_P = Some ''https://example.com/a.doc'', status_P = 200,
                              proxyUsed_P = Basic,
                              contentType_P = Some ''application/msword''\<rparr>\<rparr>,
        \<lparr>trace = [DownloadRequested ''https://example.com/'', DocumentParserInvoked],
         files = [''/tmp/tempFile-download.docx'' \<mapsto> ''PK-doc''],
         uuidsDrawn = 0\<rparr>)"
proof -
  have h: "detectSpecialtyPlan env0 (specialtyInput pdfHintResult) world0 =
             (Inr (Some pdfHintPlan), world0) \<and> prefetch pdfHintPlan = None"
    by (simp add: detect_pdfHint pdfHintPlan_def)
  have h': "detectSpecialtyPlan envDoc (specialtyInput docHintResult) world0 =
             (Inr (Some docHintPlan), world0) \<and> prefetch docHintPlan = None"
    by (simp add: detect_docHint docHintPlan_def)
  have p: "type_S pdfHintPlan = PdfType" "specialtyTypeName PdfType = ''pdf''"
    by (simp_all add: pdfHintPlan_def specialtyTypeName_def)
  note t = missing_prefetch[of env0 pdfHintResult world0 pdfHintPlan world0
                               FireEngineChromeCdp meta0, rule_format, OF h]
  have a: "applySpecialtyParsing env0 meta0 FireEngineChromeCdp pdfHintResult world0 =
             (Inl (EngineError ''Fire Engine response missing file payload for pdf''),
              meta0, world0)"
    using t by (simp add: p)
  have b: "thrown (applySpecialtyParsing env0 meta0 Fetch pdfHintResult world0) = None"
    using applySpecialtyParsing_pdfHint_fetch by simp
  note t' = missing_prefetch[of envDoc docHintResult world0 docHintPlan world0
                                Playwright meta0, rule_format, OF h']
  have c: "fetchFile envDoc i u s hd w = Inr docDownload"
    "scrapeDocument envDoc m w =
       (case documentPrefetch m of
          Prefetched pf \<Rightarrow>
            (case files w (filePath pf) of
               Some bytes \<Rightarrow>
                 Inr (result0\<lparr>url_R := (case url_P pf of Some u \<Rightarrow> u | None \<Rightarrow> url_M m),
                              html_R := bytes, contentType_R := None\<rparr>)
             | None \<Rightarrow> Inl (FsError (filePath pf)))
        | _ \<Rightarrow> Inl DocumentPrefetchFailed)"
    for i u s hd w m
    by (simp_all add: envDoc_def)
  have q: "type_S docHintPlan = DocumentType"
    "contentType_S docHintPlan = Some ''application/msword''"
    "url_R docHintResult = ''https://example.com/''"
    "proxyUsed_R docHintResult = Some Basic"
    "tempFilePath docDownload = ''/tmp/tempFile-download.docx''"
    "url_resp docDownload = ''https://example.com/a.doc''"
    "status_resp docDownload = 200"
    "contentType_resp docDownload = Some ''application/msword''"
    "bytes_resp docDownload = ''PK-doc''"
    by (simp_all add: docHintPlan_def docHintResult_def result0_def docDownload_def)
  have d: "applySpecialtyParsing envDoc meta0 Playwright docHintResult world0 =
       (Inr (result0\<lparr>url_R := ''https://example.com/a.doc'', html_R := ''PK-doc'',
                      contentType_R := Some ''application/msword''\<rparr>),
        meta0\<lparr>documentPrefetch :=
                 Prefetched \<lparr>filePath = ''/tmp/tempFile-download.docx'',
                              url_P = Some ''https://example.com/a.doc'', status_P = 200,
                              proxyUsed_P = Basic,
                              contentType_P = Some ''application/msword''\<rparr>\<rparr>,
        \<lparr>trace = [DownloadRequested ''https://example.com/'', DocumentParserInvoked],
         files = [''/tmp/tempFile-download.docx'' \<mapsto> ''PK-doc''],
         uuidsDrawn = 0\<rparr>)"
    using t' by (simp add: c q firstDefined3_def world0_def)
  show ?thesis
    using h h' a b applySpecialtyParsing_pdfHint_fetch_trace d by simp
qed

lemma startsWith_nonempty: "startsWith s (c # cs) \<Longrightarrow> s \<noteq> []"
  by (cases s) auto

lemma startsWith_first: "startsWith s (c # cs) \<Longrightarrow> startsWith s (d # ds) \<Longrightarrow> c = d"
  by (cases s) auto

lemma pdf_body_signatures:
  assumes "startsWith bd ''%PDF-''"
  shows "bd \<noteq> []" "\<not> startsWith bd ''PK''" "\<not> startsWith bd ''UEsD''"
  using assms startsWith_nonempty[of bd] startsWith_first[of bd "CHR ''%''" "''PDF-''"]
  by (auto simp del: startsWith.simps)

lemma detect_pdf_contentType_general:
  assumes "contentType_I inp = Some ''application/pdf''"
  shows "(\<exists>path. fst (detectSpecialtyPlan e inp w) = Inl (FsError path))
       \<or> (\<exists>plan. fst (detectSpecialtyPlan e inp w) = Inr (Some plan) \<and> type_S plan = PdfType
               \<and> contentType_S plan = Some ''application/pdf'')"
  using assms
  by (simp add: detectSpecialtyPlan_def Let_def getHeaderContentType_def truthy_def
                toLowerCase_def toLowerChar_def documentTypes_def base64ToPrefetch_def
           split: option.splits)

subsection \<open>Specialty detection\<close>

text \<open>
  C4. detectSpecialtyPlan classifies as follows. With contentType "application/pdf" and no
  binary payload it returns the plan of type pdf with that content type and no prefetch;
  with that content type and any other fields it returns a plan of type pdf unless writing
  the prefetch file fails. With no content type, a body starting with "%PDF-" and no binary
  payload (or one that does not start with "UEsD") it returns type pdf with contentType
  undefined. With contentType "application/octet-stream" and a binary payload whose base64
  text starts with "UEsD", when the write succeeds, it returns type document with a
  prefetch descriptor whose filePath is the temporary file it wrote, holding the decoded
  payload. With no content type, no body and no binary payload it logs a warning and
  returns undefined.
\<close>

theorem detectSpecialtyPlan_classifies:
  "detectSpecialtyPlan e
      \<lparr>headers_I = h, contentType_I = Some ''application/pdf'', body = b, binaryFile_I = None,
       url_I = u, status_I = st, proxyUsed_I = px\<rparr> w =
     (Inr (Some \<lparr>type_S = PdfType, contentType_S = Some ''application/pdf'', prefetch = None\<rparr>), w)
   \<and> (contentType_I inp = Some ''application/pdf'' \<longrightarrow>
        (\<exists>path. fst (detectSpecialtyPlan e inp w) = Inl (FsError path))
        \<or> (\<exists>plan. fst (detectSpecialtyPlan e inp w) = Inr (Some plan) \<and> type_S plan = PdfType
                \<and> contentType_S plan = Some ''application/pdf''))
   \<and> (startsWith bd ''%PDF-''
       \<and> (case bf of None \<Rightarrow> True | Some f \<Rightarrow> \<not> startsWith (content f) ''UEsD'') \<longrightarrow>
        detectSpecialtyPlan e
          \<lparr>headers_I = None, contentType_I = None, body = Some bd, binaryFile_I = bf,
           url_I = u, status_I = st, proxyUsed_I = px\<rparr> w =
        (Inr (Some \<lparr>type_S = PdfType, contentType_S = None, prefetch = None\<rparr>), w))
   \<and> (startsWith (content zf) ''UEsD''
       \<and> \<not> writeFileFails e
             (pathJoin e (tmpdir e) (''tempFile-'' @ randomUUID e (uuidsDrawn w) @ ''.tmp''))
             (w\<lparr>uuidsDrawn := Suc (uuidsDrawn w)\<rparr>) \<longrightarrow>
        (\<exists>w'. detectSpecialtyPlan e
                 \<lparr>headers_I = h, contentType_I = Some ''application/octet-stream'', body = b,
                  binaryFile_I = Some zf, url_I = u, status_I = st, proxyUsed_I = px\<rparr> w =
               (Inr (Some \<lparr>type_S = DocumentType,
                           contentType_S = Some ''application/octet-stream'',
                           prefetch =
                             Some \<lparr>filePath =
                                     pathJoin e (tmpdir e)
                                       (''tempFile-'' @ randomUUID e (uuidsDrawn w) @ ''.tmp''),
                                   url_P = u,
                                   status_P = (case st of None \<Rightarrow> 200 | Some x \<Rightarrow> x),
                                   proxyUsed_P = (case px of None \<Rightarrow> Basic | Some x \<Rightarrow> x),
                                   contentType_P = Some ''application/octet-stream''\<rparr>\<rparr>), w')
             \<and> files w' (pathJoin e (tmpdir e)
                            (''tempFile-'' @ randomUUID e (uuidsDrawn w) @ ''.tmp'')) =
                 Some (base64Decode e (content zf))
             \<and> trace w' =
                 trace w @ [FileWritten (pathJoin e (tmpdir e)
                              (''tempFile-'' @ randomUUID e (uuidsDrawn w) @ ''.tmp''))]))
   \<and> detectSpecialtyPlan e
        \<lparr>headers_I = None, contentType_I = None, body = None, binaryFile_I = None,
         url_I = u, status_I = st, proxyUsed_I = px\<rparr> w =
      (Inr None, logMsg LogWarn ''Failed to detect specialty type: no content or headers'' w)"
proof (intro conjI impI)
  show "detectSpecialtyPlan e
      \<lparr>headers_I = h, contentType_I = Some ''application/pdf'', body = b, binaryFile_I = None,
       url_I = u, status_I = st, proxyUsed_I = px\<rparr> w =
     (Inr (Some \<lparr>type_S = PdfType, contentType_S = Some ''application/pdf'', prefetch = None\<rparr>), w)"
    by (simp add: detectSpecialtyPlan_def Let_def getHeaderContentType_def truthy_def
                  toLowerCase_def toLowerChar_def documentTypes_def)
next
  assume "contentType_I inp = Some ''application/pdf''"
  then show "(\<exists>path. fst (detectSpecialtyPlan e inp w) = Inl (FsError path))
        \<or> (\<exists>plan. fst (detectSpecialtyPlan e inp w) = Inr (Some plan) \<and> type_S plan = PdfType
                \<and> contentType_S plan = Some ''application/pdf'')"
    by (rule detect_pdf_contentType_general)
next
  assume h: "startsWith bd ''%PDF-''
       \<and> (case bf of None \<Rightarrow> True | Some f \<Rightarrow> \<not> startsWith (content f) ''UEsD'')"
  then have s: "startsWith bd ''%PDF-''" by simp
  have nz: "\<not> startsWith (case map_option content bf of None \<Rightarrow> [] | Some x \<Rightarrow> x) ''UEsD''"
    using h by (simp split: option.splits)
  show "detectSpecialtyPlan e
          \<lparr>headers_I = None, contentType_I = None, body = Some bd, binaryFile_I = bf,
           url_I = u, status_I = st, proxyUsed_I = px\<rparr> w =
        (Inr (Some \<lparr>type_S = PdfType, contentType_S = None, prefetch = None\<rparr>), w)"
    using pdf_body_signatures[OF s] s nz
    by (simp add: detectSpecialtyPlan_def Let_def getHeaderContentType_def truthy_def
                  hasDocumentSignature_def hasPdfSignature_def del: startsWith.simps)
next
  let ?path = "pathJoin e (tmpdir e) (''tempFile-'' @ randomUUID e (uuidsDrawn w) @ ''.tmp'')"
  assume h: "startsWith (content zf) ''UEsD''
       \<and> \<not> writeFileFails e ?path (w\<lparr>uuidsDrawn := Suc (uuidsDrawn w)\<rparr>)"
  then have ne: "content zf \<noteq> []" using startsWith_nonempty by blast
  have ext: "getDocumentExtension (Some ''application/octet-stream'') = ''tmp''"
    by (simp add: getDocumentExtension_def)
  have "detectSpecialtyPlan e
                 \<lparr>headers_I = h, contentType_I = Some ''application/octet-stream'', body = b,
                  binaryFile_I = Some zf, url_I = u, status_I = st, proxyUsed_I = px\<rparr> w =
               (Inr (Some \<lparr>type_S = DocumentType,
                           contentType_S = Some ''application/octet-stream'',
                           prefetch =
                             Some \<lparr>filePath = ?path,
                                   url_P = u,
                                   status_P = (case st of None \<Rightarrow> 200 | Some x \<Rightarrow> x),
                                   proxyUsed_P = (case px of None \<Rightarrow> Basic | Some x \<Rightarrow> x),
                                   contentType_P = Some ''application/octet-stream''\<rparr>\<rparr>),
                record_event (FileWritten ?path)
                  (w\<lparr>uuidsDrawn := Suc (uuidsDrawn w),
                     files := (files w)(?path \<mapsto> base64Decode e (content zf))\<rparr>))"
    using h ne
    by (simp add: detectSpecialtyPlan_def Let_def getHeaderContentType_def truthy_def
                  toLowerCase_def toLowerChar_def documentTypes_def hasDocumentSignature_def
                  base64ToPrefetch_def ext del: startsWith.simps)
  then show "\<exists>w'. detectSpecialtyPlan e
                 \<lparr>headers_I = h, contentType_I = Some ''application/octet-stream'', body = b,
                  binaryFile_I = Some zf, url_I = u, status_I = st, proxyUsed_I = px\<rparr> w =
               (Inr (Some \<lparr>type_S = DocumentType,
                           contentType_S = Some ''application/octet-stream'',
                           prefetch =
                             Some \<lparr>filePath = ?path,
                                   url_P = u,
                                   status_P = (case st of None \<Rightarrow> 200 | Some x \<Rightarrow> x),
                                   proxyUsed_P = (case px of None \<Rightarrow> Basic | Some x \<Rightarrow> x),
                                   contentType_P = Some ''application/octet-stream''\<rparr>\<rparr>), w')
             \<and> files w' ?path = Some (base64Decode e (content zf))
             \<and> trace w' = trace w @ [FileWritten ?path]"
    by (simp add: record_event_simps)
next
  show "detectSpecialtyPlan e
        \<lparr>headers_I = None, contentType_I = None, body = None, binaryFile_I = None,
         url_I = u, status_I = st, proxyUsed_I = px\<rparr> w =
      (Inr None, logMsg LogWarn ''Failed to detect specialty type: no content or headers'' w)"
    by (simp add: detectSpecialtyPlan_def Let_def getHeaderContentType_def truthy_def)
qed

theorem detectSpecialtyPlan_classifies_witness:
  "startsWith ''%PDF-1.5'' ''%PDF-''
   \<and> detectSpecialtyPlan env0
        \<lparr>headers_I = None, contentType_I = None, body = Some ''%PDF-1.5'', binaryFile_I = None,
         url_I = None, status_I = None, proxyUsed_I = None\<rparr> world0 =
       (Inr (Some \<lparr>type_S = PdfType, contentType_S = None, prefetch = None\<rparr>), world0)
   \<and> startsWith (content zipPayload) ''UEsD''
   \<and> \<not> writeFileFails env0 ''/tmp/tempFile-uuid-.tmp'' (world0\<lparr>uuidsDrawn := Suc 0\<rparr>)
   \<and> fst (detectSpecialtyPlan env0
        \<lparr>headers_I = None, contentType_I = Some ''application/octet-stream'', body = None,
         binaryFile_I = Some zipPayload, url_I = Some ''https://example.com/file'',
         status_I = Some 200, proxyUsed_I = Some Basic\<rparr> world0) =
       Inr (Some \<lparr>type_S = DocumentType, contentType_S = Some ''application/octet-stream'',
                  prefetch = Some \<lparr>filePath = ''/tmp/tempFile-uuid-.tmp'',
                                    url_P = Some ''https://example.com/file'', status_P = 200,
                                    proxyUsed_P = Basic,
                                    contentType_P = Some ''application/octet-stream''\<rparr>\<rparr>)
   \<and> files (snd (detectSpecialtyPlan env0
        \<lparr>headers_I = None, contentType_I = Some ''application/octet-stream'', body = None,
         binaryFile_I = Some zipPayload, url_I = Some ''https://example.com/file'',
         status_I = Some 200, proxyUsed_I = Some Basic\<rparr> world0)) ''/tmp/tempFile-uuid-.tmp'' =
       Some ''UEsDBA==''
   \<and> contentType_I (specialtyInput pdfHintResult) = Some ''application/pdf''
   \<and> (\<exists>plan. fst (detectSpecialtyPlan env0 (specialtyInput pdfHintResult) world0) =
                 Inr (Some plan) \<and> type_S plan = PdfType)"
proof -
  note t = detectSpecialtyPlan_classifies[of env0 None None None None None world0
             "specialtyInput pdfHintResult" "''%PDF-1.5''" None zipPayload]
  have h1: "startsWith ''%PDF-1.5'' ''%PDF-''
            \<and> (case None :: BinaryFile option of None \<Rightarrow> True
                | Some f \<Rightarrow> \<not> startsWith (content f) ''UEsD'')"
    by simp
  have a: "detectSpecialtyPlan env0
        \<lparr>headers_I = None, contentType_I = None, body = Some ''%PDF-1.5'', binaryFile_I = None,
         url_I = None, status_I = None, proxyUsed_I = None\<rparr> world0 =
       (Inr (Some \<lparr>type_S = PdfType, contentType_S = None, prefetch = None\<rparr>), world0)"
    using t h1 by blast
  have ev: "tmpdir env0 = ''/tmp''" "pathJoin env0 x y = x @ ''/'' @ y"
    "randomUUID env0 0 = ''uuid-''" "\<not> writeFileFails env0 x w"
    "base64Decode env0 x = x" "uuidsDrawn world0 = 0" "content zipPayload = ''UEsDBA==''"
    for x y w
    by (simp_all add: env0_def world0_def zipPayload_def)
  have h2: "startsWith (content zipPayload) ''UEsD''"
    "\<not> writeFileFails env0 ''/tmp/tempFile-uuid-.tmp'' (world0\<lparr>uuidsDrawn := Suc 0\<rparr>)"
    by (simp_all add: ev)
  from detectSpecialtyPlan_classifies[of env0 None None
         "Some ''https://example.com/file''" "Some 200" "Some Basic" world0
         "specialtyInput pdfHintResult" "''%PDF-1.5''" None zipPayload] h2
  obtain w' where
    b: "detectSpecialtyPlan env0
        \<lparr>headers_I = None, contentType_I = Some ''application/octet-stream'', body = None,
         binaryFile_I = Some zipPayload, url_I = Some ''https://example.com/file'',
         status_I = Some 200, proxyUsed_I = Some Basic\<rparr> world0 =
       (Inr (Some \<lparr>type_S = DocumentType, contentType_S = Some ''application/octet-stream'',
                  prefetch = Some \<lparr>filePath = ''/tmp/tempFile-uuid-.tmp'',
                                    url_P = Some ''https://example.com/file'', status_P = 200,
                                    proxyUsed_P = Basic,
                                    contentType_P = Some ''application/octet-stream''\<rparr>\<rparr>), w')"
    and c: "files w' ''/tmp/tempFile-uuid-.tmp'' = Some ''UEsDBA==''"
    by (auto simp: ev)
  have h3: "contentType_I (specialtyInput pdfHintResult) = Some ''application/pdf''"
    by (simp add: specialtyInput_def pdfHintResult_def)
  have d: "\<exists>plan. fst (detectSpecialtyPlan env0 (specialtyInput pdfHintResult) world0) =
                 Inr (Some plan) \<and> type_S plan = PdfType"
    using t h3 by (auto simp: detect_pdfHint)
  show ?thesis
    using h1 a h2 h3 d unfolding b using c by simp
qed

lemma unlinkCalls_append:
  "unlinkCalls p (xs @ ys) = unlinkCalls p xs + unlinkCalls p ys"
  by (induction p xs rule: unlinkCalls.induct) auto

lemma scrapePDF_download_mismatch:
  assumes "pdfPrefetch meta = NoPrefetchYet \<or> pdfPrefetch meta = PrefetchEmpty"
    and "fetchFile e (id_M meta) (case rewrittenUrl meta of Some x \<Rightarrow> x | None \<Rightarrow> url_M meta)
           (skipTlsVerification (options meta)) (headers_O (options meta)) w = Inr d"
    and "truthy (contentType_resp d)"
    and "\<not> includesStr (the (contentType_resp d)) ''application/pdf''"
  shows "fst (scrapePDF e meta w) = Inl PDFPrefetchFailed
       \<and> files (snd (scrapePDF e meta w)) (tempFilePath d) = Some (bytes_resp d)
       \<and> unlinkCalls (tempFilePath d) (trace (snd (scrapePDF e meta w))) =
           unlinkCalls (tempFilePath d) (trace w)"
  using assms
  by (auto simp: scrapePDF_def scrapePDF_source_def downloadFile_def Let_def
                 record_event_simps unlinkCalls_append)

subsection \<open>Cleanup of the temporary PDF file\<close>

text \<open>
  C9 fails on the code. The content-type check of scrapePDF throws PDFPrefetchFailed after
  tempFilePath is bound and before the \<open>try\<close> whose \<open>finally\<close> unlinks the file. With a
  prefetch whose content type is "text/html", scrapePDF throws, the temporary file is still
  on disk and unlink was never called. The same happens inside the pipeline when a live
  engine reports a PDF by content type and the re-download is answered with an HTML page.
\<close>

theorem scrapePDF_leaks_on_prefetch_mismatch:
  "scrapePDF env0 metaHtmlPrefetch worldWithTemp = (Inl PDFPrefetchFailed, worldWithTemp)
   \<and> files (snd (scrapePDF env0 metaHtmlPrefetch worldWithTemp)) ''/tmp/tempFile-download.pdf'' =
       Some ''<html>blocked</html>''
   \<and> unlinkCalls ''/tmp/tempFile-download.pdf''
        (trace (snd (scrapePDF env0 metaHtmlPrefetch worldWithTemp))) = 0
   \<and> thrown (scrapeURLSingle envBlockedPdf metaForcedFetch world0) = Some PDFPrefetchFailed
   \<and> files (snd (snd (scrapeURLSingle envBlockedPdf metaForcedFetch world0)))
        ''/tmp/tempFile-download.pdf'' = Some ''<html>blocked</html>''
   \<and> unlinkCalls ''/tmp/tempFile-download.pdf''
        (trace (snd (snd (scrapeURLSingle envBlockedPdf metaForcedFetch world0)))) = 0"
proof -
  have p: "pdfPrefetch metaHtmlPrefetch = Prefetched htmlPrefetch"
    "truthy (contentType_P htmlPrefetch)"
    "\<not> includesStr (the (contentType_P htmlPrefetch)) ''application/pdf''"
    by (simp_all add: metaHtmlPrefetch_def htmlPrefetch_def truthy_def)
  have a: "scrapePDF env0 metaHtmlPrefetch worldWithTemp = (Inl PDFPrefetchFailed, worldWithTemp)"
    by (rule scrapePDF_prefetch_mismatch[OF p])
  have b: "files worldWithTemp ''/tmp/tempFile-download.pdf'' = Some ''<html>blocked</html>''"
    "unlinkCalls ''/tmp/tempFile-download.pdf'' (trace worldWithTemp) = 0"
    by (simp_all add: worldWithTemp_def world0_def)
  have c: "\<not> aborted envBlockedPdf w"
    "engineHandlers envBlockedPdf en m w = Inr pdfHintResult"
    "fetchFile envBlockedPdf i u s h w = Inr htmlDownload"
    for w en m i u s h
    by (simp_all add: envBlockedPdf_def env0_def)
  have g: "forceEngine (internalOptions metaForcedFetch) = Some Fetch"
    "zdrViolation metaForcedFetch = None"
    "featureFlags metaForcedFetch = []"
    "getUnsupportedFeatures metaForcedFetch en = []" for en
    by (simp_all add: metaForcedFetch_def meta0_def internalOptions0_def zdrViolation_def
                      truthyB_def getUnsupportedFeatures_filter)
  have d: "tempFilePath htmlDownload = ''/tmp/tempFile-download.pdf''"
    "contentType_resp htmlDownload = Some ''text/html''"
    "bytes_resp htmlDownload = ''<html>blocked</html>''"
    by (simp_all add: htmlDownload_def download0_def)
  have pl: "prefetch pdfHintPlan = None" "type_S pdfHintPlan = PdfType"
    by (simp_all add: pdfHintPlan_def)
  have ap: "applySpecialtyParsing envBlockedPdf metaForcedFetch Fetch pdfHintResult w =
      (Inl PDFPrefetchFailed,
       metaForcedFetch\<lparr>pdfPrefetch := Prefetched
          \<lparr>filePath = ''/tmp/tempFile-download.pdf'', url_P = Some (url_resp htmlDownload),
           status_P = status_resp htmlDownload,
           proxyUsed_P = (case proxyUsed_R pdfHintResult of None \<Rightarrow> Basic | Some px \<Rightarrow> px),
           contentType_P = Some ''text/html''\<rparr>\<rparr>,
       (record_event (DownloadRequested (url_R pdfHintResult)) w)
         \<lparr>files := (files w)(''/tmp/tempFile-download.pdf'' \<mapsto> ''<html>blocked</html>'')\<rparr>)"
    for w
    by (simp add: applySpecialtyParsing_def detect_pdfHint pl prefetchPdfFile_def
                  downloadFile_def Let_def c d scrapePDF_def scrapePDF_source_def truthy_def
                  record_event_simps)
  have sel: "selectEngineAndScrape envBlockedPdf metaForcedFetch w =
      (Inl PDFPrefetchFailed,
       metaForcedFetch\<lparr>pdfPrefetch := Prefetched
          \<lparr>filePath = ''/tmp/tempFile-download.pdf'', url_P = Some (url_resp htmlDownload),
           status_P = status_resp htmlDownload,
           proxyUsed_P = (case proxyUsed_R pdfHintResult of None \<Rightarrow> Basic | Some px \<Rightarrow> px),
           contentType_P = Some ''text/html''\<rparr>\<rparr>,
       (record_event (DownloadRequested (url_R pdfHintResult))
          (record_event (EngineInvoked Fetch) w))
         \<lparr>files := (files w)(''/tmp/tempFile-download.pdf'' \<mapsto> ''<html>blocked</html>'')\<rparr>)"
    for w
    by (simp add: selectEngineAndScrape_def selectEngineAndScrape_live_def Let_def g c
                  set_has_def scrapeURLWithEngine_eq ap record_event_simps)
  have t0: "trace world0 = []"
    by (simp add: world0_def)
  have run: "thrown (scrapeURLSingle envBlockedPdf metaForcedFetch world0) = Some PDFPrefetchFailed
   \<and> files (snd (snd (scrapeURLSingle envBlockedPdf metaForcedFetch world0)))
        ''/tmp/tempFile-download.pdf'' = Some ''<html>blocked</html>''
   \<and> unlinkCalls ''/tmp/tempFile-download.pdf''
        (trace (snd (snd (scrapeURLSingle envBlockedPdf metaForcedFetch world0)))) = 0"
    by (simp add: scrapeURLSingle_def Let_def g c sel thrown_def scrapingLogged_def
                  record_event_simps logMsg_simps unlinkCalls_append t0)
  show ?thesis
    using run b unfolding a by simp
qed

lemma unlinkCalls_logMsg: "unlinkCalls p (trace (logMsg l m w)) = unlinkCalls p (trace w)"
  by (simp add: logMsg_simps unlinkCalls_append)

lemma readFile_unlinkCalls:
  "readFile path w = (res, w') \<Longrightarrow> unlinkCalls p (trace w') = unlinkCalls p (trace w)"
  by (auto simp: readFile_def record_event_simps unlinkCalls_append split: option.splits)

lemma scrapePDFWithParsePDF_unlinkCalls:
  "scrapePDFWithParsePDF e m path w = (res, w') \<Longrightarrow>
     unlinkCalls p (trace w') = unlinkCalls p (trace w)"
  by (auto simp: scrapePDFWithParsePDF_def Let_def unlinkCalls_logMsg
           split: prod.splits sum.splits dest!: readFile_unlinkCalls[where p=p])

lemma scrapePDF_process_unlinkCalls:
  "scrapePDF_process e m path b mp w = (res, w') \<Longrightarrow>
     unlinkCalls p (trace w') = unlinkCalls p (trace w)"
  by (auto simp: scrapePDF_process_def unlinkCalls_logMsg split: if_splits sum.splits
           dest!: scrapePDFWithParsePDF_unlinkCalls[where p=p])

lemma scrapePDF_try_unlinkCalls:
  "scrapePDF_try e m src w = (res, w') \<Longrightarrow> unlinkCalls p (trace w') = unlinkCalls p (trace w)"
  unfolding scrapePDF_try_def Let_def
  by (auto split: if_splits sum.splits prod.splits option.splits
           dest!: scrapePDF_process_unlinkCalls[where p=p] readFile_unlinkCalls[where p=p])

lemma scrapePDF_finally_effect:
  "unlinkCalls path (trace (scrapePDF_finally path w)) = Suc (unlinkCalls path (trace w))
   \<and> files (scrapePDF_finally path w) path = None"
  by (simp add: scrapePDF_finally_def unlink_def record_event_simps logMsg_simps
                unlinkCalls_append split: option.splits)

text \<open>
  Once scrapePDF has bound tempFilePath without throwing, whatever its try block does
  (return, parser failure, insufficient time, abort), the result is the try block's, unlink
  is called on the temporary file exactly once, and the file is gone afterwards.
\<close>

theorem scrapePDF_cleans_up_after_try:
  "scrapePDF_source e meta w = (Inr src, w1) \<longrightarrow>
     fst (scrapePDF e meta w) = fst (scrapePDF_try e meta src w1)
     \<and> unlinkCalls (src_tempFilePath src) (trace (snd (scrapePDF e meta w))) =
         Suc (unlinkCalls (src_tempFilePath src) (trace w1))
     \<and> files (snd (scrapePDF e meta w)) (src_tempFilePath src) = None"
proof
  assume s: "scrapePDF_source e meta w = (Inr src, w1)"
  obtain res w2 where t: "scrapePDF_try e meta src w1 = (res, w2)"
    by (cases "scrapePDF_try e meta src w1") auto
  have run: "scrapePDF e meta w = (res, scrapePDF_finally (src_tempFilePath src) w2)"
    by (simp add: scrapePDF_def s t)
  show "fst (scrapePDF e meta w) = fst (scrapePDF_try e meta src w1)
     \<and> unlinkCalls (src_tempFilePath src) (trace (snd (scrapePDF e meta w))) =
         Suc (unlinkCalls (src_tempFilePath src) (trace w1))
     \<and> files (snd (scrapePDF e meta w)) (src_tempFilePath src) = None"
    unfolding run t
    using scrapePDF_finally_effect[of "src_tempFilePath src" w2]
          scrapePDF_try_unlinkCalls[OF t, of "src_tempFilePath src"]
    by simp
qed

theorem scrapePDF_cleans_up_after_try_witness:
  "scrapePDF_source env0 metaPdfPrefetch worldWithTemp =
     (Inr \<lparr>src_tempFilePath = ''/tmp/tempFile-download.pdf'',
            src_responseUrl = ''https://example.com/a.pdf'', src_statusCode = 200,
            src_contentType = Some ''application/pdf'', src_proxyUsed = Basic\<rparr>, worldWithTemp)
   \<and> unlinkCalls ''/tmp/tempFile-download.pdf''
        (trace (snd (scrapePDF env0 metaPdfPrefetch worldWithTemp))) = 1
   \<and> files (snd (scrapePDF env0 metaPdfPrefetch worldWithTemp)) ''/tmp/tempFile-download.pdf''
       = None"
proof -
  let ?src = "\<lparr>src_tempFilePath = ''/tmp/tempFile-download.pdf'',
            src_responseUrl = ''https://example.com/a.pdf'', src_statusCode = 200,
            src_contentType = Some ''application/pdf'', src_proxyUsed = Basic\<rparr>"
  have s: "scrapePDF_source env0 metaPdfPrefetch worldWithTemp = (Inr ?src, worldWithTemp)"
    by (simp add: scrapePDF_source_def metaPdfPrefetch_def pdfPrefetch0_def htmlPrefetch_def
                  Let_def truthy_def)
  have u: "unlinkCalls ''/tmp/tempFile-download.pdf'' (trace worldWithTemp) = 0"
    by (simp add: worldWithTemp_def world0_def)
  from scrapePDF_cleans_up_after_try[of env0 metaPdfPrefetch worldWithTemp ?src worldWithTemp] s u
  show ?thesis by simp
qed

end
